theory Spec2Isabelle
  imports Complex_Main "HOL-Library.Sublist"
begin

section \<open>Python values and errors\<close>

text \<open>
  The handlers are Python. A raised exception is a value of type \<open>error\<close>; a function
  that can raise returns \<open>error + 'a\<close> with \<open>Inl\<close> for the exception.
\<close>

datatype error =
    ValueError string
  | AssertionError string
  | RuntimeError string
  | KeyError string
  | IndexError
  | AttributeError string
  | ExternalError string

text \<open>
  The values a request dictionary or a parameter object holds. \<open>PObject\<close> is an object the
  handler only passes on (always truthy). \<open>truthy\<close> is Python's truth test, the one
  \<^verbatim>\<open>if value:\<close> and \<^verbatim>\<open>if not value:\<close> apply.
\<close>

datatype pyval =
    PNone
  | PBool bool
  | PInt int
  | PFloat rat
  | PStr string
  | PList "pyval list"
  | PObject string

fun truthy :: "pyval \<Rightarrow> bool" where
  "truthy PNone = False"
| "truthy (PBool b) = b"
| "truthy (PInt i) = (i \<noteq> 0)"
| "truthy (PFloat x) = (x \<noteq> 0)"
| "truthy (PStr s) = (s \<noteq> [])"
| "truthy (PList xs) = (xs \<noteq> [])"
| "truthy (PObject n) = True"

text \<open>\<^verbatim>\<open>d.get(k)\<close> on a dictionary: \<open>None\<close> for a missing key.\<close>

definition dict_get :: "(string \<rightharpoonup> pyval) \<Rightarrow> string \<Rightarrow> pyval" where
  "dict_get d k = (case d k of None \<Rightarrow> PNone | Some v \<Rightarrow> v)"

section \<open>KV transfer metrics (trtllm \<open>HandlerBase.calculate_kv_perf_metrics\<close>)\<close>

text \<open>
  \<^verbatim>\<open>
  def calculate_kv_perf_metrics(self, bytes, start, end):
      if bytes == 0:
          return (-1, -1)
      assert start < end, "kv cache performance start time is greater than the end time!"
      total_time = end - start
      return (total_time, bytes / total_time)
  \<close>
  The arguments are Python numbers (a byte count and two \<open>total_seconds()\<close> readings);
  they are modelled as exact rationals, \<open>/\<close> being Python's true division. The run
  records which of the two guarded operations it evaluated: the assertion and the division.
\<close>

datatype kv_step = AssertEvaluated | DivisionPerformed

definition calculate_kv_perf_metrics_run ::
  "rat \<Rightarrow> rat \<Rightarrow> rat \<Rightarrow> kv_step list \<times> (error + rat \<times> rat)" where
  "calculate_kv_perf_metrics_run bytes start end_t =
     (if bytes = 0 then ([], Inr (-1, -1))
      else if \<not> start < end_t then
        ([AssertEvaluated],
         Inl (AssertionError ''kv cache performance start time is greater than the end time!''))
      else
        let total_time = end_t - start
        in ([AssertEvaluated, DivisionPerformed], Inr (total_time, bytes / total_time)))"

definition calculate_kv_perf_metrics :: "rat \<Rightarrow> rat \<Rightarrow> rat \<Rightarrow> error + rat \<times> rat" where
  "calculate_kv_perf_metrics bytes start end_t = snd (calculate_kv_perf_metrics_run bytes start end_t)"

definition kv_steps :: "rat \<Rightarrow> rat \<Rightarrow> rat \<Rightarrow> kv_step list" where
  "kv_steps bytes start end_t = fst (calculate_kv_perf_metrics_run bytes start end_t)"

section \<open>The TensorRT-LLM handler (trtllm \<open>handler_base.py\<close>)\<close>

datatype DisaggregationMode = AGGREGATED | PREFILL | DECODE | ENCODE

text \<open>
  \<open>LlmDisaggregatedParams\<close> is the engine's class (tensorrt_llm, outside the sources); its
  fields are those of the data model: the request-type tag, the context request id and the
  engine's opaque payload. The wire form \<open>DisaggregatedParams\<close> and the codec between the
  two (\<open>dynamo.trtllm.utils.disagg_utils\<close>) are outside the sources as well: the wire form is
  the type parameter \<open>'w\<close>, the codec's two functions are parameters.
\<close>

record LlmDisaggregatedParams =
  request_type :: string
  ctx_request_id :: "int option"
  opaque_state :: "string option"

definition context_only_params :: LlmDisaggregatedParams where
  "context_only_params =
     \<lparr>request_type = ''context_only'', ctx_request_id = None, opaque_state = None\<rparr>"

text \<open>
  \<open>SamplingParams\<close> (tensorrt_llm) is an object with attributes: a map from attribute names
  to values. \<^verbatim>\<open>hasattr(sp, key)\<close> is membership in the domain, \<^verbatim>\<open>setattr\<close> a map update.
\<close>

type_synonym SamplingParams = "string \<rightharpoonup> pyval"

text \<open>
  The request dictionary. \<open>sampling_options\<close> is kept as the list of its items, in the
  order \<^verbatim>\<open>.items()\<close> yields them (the keys of a dictionary are distinct);
  \<open>stop_conditions\<close> is a dictionary; \<open>disaggregated_params\<close> is \<open>None\<close> when the key is not
  in the request.
\<close>

record 'w request =
  token_ids :: "int list option"
  stop_conditions :: "string \<rightharpoonup> pyval"
  sampling_options :: "(string \<times> pyval) list"
  disaggregated_params :: "'w option"
  id_key :: "string option"
  request_id_key :: "string option"
  model_key :: "string option"

record timing_metrics =
  kv_cache_size :: rat
  kv_cache_transfer_start :: rat
  kv_cache_transfer_end :: rat
  first_token_time :: rat

record request_perf_metrics =
  timing :: "timing_metrics option"

record completion_output =
  out_token_ids :: "int list"
  out_finish_reason :: "string option"
  out_stop_reason :: pyval
  out_disaggregated_params :: "LlmDisaggregatedParams option"
  out_request_perf_metrics :: "request_perf_metrics option"

text \<open>One item of the engine's stream: a snapshot with the cumulative outputs so far.\<close>

record request_output =
  finished :: bool
  outputs :: "completion_output list"

datatype 'p engine_input = TokenIds "int list option" | Processed 'p

record 'p engine_call =
  call_inputs :: "'p engine_input"
  call_sampling_params :: SamplingParams
  call_disaggregated_params :: "LlmDisaggregatedParams option"
  call_streaming :: bool

text \<open>
  A response chunk (a dictionary). In the text-only flow \<open>chunk_base\<close> is \<open>None\<close> and
  \<open>chunk_token_ids\<close> is set; with a multimodal processor \<open>chunk_base\<close> is the dictionary the
  processor built, and the other fields are the keys the handler sets on top of it.
\<close>

record ('w, 'c) chunk =
  chunk_base :: "'c option"
  chunk_token_ids :: "int list option"
  chunk_finish_reason :: "string option"
  chunk_stop_reason :: "pyval option"
  chunk_disaggregated_params :: "'w option"
  chunk_ctx_request_id :: "int option"

definition empty_chunk :: "('w, 'c) chunk" where
  "empty_chunk =
     \<lparr>chunk_base = None, chunk_token_ids = None, chunk_finish_reason = None,
      chunk_stop_reason = None, chunk_disaggregated_params = None,
      chunk_ctx_request_id = None\<rparr>"

text \<open>
  The collaborators outside the sources, as parameters: the multimodal processor's three
  methods, the codec, the engine's \<open>generate_async\<close> (the finite stream it yields for a
  call) and the environment flag of the test-only logits processor.
\<close>

record ('w, 'c, 'p) multimodal_processor =
  process_openai_request :: "'w request \<Rightarrow> error + 'p"
  get_stop_response :: "string \<Rightarrow> string \<Rightarrow> 'c"
  create_response_chunk :: "completion_output \<Rightarrow> nat \<Rightarrow> string \<Rightarrow> string \<Rightarrow> 'c"

record ('w, 'c, 'p) collaborators =
  multimodal :: "('w, 'c, 'p) multimodal_processor option"
  codec_decode :: "'w \<Rightarrow> LlmDisaggregatedParams"
  codec_encode :: "LlmDisaggregatedParams option \<Rightarrow> 'w"
  generate_async :: "'p engine_call \<Rightarrow> request_output list"
  test_logits_processor :: bool

text \<open>
  The publisher, as far as the handler uses it: the error \<open>check_error_queue()\<close> returns,
  the number of \<open>start()\<close> calls and the latencies handed to \<open>publish_kv_perf\<close>.
\<close>

record publisher_state =
  queued_error :: "error option"
  start_calls :: nat
  published_kv_perf :: "rat list"

record handler =
  disaggregation_mode :: DisaggregationMode
  default_sampling_params :: SamplingParams
  publisher :: "publisher_state option"
  first_generation :: bool

subsection \<open>\<open>generate_locally\<close>, lines 186-205: the disaggregated parameters\<close>

text \<open>
  \<^verbatim>\<open>
  disaggregated_params = None
  if self.disaggregation_mode == DisaggregationMode.PREFILL:
      request["stop_conditions"]["max_tokens"] = 1
      disaggregated_params = LlmDisaggregatedParams(request_type="context_only")
  if "disaggregated_params" in request:
      if self.disaggregation_mode == DisaggregationMode.PREFILL:
          raise ValueError("Cannot provide disaggregated_params in prefill mode")
      disaggregated_params = DisaggregatedParamsCodec.decode(
          DisaggregatedParams(**request["disaggregated_params"]))
      disaggregated_params.request_type = "generation_only"
  if (self.disaggregation_mode == DisaggregationMode.DECODE
          and disaggregated_params is None):
      raise ValueError("Disaggregated params are required for decode mode")
  \<close>
  The assignment writes into the caller's dictionary, so the step returns the request as
  it is afterwards, also when it raises.
\<close>

definition decode_request_params ::
  "('w \<Rightarrow> LlmDisaggregatedParams) \<Rightarrow> DisaggregationMode \<Rightarrow> 'w request \<Rightarrow>
     'w request \<times> (error + LlmDisaggregatedParams option)" where
  "decode_request_params decode mode request =
     (let (request1, dp1) =
            (if mode = PREFILL
             then (request\<lparr>stop_conditions := (stop_conditions request)(''max_tokens'' \<mapsto> PInt 1)\<rparr>,
                   Some context_only_params)
             else (request, None))
      in case disaggregated_params request1 of
           Some w \<Rightarrow>
             if mode = PREFILL
             then (request1, Inl (ValueError ''Cannot provide disaggregated_params in prefill mode''))
             else (request1, Inr (Some ((decode w)\<lparr>request_type := ''generation_only''\<rparr>)))
         | None \<Rightarrow>
             if mode = DECODE \<and> dp1 = None
             then (request1, Inl (ValueError ''Disaggregated params are required for decode mode''))
             else (request1, Inr dp1))"

subsection \<open>\<open>generate_locally\<close>, lines 209-227: the sampling parameters\<close>

text \<open>
  \<^verbatim>\<open>
  sampling_params = copy.deepcopy(self.default_sampling_params)
  for key, value in request["sampling_options"].items():
      if not value:
          continue
      if hasattr(sampling_params, key):
          setattr(sampling_params, key, value)
  max_tokens = request["stop_conditions"]["max_tokens"]
  if max_tokens:
      sampling_params.max_tokens = max_tokens
  ignore_eos = request["stop_conditions"].get("ignore_eos")
  if ignore_eos:
      sampling_params.ignore_eos = ignore_eos
  min_tokens = request["stop_conditions"].get("min_tokens")
  if min_tokens:
      sampling_params.min_tokens = min_tokens
  \<close>
\<close>

fun merge_sampling_options :: "SamplingParams \<Rightarrow> (string \<times> pyval) list \<Rightarrow> SamplingParams" where
  "merge_sampling_options sp [] = sp"
| "merge_sampling_options sp ((key, v) # rest) =
     (if \<not> truthy v then merge_sampling_options sp rest
      else if key \<in> dom sp then merge_sampling_options (sp(key \<mapsto> v)) rest
      else merge_sampling_options sp rest)"

definition set_if_truthy :: "string \<Rightarrow> pyval \<Rightarrow> SamplingParams \<Rightarrow> SamplingParams" where
  "set_if_truthy attr v sp = (if truthy v then sp(attr \<mapsto> v) else sp)"

definition derive_sampling_params ::
  "SamplingParams \<Rightarrow> 'w request \<Rightarrow> error + SamplingParams" where
  "derive_sampling_params defaults request =
     (let sp = merge_sampling_options defaults (sampling_options request)
      in case stop_conditions request ''max_tokens'' of
           None \<Rightarrow> Inl (KeyError ''max_tokens'')
         | Some max_tokens \<Rightarrow>
             Inr (set_if_truthy ''min_tokens'' (dict_get (stop_conditions request) ''min_tokens'')
                   (set_if_truthy ''ignore_eos'' (dict_get (stop_conditions request) ''ignore_eos'')
                     (set_if_truthy ''max_tokens'' max_tokens sp))))"

subsection \<open>\<open>generate_locally\<close>, lines 245-311: the stream loop\<close>

text \<open>
  \<^verbatim>\<open>
  if self.first_generation and self.publisher:
      self.publisher.start()
      self.first_generation = False
  \<close>
\<close>

definition start_publisher_once :: "handler \<Rightarrow> handler" where
  "start_publisher_once h =
     (case publisher h of
        Some p \<Rightarrow>
          if first_generation h
          then h\<lparr>publisher := Some (p\<lparr>start_calls := Suc (start_calls p)\<rparr>),
                 first_generation := False\<rparr>
          else h
      | None \<Rightarrow> h)"

text \<open>
  Lines 262-271: the KV transfer metrics of the finished output, handed to the publisher.
  \<open>self.publisher.publish_kv_perf\<close> is called without the test for a publisher the other
  uses have, so a handler with no publisher raises \<open>AttributeError\<close> there.
\<close>

definition publish_kv_metrics :: "handler \<Rightarrow> completion_output \<Rightarrow> error + handler" where
  "publish_kv_metrics h output =
     (case out_request_perf_metrics output of
        None \<Rightarrow> Inr h
      | Some pm \<Rightarrow>
          (case timing pm of
             None \<Rightarrow> Inr h
           | Some tm \<Rightarrow>
               (case calculate_kv_perf_metrics (kv_cache_size tm) (kv_cache_transfer_start tm)
                       (kv_cache_transfer_end tm) of
                  Inl e \<Rightarrow> Inl e
                | Inr (latency, bytes_per_second) \<Rightarrow>
                    (case publisher h of
                       None \<Rightarrow> Inl (AttributeError ''publish_kv_perf'')
                     | Some p \<Rightarrow>
                         Inr (h\<lparr>publisher :=
                                  Some (p\<lparr>published_kv_perf := published_kv_perf p @ [latency]\<rparr>)\<rparr>)))))"

text \<open>
  Lines 259-284: the final chunk of a finished snapshot, outside PREFILL mode.
  \<^verbatim>\<open>
  final_out = {}
  output = res.outputs[0]
  ... (the metrics above)
  if output.disaggregated_params:
      final_out["ctx_request_id"] = output.disaggregated_params.ctx_request_id
  if self.multimodal_processor:
      final_out.update(self.multimodal_processor.get_stop_response(request_id, model_name))
      yield final_out
  else:
      item = {"finish_reason": "stop", "token_ids": []}
      final_out.update(item)
      yield final_out
  break
  \<close>
\<close>

definition final_chunk ::
  "('w, 'c, 'p) collaborators \<Rightarrow> string \<Rightarrow> string \<Rightarrow> handler \<Rightarrow> request_output \<Rightarrow>
     error + handler \<times> ('w, 'c) chunk" where
  "final_chunk ext request_id model_name h res =
     (case outputs res of
        [] \<Rightarrow> Inl IndexError
      | output # _ \<Rightarrow>
          (case publish_kv_metrics h output of
             Inl e \<Rightarrow> Inl e
           | Inr h' \<Rightarrow>
               let final_out =
                     empty_chunk\<lparr>chunk_ctx_request_id :=
                       (case out_disaggregated_params output of
                          None \<Rightarrow> None
                        | Some dp \<Rightarrow> ctx_request_id dp)\<rparr>
               in (case multimodal ext of
                     Some mm \<Rightarrow>
                       Inr (h', final_out\<lparr>chunk_base := Some (get_stop_response mm request_id model_name)\<rparr>)
                   | None \<Rightarrow>
                       Inr (h', final_out\<lparr>chunk_finish_reason := Some ''stop'',
                                          chunk_token_ids := Some []\<rparr>))))"

text \<open>
  Lines 286-311: the error chunk of a snapshot with no outputs, and the delta chunk.
  \<^verbatim>\<open>
  if not res.outputs:
      yield {"finish_reason": "error", "token_ids": []}
      break
  output = res.outputs[0]
  next_total_toks = len(output.token_ids)
  if self.multimodal_processor:
      out = self.multimodal_processor.create_response_chunk(
          output, num_output_tokens_so_far, request_id, model_name)
  else:
      out = {"token_ids": output.token_ids[num_output_tokens_so_far:]}
  if output.finish_reason:
      out["finish_reason"] = output.finish_reason
  if output.stop_reason:
      out["stop_reason"] = output.stop_reason
  if self.disaggregation_mode == DisaggregationMode.PREFILL:
      out["disaggregated_params"] = asdict(
          DisaggregatedParamsCodec.encode(output.disaggregated_params))
  yield out
  num_output_tokens_so_far = next_total_toks
  \<close>
\<close>

definition error_chunk :: "('w, 'c) chunk" where
  "error_chunk = empty_chunk\<lparr>chunk_finish_reason := Some ''error'', chunk_token_ids := Some []\<rparr>"

definition delta_chunk ::
  "('w, 'c, 'p) collaborators \<Rightarrow> string \<Rightarrow> string \<Rightarrow> DisaggregationMode \<Rightarrow> nat \<Rightarrow>
     completion_output \<Rightarrow> ('w, 'c) chunk" where
  "delta_chunk ext request_id model_name mode num_output_tokens_so_far output =
     (let out0 =
            (case multimodal ext of
               Some mm \<Rightarrow>
                 empty_chunk\<lparr>chunk_base :=
                   Some (create_response_chunk mm output num_output_tokens_so_far request_id model_name)\<rparr>
             | None \<Rightarrow>
                 empty_chunk\<lparr>chunk_token_ids :=
                   Some (drop num_output_tokens_so_far (out_token_ids output))\<rparr>);
          out1 =
            (case out_finish_reason output of
               Some r \<Rightarrow> if r \<noteq> [] then out0\<lparr>chunk_finish_reason := Some r\<rparr> else out0
             | None \<Rightarrow> out0);
          out2 =
            (if truthy (out_stop_reason output)
             then out1\<lparr>chunk_stop_reason := Some (out_stop_reason output)\<rparr> else out1)
      in if mode = PREFILL
         then out2\<lparr>chunk_disaggregated_params :=
                Some (codec_encode ext (out_disaggregated_params output))\<rparr>
         else out2)"

text \<open>
  The loop over the engine's stream. It returns the handler as the loop leaves it, the
  chunks yielded in order, and the exception that ended the generator, if one did.
\<close>

fun stream_chunks ::
  "('w, 'c, 'p) collaborators \<Rightarrow> string \<Rightarrow> string \<Rightarrow> handler \<Rightarrow> nat \<Rightarrow> request_output list \<Rightarrow>
     handler \<times> ('w, 'c) chunk list \<times> error option" where
  "stream_chunks ext request_id model_name h num_output_tokens_so_far [] = (h, [], None)"
| "stream_chunks ext request_id model_name h num_output_tokens_so_far (res # rest) =
     (let h1 = start_publisher_once h
      in if finished res \<and> disaggregation_mode h1 \<noteq> PREFILL then
           (case final_chunk ext request_id model_name h1 res of
              Inl e \<Rightarrow> (h1, [], Some e)
            | Inr (h2, final_out) \<Rightarrow> (h2, [final_out], None))
         else
           (case outputs res of
              [] \<Rightarrow> (h1, [error_chunk], None)
            | output # _ \<Rightarrow>
                (case stream_chunks ext request_id model_name h1
                        (length (out_token_ids output)) rest of
                   (h2, chunks, err) \<Rightarrow>
                     (h2,
                      delta_chunk ext request_id model_name (disaggregation_mode h1)
                        num_output_tokens_so_far output # chunks,
                      err))))"

subsection \<open>\<open>generate_locally\<close> as a whole\<close>

text \<open>
  What one call of \<open>generate_locally\<close> leaves behind: the caller's request dictionary as it
  is afterwards, the handler's state, the calls made to the engine, the chunks yielded and
  the exception raised, if any. The generator is run to its end.
\<close>

record ('w, 'c, 'p) run =
  request_after :: "'w request"
  handler_after :: handler
  engine_calls :: "'p engine_call list"
  yielded :: "('w, 'c) chunk list"
  raised :: "error option"

definition failed_run :: "'w request \<Rightarrow> handler \<Rightarrow> error \<Rightarrow> ('w, 'c, 'p) run" where
  "failed_run request h e =
     \<lparr>request_after = request, handler_after = h, engine_calls = [], yielded = [],
      raised = Some e\<rparr>"

text \<open>
  Lines 167-177: the input. The multimodal processor is taken to read the request without
  changing it.
\<close>

definition process_input ::
  "('w, 'c, 'p) collaborators \<Rightarrow> 'w request \<Rightarrow> error + 'p engine_input" where
  "process_input ext request =
     (case multimodal ext of
        Some mm \<Rightarrow>
          (case process_openai_request mm request of
             Inl e \<Rightarrow> Inl e
           | Inr processed \<Rightarrow> Inr (Processed processed))
      | None \<Rightarrow> Inr (TokenIds (token_ids request)))"

text \<open>
  Lines 179-184: \<^verbatim>\<open>self.publisher.check_error_queue() if self.publisher else None\<close>.
\<close>

definition publishers_error :: "handler \<Rightarrow> error option" where
  "publishers_error h = (case publisher h of None \<Rightarrow> None | Some p \<Rightarrow> queued_error p)"

text \<open>
  Line 235: \<^verbatim>\<open>request.get("id") or request.get("request_id", "unknown-id")\<close>, and line 236.
\<close>

definition request_id_of :: "'w request \<Rightarrow> string" where
  "request_id_of request =
     (let fallback = (case request_id_key request of None \<Rightarrow> ''unknown-id'' | Some r \<Rightarrow> r)
      in case id_key request of
           None \<Rightarrow> fallback
         | Some i \<Rightarrow> if i \<noteq> [] then i else fallback)"

definition model_name_of :: "'w request \<Rightarrow> string" where
  "model_name_of request = (case model_key request of None \<Rightarrow> ''unknown_model'' | Some m \<Rightarrow> m)"

text \<open>
  Lines 238-242: with the environment flag set, the test logits processor's adapters are
  attached to the sampling parameters.
\<close>

definition attach_test_logits_processor ::
  "('w, 'c, 'p) collaborators \<Rightarrow> SamplingParams \<Rightarrow> SamplingParams" where
  "attach_test_logits_processor ext sp =
     (if test_logits_processor ext
      then sp(''logits_processor'' \<mapsto> PList [PObject ''HelloWorldLogitsProcessor''])
      else sp)"

definition generate_locally ::
  "('w, 'c, 'p) collaborators \<Rightarrow> handler \<Rightarrow> 'w request \<Rightarrow> ('w, 'c, 'p) run" where
  "generate_locally ext h request =
     (case process_input ext request of
        Inl e \<Rightarrow> failed_run request h e
      | Inr processed_input \<Rightarrow>
          (case publishers_error h of
             Some e \<Rightarrow> failed_run request h e
           | None \<Rightarrow>
               (case decode_request_params (codec_decode ext) (disaggregation_mode h) request of
                  (request1, Inl e) \<Rightarrow> failed_run request1 h e
                | (request1, Inr disaggregated) \<Rightarrow>
                    (case derive_sampling_params (default_sampling_params h) request1 of
                       Inl e \<Rightarrow> failed_run request1 h e
                     | Inr sampling_params \<Rightarrow>
                         let call =
                               \<lparr>call_inputs = processed_input,
                                call_sampling_params =
                                  attach_test_logits_processor ext sampling_params,
                                call_disaggregated_params = disaggregated,
                                call_streaming = (disaggregation_mode h \<noteq> PREFILL)\<rparr>
                         in (case stream_chunks ext (request_id_of request1)
                                    (model_name_of request1) h 0 (generate_async ext call) of
                               (h', chunks, err) \<Rightarrow>
                                 \<lparr>request_after = request1, handler_after = h',
                                  engine_calls = [call], yielded = chunks, raised = err\<rparr>)))))"

section \<open>The SGLang handlers (sglang \<open>handler_base.py\<close>, \<open>decode_handler.py\<close>, \<open>prefill_handler.py\<close>)\<close>

subsection \<open>Data\<close>

text \<open>
  The serving mode (\<open>dynamo.sglang.args.DisaggregationMode\<close>), of which the handlers test
  \<open>DECODE\<close> and \<open>PREFILL\<close>.
\<close>

datatype serving_mode = SGL_AGGREGATED | SGL_PREFILL | SGL_DECODE

text \<open>
  The context is the transport's (\<open>dynamo._core.Context\<close>): an id and the two signals. The
  signals change outside the handler, so each is a function of the handler's logical time,
  the number of cancellation checks it has made before the one at hand.
\<close>

record Context =
  ctx_id :: string
  is_stopped :: "nat \<Rightarrow> bool"
  is_killed :: "nat \<Rightarrow> bool"

definition signalled :: "Context option \<Rightarrow> nat \<Rightarrow> bool" where
  "signalled ctx t = (case ctx of None \<Rightarrow> False | Some c \<Rightarrow> is_stopped c t \<or> is_killed c t)"

text \<open>
  The request dictionary: the two nested dictionaries (\<open>None\<close> for a missing key), the
  scalar top-level keys of the OpenAI format, and the two inputs.
\<close>

record sgl_request =
  sgl_sampling_options :: "(string \<rightharpoonup> pyval) option"
  sgl_stop_conditions :: "(string \<rightharpoonup> pyval) option"
  sgl_top_level :: "string \<rightharpoonup> pyval"
  sgl_token_ids :: "int list option"
  sgl_messages :: "pyval option"

text \<open>
  A snapshot of the engine's stream (a dictionary). \<open>meta_info["finish_reason"]\<close> is
  missing, \<open>None\<close>, or a dictionary, kept as the list of its items.
\<close>

datatype finish_reason_entry = FrMissing | FrNone | FrDict "(string \<times> pyval) list"

record meta_info =
  mi_id :: "string option"
  mi_finish_reason :: finish_reason_entry

record snapshot =
  meta :: "meta_info option"
  output_ids :: "int list option"
  text_key :: "string option"
  index_key :: "int option"

record token_chunk =
  tc_token_ids :: "int list"
  tc_finish_reason :: "pyval option"

record text_chunk =
  tx_id :: string
  tx_created :: int
  tx_index :: int
  tx_role :: string
  tx_content :: string
  tx_finish_reason :: "pyval option"
  tx_model :: string
  tx_object :: string

datatype sgl_input = InputIds "int list" | Prompt string

record sgl_engine_call =
  sgl_input_param :: sgl_input
  sgl_call_sampling_params :: "(string \<times> pyval) list"
  sgl_call_stream :: bool
  sgl_call_bootstrap :: "(pyval \<times> pyval \<times> pyval) option"

text \<open>\<open>DisaggPreprocessedRequest(request=..., sampling_params=...).model_dump()\<close>.\<close>

record prefill_request =
  pr_request :: sgl_request
  pr_sampling_params :: "(string \<times> pyval) list"

text \<open>
  What a handler does, in order: the items it yields and the calls it makes. A run of a
  handler is its trace and the exception that ended it, if one did.
\<close>

datatype event =
    PrefillRequested prefill_request
  | PrefillItemRead "(string \<times> pyval) list"
  | CancellationChecked bool
  | EngineCalled sgl_engine_call
  | MonitorStarted string
  | MonitorJoined string
  | TaskSpawned
  | YieldTokens token_chunk
  | YieldText text_chunk
  | YieldBootstrap "(string \<times> pyval) list"

record sgl_run =
  trace :: "event list"
  sgl_raised :: "error option"

text \<open>
  The collaborators outside the sources: the engine's \<open>async_generate\<close> (the finite stream
  it yields for a call), the prefill client's \<open>generate\<close> (the data of the items of its
  stream), the tokenizer's chat template and the clock read by \<^verbatim>\<open>int(time.time())\<close> at the
  n-th chunk.
\<close>

record sgl_collaborators =
  async_generate :: "sgl_engine_call \<Rightarrow> snapshot list"
  prefill_client_generate :: "prefill_request \<Rightarrow> (string \<times> pyval) list list"
  apply_chat_template :: "pyval \<Rightarrow> string"
  clock :: "nat \<Rightarrow> int"

record sgl_handler =
  serving :: serving_mode
  skip_tokenizer_init :: bool
  served_model_name :: string

subsection \<open>\<open>BaseWorkerHandler\<close>\<close>

text \<open>
  \<^verbatim>\<open>
  def _get_input_param(self, request):
      if self.skip_tokenizer_init:
          return {"input_ids": request["token_ids"]}
      else:
          prompt = self.engine.tokenizer_manager.tokenizer.apply_chat_template(
              request["messages"], tokenize=False, add_generation_prompt=True)
          return {"prompt": prompt}
  \<close>
\<close>

definition get_input_param :: "sgl_collaborators \<Rightarrow> bool \<Rightarrow> sgl_request \<Rightarrow> error + sgl_input" where
  "get_input_param ext skip request =
     (if skip then
        (case sgl_token_ids request of
           None \<Rightarrow> Inl (KeyError ''token_ids'')
         | Some ids \<Rightarrow> Inr (InputIds ids))
      else
        (case sgl_messages request of
           None \<Rightarrow> Inl (KeyError ''messages'')
         | Some m \<Rightarrow> Inr (Prompt (apply_chat_template ext m))))"

text \<open>
  \<^verbatim>\<open>random.randint(a, b)\<close> returns some integer \<open>N\<close> with \<open>a \<le> N \<le> b\<close>; which one is
  decided by the generator's state, here the number \<open>entropy\<close> it draws.
  \<^verbatim>\<open>
  def _generate_bootstrap_room() -> int:
      return random.randint(0, 2**63 - 1)
  \<close>
\<close>

definition randint :: "int \<Rightarrow> int \<Rightarrow> nat \<Rightarrow> int" where
  "randint a b entropy = a + int entropy mod (b - a + 1)"

definition generate_bootstrap_room :: "nat \<Rightarrow> int" where
  "generate_bootstrap_room entropy = randint 0 (2 ^ 63 - 1) entropy"

text \<open>
  \<open>_cancellation_monitor(sglang_request_id, context)\<close> is an asynchronous context manager.
  Entering it (\<open>__aenter__\<close>) creates the background task that runs \<open>_handle_cancellation\<close>
  and hands the task out, or hands out \<open>None\<close> when there is no context. Leaving it
  (\<open>__aexit__\<close>, the \<^verbatim>\<open>finally\<close> block) cancels the task unless it is done and awaits it.
  The task itself waits for the stop or kill signal and then asks the engine to abort the
  request; what it does while it runs is not part of the trace.
  \<^verbatim>\<open>
  if not context:
      yield None
      return
  cancellation_task = asyncio.create_task(
      self._handle_cancellation(sglang_request_id, context))
  try:
      yield cancellation_task
  finally:
      if not cancellation_task.done():
          cancellation_task.cancel()
          try:
              await cancellation_task
          except asyncio.CancelledError:
              pass
  \<close>
\<close>

definition cancellation_monitor_enter ::
  "Context option \<Rightarrow> string \<Rightarrow> string option \<times> event list" where
  "cancellation_monitor_enter ctx sglang_rid =
     (case ctx of
        None \<Rightarrow> (None, [])
      | Some c \<Rightarrow> (Some sglang_rid, [MonitorStarted sglang_rid]))"

definition cancellation_monitor_exit :: "string \<Rightarrow> event list" where
  "cancellation_monitor_exit sglang_rid = [MonitorJoined sglang_rid]"

text \<open>
  Lines 184-193 of \<open>decode_handler.py\<close> (the same in \<open>_process_text_stream\<close> and in the
  prefill handler's \<open>_consume_results\<close>): with a context and no monitor yet, a snapshot whose
  \<open>meta_info\<close> has a non-empty \<open>id\<close> starts the cancellation monitor
  (\<open>_cancellation_monitor(...).__aenter__()\<close>, which creates the background task).
  \<open>cancellation_task\<close> is the id the running monitor was started for.
\<close>

definition sglang_request_id :: "snapshot \<Rightarrow> string option" where
  "sglang_request_id res =
     (case meta res of
        None \<Rightarrow> None
      | Some mi \<Rightarrow>
          (case mi_id mi of
             None \<Rightarrow> None
           | Some i \<Rightarrow> if i \<noteq> [] then Some i else None))"

definition start_monitor ::
  "Context option \<Rightarrow> string option \<Rightarrow> snapshot \<Rightarrow> string option \<times> event list" where
  "start_monitor ctx cancellation_task res =
     (if ctx \<noteq> None \<and> cancellation_task = None then
        (case sglang_request_id res of
           Some rid \<Rightarrow> cancellation_monitor_enter ctx rid
         | None \<Rightarrow> (None, []))
      else (cancellation_task, []))"

text \<open>The check \<^verbatim>\<open>if context and (context.is_stopped() or context.is_killed())\<close>.\<close>

definition check_event :: "Context option \<Rightarrow> nat \<Rightarrow> event list" where
  "check_event ctx t = (case ctx of None \<Rightarrow> [] | Some c \<Rightarrow> [CancellationChecked (signalled ctx t)])"

text \<open>
  The clean-up after the loop: \<^verbatim>\<open>if cancellation_task is not None:
  await cancellation_context.__aexit__(None, None, None)\<close>, which cancels the monitor task
  if it is not done and awaits it. The statement stands after the loop, outside any
  \<^verbatim>\<open>try\<close>/\<^verbatim>\<open>finally\<close>: it runs when the loop ends or breaks, not when the loop raises.
\<close>

definition cleanup_monitor :: "event list \<times> string option \<times> error option \<Rightarrow> sgl_run" where
  "cleanup_monitor r =
     (case r of (events, cancellation_task, err) \<Rightarrow>
        (case err of
           Some e \<Rightarrow> \<lparr>trace = events, sgl_raised = Some e\<rparr>
         | None \<Rightarrow>
             (case cancellation_task of
                Some rid \<Rightarrow>
                  \<lparr>trace = events @ cancellation_monitor_exit rid, sgl_raised = None\<rparr>
              | None \<Rightarrow> \<lparr>trace = events, sgl_raised = None\<rparr>)))"

subsection \<open>\<open>DecodeWorkerHandler\<close>\<close>

text \<open>
  \<^verbatim>\<open>
  def _build_sampling_params(self, request):
      if self.skip_tokenizer_init:
          sampling_opts = request.get("sampling_options", {})
          stop_conditions = request.get("stop_conditions", {})
          param_mapping = {
              "temperature": sampling_opts.get("temperature"),
              "top_p": sampling_opts.get("top_p"),
              "top_k": sampling_opts.get("top_k"),
              "max_new_tokens": stop_conditions.get("max_tokens"),
              "ignore_eos": stop_conditions.get("ignore_eos"),
          }
      else:
          param_mapping = {
              "temperature": request.get("temperature"),
              "top_p": request.get("top_p"),
              "top_k": request.get("top_k"),
              "max_new_tokens": request.get("max_tokens"),
          }
      return {k: v for k, v in param_mapping.items() if v is not None}
  \<close>
\<close>

definition get_dict :: "(string \<rightharpoonup> pyval) option \<Rightarrow> string \<rightharpoonup> pyval" where
  "get_dict d = (case d of None \<Rightarrow> Map.empty | Some m \<Rightarrow> m)"

definition build_sampling_params :: "bool \<Rightarrow> sgl_request \<Rightarrow> (string \<times> pyval) list" where
  "build_sampling_params skip request =
     (let param_mapping =
            (if skip then
               (let sampling_opts = get_dict (sgl_sampling_options request);
                    stop_conds = get_dict (sgl_stop_conditions request)
                in [(''temperature'', dict_get sampling_opts ''temperature''),
                    (''top_p'', dict_get sampling_opts ''top_p''),
                    (''top_k'', dict_get sampling_opts ''top_k''),
                    (''max_new_tokens'', dict_get stop_conds ''max_tokens''),
                    (''ignore_eos'', dict_get stop_conds ''ignore_eos'')])
             else
               [(''temperature'', dict_get (sgl_top_level request) ''temperature''),
                (''top_p'', dict_get (sgl_top_level request) ''top_p''),
                (''top_k'', dict_get (sgl_top_level request) ''top_k''),
                (''max_new_tokens'', dict_get (sgl_top_level request) ''max_tokens'')])
      in filter (\<lambda>(k, v). v \<noteq> PNone) param_mapping)"

text \<open>
  \<open>meta_info["finish_reason"]\<close> of a snapshot, and \<open>finish_reason["type"]\<close> when it is truthy
  (a non-empty dictionary): \<open>Inr None\<close> is a falsy finish reason.
\<close>

definition finish_reason_type :: "snapshot \<Rightarrow> error + pyval option" where
  "finish_reason_type res =
     (case meta res of
        None \<Rightarrow> Inl (KeyError ''meta_info'')
      | Some mi \<Rightarrow>
          (case mi_finish_reason mi of
             FrMissing \<Rightarrow> Inl (KeyError ''finish_reason'')
           | FrNone \<Rightarrow> Inr None
           | FrDict [] \<Rightarrow> Inr None
           | FrDict (kv # kvs) \<Rightarrow>
               (case map_of (kv # kvs) ''type'' of
                  None \<Rightarrow> Inl (KeyError ''type'')
                | Some ty \<Rightarrow> Inr (Some ty))))"

text \<open>
  The body of the loop of \<open>_process_token_stream\<close> below the cancellation check: the chunk
  for a snapshot and the new \<open>num_output_tokens_so_far\<close>.
  \<^verbatim>\<open>
  finish_reason = res["meta_info"]["finish_reason"]
  if finish_reason:
      out = {"token_ids": [], "finish_reason": finish_reason["type"]}
  else:
      try:
          next_total_toks = len(res["output_ids"])
      except KeyError:
          raise ValueError(f"Missing 'output_ids' in response. ...")
      out = {"token_ids": res["output_ids"][num_output_tokens_so_far:]}
      num_output_tokens_so_far = next_total_toks
  yield out
  \<close>
\<close>

definition token_chunk_of :: "nat \<Rightarrow> snapshot \<Rightarrow> error + token_chunk \<times> nat" where
  "token_chunk_of num_output_tokens_so_far res =
     (case finish_reason_type res of
        Inl e \<Rightarrow> Inl e
      | Inr (Some ty) \<Rightarrow>
          Inr (\<lparr>tc_token_ids = [], tc_finish_reason = Some ty\<rparr>, num_output_tokens_so_far)
      | Inr None \<Rightarrow>
          (case output_ids res of
             None \<Rightarrow> Inl (ValueError ''Missing output_ids in response'')
           | Some ids \<Rightarrow>
               Inr (\<lparr>tc_token_ids = drop num_output_tokens_so_far ids, tc_finish_reason = None\<rparr>,
                    length ids)))"

fun token_stream_loop ::
  "Context option \<Rightarrow> nat \<Rightarrow> nat \<Rightarrow> string option \<Rightarrow> snapshot list \<Rightarrow>
     event list \<times> string option \<times> error option" where
  "token_stream_loop ctx t num_output_tokens_so_far cancellation_task [] =
     ([], cancellation_task, None)"
| "token_stream_loop ctx t num_output_tokens_so_far cancellation_task (res # rest) =
     (case start_monitor ctx cancellation_task res of
        (task1, started) \<Rightarrow>
          if signalled ctx t then (started @ check_event ctx t, task1, None)
          else
            (case token_chunk_of num_output_tokens_so_far res of
               Inl e \<Rightarrow> (started @ check_event ctx t, task1, Some e)
             | Inr (out, next_total_toks) \<Rightarrow>
                 (case token_stream_loop ctx (Suc t) next_total_toks task1 rest of
                    (events, task2, err) \<Rightarrow>
                      (started @ check_event ctx t @ YieldTokens out # events, task2, err))))"

definition process_token_stream :: "Context option \<Rightarrow> nat \<Rightarrow> snapshot list \<Rightarrow> sgl_run" where
  "process_token_stream ctx t stream_source =
     cleanup_monitor (token_stream_loop ctx t 0 None stream_source)"

text \<open>
  The body of the loop of \<open>_process_text_stream\<close> below the cancellation check.
  \<^verbatim>\<open>
  index = res.get("index", 0)
  text = res.get("text", "")
  finish_reason = res["meta_info"]["finish_reason"]
  finish_reason_type = finish_reason["type"] if finish_reason else None
  next_count = len(text)
  delta = text[count:]
  choice_data = {"index": index, "delta": {"role": "assistant", "content": delta},
                 "finish_reason": finish_reason_type}
  response = {"id": res["meta_info"]["id"], "created": int(time.time()),
              "choices": [choice_data],
              "model": self.config.server_args.served_model_name,
              "object": "chat.completion.chunk"}
  yield response
  count = next_count
  \<close>
\<close>

definition text_chunk_of ::
  "sgl_collaborators \<Rightarrow> sgl_handler \<Rightarrow> nat \<Rightarrow> nat \<Rightarrow> snapshot \<Rightarrow> error + text_chunk \<times> nat" where
  "text_chunk_of ext h n count res =
     (let index = (case index_key res of None \<Rightarrow> 0 | Some i \<Rightarrow> i);
          txt = (case text_key res of None \<Rightarrow> [] | Some s \<Rightarrow> s)
      in case finish_reason_type res of
           Inl e \<Rightarrow> Inl e
         | Inr fr \<Rightarrow>
             (case meta res of
                None \<Rightarrow> Inl (KeyError ''meta_info'')
              | Some mi \<Rightarrow>
                  (case mi_id mi of
                     None \<Rightarrow> Inl (KeyError ''id'')
                   | Some i \<Rightarrow>
                       Inr (\<lparr>tx_id = i, tx_created = clock ext n, tx_index = index,
                             tx_role = ''assistant'', tx_content = drop count txt,
                             tx_finish_reason = fr, tx_model = served_model_name h,
                             tx_object = ''chat.completion.chunk''\<rparr>,
                            length txt))))"

fun text_stream_loop ::
  "sgl_collaborators \<Rightarrow> sgl_handler \<Rightarrow> Context option \<Rightarrow> nat \<Rightarrow> nat \<Rightarrow> nat \<Rightarrow> string option \<Rightarrow>
     snapshot list \<Rightarrow> event list \<times> string option \<times> error option" where
  "text_stream_loop ext h ctx t n count cancellation_task [] = ([], cancellation_task, None)"
| "text_stream_loop ext h ctx t n count cancellation_task (res # rest) =
     (case start_monitor ctx cancellation_task res of
        (task1, started) \<Rightarrow>
          if signalled ctx t then (started @ check_event ctx t, task1, None)
          else
            (case text_chunk_of ext h n count res of
               Inl e \<Rightarrow> (started @ check_event ctx t, task1, Some e)
             | Inr (response, next_count) \<Rightarrow>
                 (case text_stream_loop ext h ctx (Suc t) (Suc n) next_count task1 rest of
                    (events, task2, err) \<Rightarrow>
                      (started @ check_event ctx t @ YieldText response # events, task2, err))))"

definition process_text_stream ::
  "sgl_collaborators \<Rightarrow> sgl_handler \<Rightarrow> Context option \<Rightarrow> nat \<Rightarrow> snapshot list \<Rightarrow> sgl_run" where
  "process_text_stream ext h ctx t stream_source =
     cleanup_monitor (text_stream_loop ext h ctx t 0 0 None stream_source)"

text \<open>
  \<open>DecodeWorkerHandler.generate\<close>. In DECODE mode (lines 115-151):
  \<^verbatim>\<open>
  prefill_stream = await self.prefill_client.generate(
      DisaggPreprocessedRequest(request=request, sampling_params=sampling_params).model_dump(),
      context=context)
  bootstrap_info = None
  async for info in prefill_stream:
      bootstrap_info = info.data()
      break
  if context and (context.is_stopped() or context.is_killed()):
      return
  if not bootstrap_info:
      raise RuntimeError("No bootstrap info received from prefill worker")
  decode = await self.engine.async_generate(
      **input_param, sampling_params=sampling_params, stream=True,
      bootstrap_host=bootstrap_info["bootstrap_host"],
      bootstrap_port=bootstrap_info["bootstrap_port"],
      bootstrap_room=bootstrap_info["bootstrap_room"])
  \<close>
  and then the token or the text stream is processed; in the other modes the engine is
  called at once, with no bootstrap arguments.
\<close>

definition bootstrap_arguments :: "(string \<times> pyval) list \<Rightarrow> error + pyval \<times> pyval \<times> pyval" where
  "bootstrap_arguments bootstrap_info =
     (case map_of bootstrap_info ''bootstrap_host'' of
        None \<Rightarrow> Inl (KeyError ''bootstrap_host'')
      | Some host \<Rightarrow>
          (case map_of bootstrap_info ''bootstrap_port'' of
             None \<Rightarrow> Inl (KeyError ''bootstrap_port'')
           | Some port \<Rightarrow>
               (case map_of bootstrap_info ''bootstrap_room'' of
                  None \<Rightarrow> Inl (KeyError ''bootstrap_room'')
                | Some room \<Rightarrow> Inr (host, port, room))))"

definition process_stream ::
  "sgl_collaborators \<Rightarrow> sgl_handler \<Rightarrow> Context option \<Rightarrow> nat \<Rightarrow> snapshot list \<Rightarrow> sgl_run" where
  "process_stream ext h ctx t stream_source =
     (if skip_tokenizer_init h then process_token_stream ctx t stream_source
      else process_text_stream ext h ctx t stream_source)"

definition after_events :: "event list \<Rightarrow> sgl_run \<Rightarrow> sgl_run" where
  "after_events events r = r\<lparr>trace := events @ trace r\<rparr>"

definition generate ::
  "sgl_collaborators \<Rightarrow> sgl_handler \<Rightarrow> sgl_request \<Rightarrow> Context option \<Rightarrow> sgl_run" where
  "generate ext h request ctx =
     (let sampling_params = build_sampling_params (skip_tokenizer_init h) request
      in case get_input_param ext (skip_tokenizer_init h) request of
           Inl e \<Rightarrow> \<lparr>trace = [], sgl_raised = Some e\<rparr>
         | Inr input_param \<Rightarrow>
             if serving h = SGL_DECODE then
               (let prefill_req =
                      \<lparr>pr_request = request, pr_sampling_params = sampling_params\<rparr>;
                    prefill_stream = prefill_client_generate ext prefill_req;
                    read = (case prefill_stream of [] \<Rightarrow> [] | info # _ \<Rightarrow> [PrefillItemRead info]);
                    events = PrefillRequested prefill_req # read @ check_event ctx 0
                in if signalled ctx 0 then \<lparr>trace = events, sgl_raised = None\<rparr>
                   else
                     (case prefill_stream of
                        [] \<Rightarrow>
                          \<lparr>trace = events,
                           sgl_raised = Some (RuntimeError ''No bootstrap info received from prefill worker'')\<rparr>
                      | bootstrap_info # _ \<Rightarrow>
                          if bootstrap_info = [] then
                            \<lparr>trace = events,
                             sgl_raised = Some (RuntimeError ''No bootstrap info received from prefill worker'')\<rparr>
                          else
                            (case bootstrap_arguments bootstrap_info of
                               Inl e \<Rightarrow> \<lparr>trace = events, sgl_raised = Some e\<rparr>
                             | Inr bootstrap \<Rightarrow>
                                 (let call =
                                        \<lparr>sgl_input_param = input_param,
                                         sgl_call_sampling_params = sampling_params,
                                         sgl_call_stream = True,
                                         sgl_call_bootstrap = Some bootstrap\<rparr>
                                  in after_events (events @ [EngineCalled call])
                                       (process_stream ext h ctx 1
                                          (async_generate ext call))))))
             else
               (let call =
                      \<lparr>sgl_input_param = input_param,
                       sgl_call_sampling_params = sampling_params,
                       sgl_call_stream = True,
                       sgl_call_bootstrap = None\<rparr>
                in after_events [EngineCalled call]
                     (process_stream ext h ctx 0 (async_generate ext call))))"

subsection \<open>\<open>PrefillWorkerHandler\<close>\<close>

record prefill_handler =
  bootstrap_host :: string
  bootstrap_port :: int
  prefill_skip_tokenizer_init :: bool

text \<open>
  \<open>_consume_results\<close>: the loop of the detached task, which reads the engine's stream and
  yields nothing.
\<close>

fun consume_loop ::
  "Context option \<Rightarrow> nat \<Rightarrow> string option \<Rightarrow> snapshot list \<Rightarrow>
     event list \<times> string option \<times> error option" where
  "consume_loop ctx t cancellation_task [] = ([], cancellation_task, None)"
| "consume_loop ctx t cancellation_task (res # rest) =
     (case start_monitor ctx cancellation_task res of
        (task1, started) \<Rightarrow>
          if signalled ctx t then (started @ check_event ctx t, task1, None)
          else
            (case consume_loop ctx (Suc t) task1 rest of
               (events, task2, err) \<Rightarrow> (started @ check_event ctx t @ events, task2, err)))"

definition consume_results :: "Context option \<Rightarrow> snapshot list \<Rightarrow> sgl_run" where
  "consume_results ctx results = cleanup_monitor (consume_loop ctx 0 None results)"

text \<open>
  \<open>PrefillWorkerHandler.generate\<close> (lines 41-76). The generator is run to its end, as
  the serving runtime drives it. The run has the generator's own trace and, apart from it,
  the trace of the task it detaches with \<open>asyncio.create_task\<close>, of which the generator
  awaits nothing.
  \<^verbatim>\<open>
  bootstrap_room = self._generate_bootstrap_room()
  bootstrap_info = {"bootstrap_host": self.bootstrap_host,
                    "bootstrap_port": self.bootstrap_port,
                    "bootstrap_room": bootstrap_room}
  yield bootstrap_info
  input_param = self._get_input_param(request["request"])
  results = await self.engine.async_generate(
      **input_param, sampling_params=request["sampling_params"], stream=True,
      bootstrap_host=self.bootstrap_host, bootstrap_port=self.bootstrap_port,
      bootstrap_room=bootstrap_room)
  asyncio.create_task(self._consume_results(results, context))
  \<close>
\<close>

record prefill_run =
  generator :: sgl_run
  detached :: "sgl_run option"

definition prefill_generate ::
  "sgl_collaborators \<Rightarrow> prefill_handler \<Rightarrow> nat \<Rightarrow> prefill_request \<Rightarrow> Context option \<Rightarrow>
     prefill_run" where
  "prefill_generate ext h entropy request ctx =
     (let bootstrap_room = generate_bootstrap_room entropy;
          bootstrap_info =
            [(''bootstrap_host'', PStr (bootstrap_host h)),
             (''bootstrap_port'', PInt (bootstrap_port h)),
             (''bootstrap_room'', PInt bootstrap_room)]
      in case get_input_param ext (prefill_skip_tokenizer_init h) (pr_request request) of
           Inl e \<Rightarrow>
             \<lparr>generator = \<lparr>trace = [YieldBootstrap bootstrap_info], sgl_raised = Some e\<rparr>,
              detached = None\<rparr>
         | Inr input_param \<Rightarrow>
             (let call =
                    \<lparr>sgl_input_param = input_param,
                     sgl_call_sampling_params = pr_sampling_params request,
                     sgl_call_stream = True,
                     sgl_call_bootstrap =
                       Some (PStr (bootstrap_host h), PInt (bootstrap_port h), PInt bootstrap_room)\<rparr>
              in \<lparr>generator =
                     \<lparr>trace = [YieldBootstrap bootstrap_info, EngineCalled call, TaskSpawned],
                      sgl_raised = None\<rparr>,
                   detached = Some (consume_results ctx (async_generate ext call))\<rparr>))"

section \<open>Reading a stream and a run\<close>

text \<open>
  A stream is cumulative when each snapshot's sequence begins with the sequence of the
  snapshot before it. Its final value is the last snapshot's sequence, the empty sequence
  for a stream with no snapshot.
\<close>

fun cumulative :: "'a list list \<Rightarrow> bool" where
  "cumulative [] = True"
| "cumulative [x] = True"
| "cumulative (x # y # zs) = (prefix x y \<and> cumulative (y # zs))"

definition final_value :: "'a list list \<Rightarrow> 'a list" where
  "final_value xs = last ([] # xs)"

text \<open>The chunks a SGLang run yielded, and the concatenation of their deltas.\<close>

definition token_chunks :: "event list \<Rightarrow> token_chunk list" where
  "token_chunks events = List.map_filter (\<lambda>e. case e of YieldTokens c \<Rightarrow> Some c | _ \<Rightarrow> None) events"

definition text_chunks :: "event list \<Rightarrow> text_chunk list" where
  "text_chunks events = List.map_filter (\<lambda>e. case e of YieldText c \<Rightarrow> Some c | _ \<Rightarrow> None) events"

definition emitted_token_ids :: "event list \<Rightarrow> int list" where
  "emitted_token_ids events = concat (map tc_token_ids (token_chunks events))"

definition emitted_content :: "event list \<Rightarrow> string" where
  "emitted_content events = concat (map tx_content (text_chunks events))"

text \<open>
  The token sequences of the snapshots of a SGLang stream that carry no (truthy) finish
  reason, and the texts of all its snapshots (\<^verbatim>\<open>res.get("text", "")\<close>).
\<close>

definition unfinished_output_ids :: "snapshot list \<Rightarrow> int list list" where
  "unfinished_output_ids stream_source =
     List.map_filter
       (\<lambda>res. if finish_reason_type res = Inr None then output_ids res else None) stream_source"

definition snapshot_texts :: "snapshot list \<Rightarrow> string list" where
  "snapshot_texts stream_source =
     map (\<lambda>res. case text_key res of None \<Rightarrow> [] | Some s \<Rightarrow> s) stream_source"

text \<open>
  The token sequences of a TensorRT-LLM stream up to the snapshot that ends the loop: the
  first finished one (outside PREFILL mode) or the first one with no outputs.
\<close>

definition streamed_token_ids :: "DisaggregationMode \<Rightarrow> request_output list \<Rightarrow> int list list" where
  "streamed_token_ids mode stream_source =
     map (\<lambda>res. out_token_ids (hd (outputs res)))
       (takeWhile (\<lambda>res. \<not> (finished res \<and> mode \<noteq> PREFILL) \<and> outputs res \<noteq> []) stream_source)"

text \<open>
  The outputs (\<open>res.outputs[0]\<close>) of the snapshots of a TensorRT-LLM stream that come before
  the one that ends the loop, and the snapshot that ends it, if one does.
\<close>

definition streamed_outputs :: "DisaggregationMode \<Rightarrow> request_output list \<Rightarrow> completion_output list" where
  "streamed_outputs mode stream_source =
     map (\<lambda>res. hd (outputs res))
       (takeWhile (\<lambda>res. \<not> (finished res \<and> mode \<noteq> PREFILL) \<and> outputs res \<noteq> []) stream_source)"

definition ending_snapshot :: "DisaggregationMode \<Rightarrow> request_output list \<Rightarrow> request_output option" where
  "ending_snapshot mode stream_source =
     (case dropWhile (\<lambda>res. \<not> (finished res \<and> mode \<noteq> PREFILL) \<and> outputs res \<noteq> []) stream_source of
        [] \<Rightarrow> None
      | res # _ \<Rightarrow> Some res)"

definition emitted_chunk_token_ids :: "('w, 'c) chunk list \<Rightarrow> int list" where
  "emitted_chunk_token_ids chunks =
     concat (map (\<lambda>c. case chunk_token_ids c of None \<Rightarrow> [] | Some ids \<Rightarrow> ids) chunks)"

text \<open>
  The engine calls a SGLang run made, the items it read from the prefill handler's stream,
  and the items it yielded to its caller, each in order.
\<close>

definition engine_calls_of :: "event list \<Rightarrow> sgl_engine_call list" where
  "engine_calls_of events =
     List.map_filter (\<lambda>e. case e of EngineCalled c \<Rightarrow> Some c | _ \<Rightarrow> None) events"

definition items_read :: "event list \<Rightarrow> (string \<times> pyval) list list" where
  "items_read events =
     List.map_filter (\<lambda>e. case e of PrefillItemRead i \<Rightarrow> Some i | _ \<Rightarrow> None) events"

fun is_yield :: "event \<Rightarrow> bool" where
  "is_yield (YieldTokens c) = True"
| "is_yield (YieldText c) = True"
| "is_yield (YieldBootstrap i) = True"
| "is_yield e = False"

definition yielded_items :: "event list \<Rightarrow> event list" where
  "yielded_items events = filter is_yield events"

text \<open>
  The request ids for which a run started a cancellation monitor, and those for which it
  stopped and awaited one.
\<close>

definition monitors_started :: "event list \<Rightarrow> string list" where
  "monitors_started events =
     List.map_filter (\<lambda>e. case e of MonitorStarted r \<Rightarrow> Some r | _ \<Rightarrow> None) events"

definition monitors_joined :: "event list \<Rightarrow> string list" where
  "monitors_joined events =
     List.map_filter (\<lambda>e. case e of MonitorJoined r \<Rightarrow> Some r | _ \<Rightarrow> None) events"

text \<open>The outcomes of the cancellation checks a run made, in order.\<close>

definition cancellation_checks :: "event list \<Rightarrow> bool list" where
  "cancellation_checks events =
     List.map_filter (\<lambda>e. case e of CancellationChecked b \<Rightarrow> Some b | _ \<Rightarrow> None) events"

text \<open>The monitor a loop holds in \<open>cancellation_task\<close>, as a list.\<close>

definition task_list :: "string option \<Rightarrow> string list" where
  "task_list task = (case task of None \<Rightarrow> [] | Some r \<Rightarrow> [r])"

section \<open>Example inputs\<close>

text \<open>
  Concrete collaborators, handlers and requests, at which the theorems below are
  evaluated. The engine of the example yields the cumulative snapshots \<open>[4]\<close>, \<open>[4, 5]\<close> and
  \<open>[4, 5]\<close> finished, for the request \<open>{id: "r1", token_ids: [1, 2, 3],
  stop_conditions: {max_tokens: 5}}\<close>.
\<close>

definition token_snapshot :: "bool \<Rightarrow> int list \<Rightarrow> request_output" where
  "token_snapshot fin ids =
     \<lparr>finished = fin,
      outputs = [\<lparr>out_token_ids = ids, out_finish_reason = None, out_stop_reason = PNone,
                  out_disaggregated_params = None, out_request_perf_metrics = None\<rparr>]\<rparr>"

definition example_collaborators :: "(unit, unit, unit) collaborators" where
  "example_collaborators =
     \<lparr>multimodal = None,
      codec_decode =
        (\<lambda>w. \<lparr>request_type = ''context_only'', ctx_request_id = Some 7, opaque_state = None\<rparr>),
      codec_encode = (\<lambda>p. ()),
      generate_async =
        (\<lambda>call. [token_snapshot False [4], token_snapshot False [4, 5],
                  token_snapshot True [4, 5]]),
      test_logits_processor = False\<rparr>"

definition example_handler :: "DisaggregationMode \<Rightarrow> handler" where
  "example_handler mode =
     \<lparr>disaggregation_mode = mode,
      default_sampling_params = [''temperature'' \<mapsto> PFloat 1, ''max_tokens'' \<mapsto> PInt 100],
      publisher = None, first_generation = True\<rparr>"

definition example_request :: "(string \<times> pyval) list \<Rightarrow> unit option \<Rightarrow> unit request" where
  "example_request options dp =
     \<lparr>token_ids = Some [1, 2, 3], stop_conditions = [''max_tokens'' \<mapsto> PInt 5],
      sampling_options = options, disaggregated_params = dp,
      id_key = Some ''r1'', request_id_key = None, model_key = None\<rparr>"

definition example_sgl_request :: "(string \<rightharpoonup> pyval) \<Rightarrow> sgl_request" where
  "example_sgl_request options =
     \<lparr>sgl_sampling_options = Some options,
      sgl_stop_conditions = Some [''max_tokens'' \<mapsto> PInt 5],
      sgl_top_level = Map.empty, sgl_token_ids = Some [1, 2, 3], sgl_messages = None\<rparr>"

text \<open>
  For the SGLang handlers: a snapshot with request id \<open>rid-1\<close>; a context whose stop signal
  is raised from the given check on (never, for \<open>None\<close>); collaborators whose engine yields
  the given stream and whose prefill client yields the given items.
\<close>

definition sgl_snapshot :: "int list \<Rightarrow> string \<Rightarrow> finish_reason_entry \<Rightarrow> snapshot" where
  "sgl_snapshot ids body fr =
     \<lparr>meta = Some \<lparr>mi_id = Some ''rid-1'', mi_finish_reason = fr\<rparr>,
      output_ids = Some ids, text_key = Some body, index_key = Some 0\<rparr>"

definition finished_snapshot :: "string \<Rightarrow> int list \<Rightarrow> request_output" where
  "finished_snapshot reason ids =
     \<lparr>finished = True,
      outputs = [\<lparr>out_token_ids = ids, out_finish_reason = Some reason, out_stop_reason = PNone,
                  out_disaggregated_params = None, out_request_perf_metrics = None\<rparr>]\<rparr>"

definition example_context :: "nat option \<Rightarrow> Context" where
  "example_context stop_from =
     \<lparr>ctx_id = ''ctx-1'',
      is_stopped = (\<lambda>t. case stop_from of None \<Rightarrow> False | Some k \<Rightarrow> k \<le> t),
      is_killed = (\<lambda>t. False)\<rparr>"

definition example_sgl_collaborators ::
  "snapshot list \<Rightarrow> (string \<times> pyval) list list \<Rightarrow> sgl_collaborators" where
  "example_sgl_collaborators stream_source items =
     \<lparr>async_generate = (\<lambda>call. stream_source),
      prefill_client_generate = (\<lambda>req. items),
      apply_chat_template = (\<lambda>messages. ''prompt''),
      clock = (\<lambda>n. 1700000000 + int n)\<rparr>"

definition example_sgl_handler :: "serving_mode \<Rightarrow> bool \<Rightarrow> sgl_handler" where
  "example_sgl_handler mode skip =
     \<lparr>serving = mode, skip_tokenizer_init = skip, served_model_name = ''model-1''\<rparr>"

definition example_prefill_handler :: prefill_handler where
  "example_prefill_handler =
     \<lparr>bootstrap_host = ''10.0.0.1'', bootstrap_port = 8998, prefill_skip_tokenizer_init = True\<rparr>"

text \<open>
  A publisher whose error queue holds an error, and a multimodal processor that rejects the
  request.
\<close>

definition failing_publisher :: publisher_state where
  "failing_publisher =
     \<lparr>queued_error = Some (RuntimeError ''publisher failed''), start_calls = 0,
      published_kv_perf = []\<rparr>"

definition rejecting_processor :: "(unit, unit, unit) multimodal_processor" where
  "rejecting_processor =
     \<lparr>process_openai_request = (\<lambda>request. Inl (ValueError ''unsupported content'')),
      get_stop_response = (\<lambda>request_id model_name. ()),
      create_response_chunk = (\<lambda>out1 n request_id model_name. ())\<rparr>"

section \<open>Theorems\<close>

lemmas example_defs = example_collaborators_def example_handler_def example_request_def
  example_sgl_request_def token_snapshot_def sgl_snapshot_def finished_snapshot_def
  example_context_def example_sgl_collaborators_def example_sgl_handler_def
  example_prefill_handler_def failing_publisher_def rejecting_processor_def

text \<open>
  C2. \<open>calculate_kv_perf_metrics(bytes, start, end)\<close>: with \<open>bytes = 0\<close> the result is the
  sentinel pair \<open>(-1, -1)\<close>; with \<open>bytes \<noteq> 0\<close> the call needs \<open>start < end\<close> (otherwise it
  fails at once with the assertion error) and returns \<open>(end - start, bytes / (end - start))\<close>.
  In particular \<open>(1024, 0, 2)\<close> gives \<open>(2, 512)\<close> and \<open>(0, t0, t1)\<close> gives \<open>(-1, -1)\<close>.
\<close>

theorem calculate_kv_perf_metrics_spec:
  "(bytes = 0 \<longrightarrow> calculate_kv_perf_metrics bytes start end_t = Inr (-1, -1))
   \<and> (bytes \<noteq> 0 \<and> start < end_t \<longrightarrow>
        calculate_kv_perf_metrics bytes start end_t = Inr (end_t - start, bytes / (end_t - start)))
   \<and> (bytes \<noteq> 0 \<and> \<not> start < end_t \<longrightarrow>
        (\<exists>msg. calculate_kv_perf_metrics bytes start end_t = Inl (AssertionError msg)))
   \<and> calculate_kv_perf_metrics 1024 0 2 = Inr (2, 512)
   \<and> (t0 < t1 \<longrightarrow> calculate_kv_perf_metrics 0 t0 t1 = Inr (-1, -1))"
  by (simp add: calculate_kv_perf_metrics_def calculate_kv_perf_metrics_run_def Let_def)

theorem calculate_kv_perf_metrics_spec_witness:
  "calculate_kv_perf_metrics 0 5 3 = Inr (-1, -1)
   \<and> calculate_kv_perf_metrics 3 1 7 = Inr (6, 1 / 2)
   \<and> (\<exists>msg. calculate_kv_perf_metrics 3 7 7 = Inl (AssertionError msg))
   \<and> calculate_kv_perf_metrics 0 1 2 = Inr (-1, -1)"
  using calculate_kv_perf_metrics_spec [where bytes = 0 and start = 5 and end_t = 3 and ?t0.0 = 1 and ?t1.0 = 2]
    calculate_kv_perf_metrics_spec [where bytes = 3 and start = 1 and end_t = 7 and ?t0.0 = 0 and ?t1.0 = 0]
    calculate_kv_perf_metrics_spec [where bytes = 3 and start = 7 and end_t = 7 and ?t0.0 = 0 and ?t1.0 = 0]
  by simp

text \<open>
  C10. With \<open>bytes = 0\<close> the call returns \<open>(-1, -1)\<close> for all \<open>start\<close> and \<open>end\<close>, also when
  \<open>start \<ge> end\<close>, and evaluates neither the assertion nor the division. Both are reached
  only when \<open>bytes \<noteq> 0\<close>, and the call returns a pair whenever \<open>bytes = 0\<close> or
  \<open>start < end\<close>; the division never has a zero divisor.
\<close>

theorem calculate_kv_perf_metrics_total:
  "calculate_kv_perf_metrics 0 start end_t = Inr (-1, -1)
   \<and> kv_steps 0 start end_t = []
   \<and> (kv_steps bytes start end_t \<noteq> [] \<longrightarrow> bytes \<noteq> 0)
   \<and> (DivisionPerformed \<in> set (kv_steps bytes start end_t) \<longrightarrow> bytes \<noteq> 0 \<and> end_t - start > 0)
   \<and> (bytes = 0 \<or> start < end_t \<longrightarrow> (\<exists>r. calculate_kv_perf_metrics bytes start end_t = Inr r))
   \<and> (\<forall>e. calculate_kv_perf_metrics bytes start end_t = Inl e \<longrightarrow> bytes \<noteq> 0 \<and> \<not> start < end_t)"
  by (simp add: calculate_kv_perf_metrics_def kv_steps_def calculate_kv_perf_metrics_run_def Let_def)

theorem calculate_kv_perf_metrics_total_witness:
  "calculate_kv_perf_metrics 0 9 4 = Inr (-1, -1)
   \<and> kv_steps 0 9 4 = []
   \<and> kv_steps 8 1 3 \<noteq> [] \<and> DivisionPerformed \<in> set (kv_steps 8 1 3)
   \<and> (\<exists>r. calculate_kv_perf_metrics 8 1 3 = Inr r)
   \<and> (\<exists>e. calculate_kv_perf_metrics 8 3 1 = Inl e)"
  using calculate_kv_perf_metrics_total [where start = 9 and end_t = 4 and bytes = 8]
    calculate_kv_perf_metrics_total [where start = 1 and end_t = 3 and bytes = 8]
    calculate_kv_perf_metrics_total [where start = 3 and end_t = 1 and bytes = 8]
  by (simp add: calculate_kv_perf_metrics_def kv_steps_def calculate_kv_perf_metrics_run_def Let_def)

subsection \<open>Engine calls and items read in a trace\<close>

lemma engine_calls_of_simps [simp]:
  "engine_calls_of [] = []"
  "engine_calls_of (EngineCalled c # es) = c # engine_calls_of es"
  "engine_calls_of (PrefillRequested q # es) = engine_calls_of es"
  "engine_calls_of (PrefillItemRead i # es) = engine_calls_of es"
  "engine_calls_of (MonitorStarted r # es) = engine_calls_of es"
  "engine_calls_of (MonitorJoined r # es) = engine_calls_of es"
  "engine_calls_of (CancellationChecked b # es) = engine_calls_of es"
  "engine_calls_of (YieldTokens tc # es) = engine_calls_of es"
  "engine_calls_of (YieldText x # es) = engine_calls_of es"
  "engine_calls_of (es @ es') = engine_calls_of es @ engine_calls_of es'"
  by (simp_all add: engine_calls_of_def List.map_filter_def)

lemma items_read_simps [simp]:
  "items_read [] = []"
  "items_read (EngineCalled c # es) = items_read es"
  "items_read (PrefillRequested q # es) = items_read es"
  "items_read (PrefillItemRead i # es) = i # items_read es"
  "items_read (MonitorStarted r # es) = items_read es"
  "items_read (MonitorJoined r # es) = items_read es"
  "items_read (CancellationChecked b # es) = items_read es"
  "items_read (YieldTokens tc # es) = items_read es"
  "items_read (YieldText x # es) = items_read es"
  "items_read (es @ es') = items_read es @ items_read es'"
  by (simp_all add: items_read_def List.map_filter_def)

lemma check_event_calls [simp]:
  "engine_calls_of (check_event ctx t) = []" "items_read (check_event ctx t) = []"
  by (simp_all add: check_event_def split: option.splits)

lemma start_monitor_calls:
  "start_monitor ctx task res = (task1, started) \<Longrightarrow>
   engine_calls_of started = [] \<and> items_read started = []"
  by (auto simp: start_monitor_def cancellation_monitor_enter_def split: option.splits if_splits)

lemma token_stream_loop_calls:
  "token_stream_loop ctx t n task snaps = (events, task', err) \<Longrightarrow>
   engine_calls_of events = [] \<and> items_read events = []"
proof (induction snaps arbitrary: t n task events task' err)
  case Nil
  then show ?case by simp
next
  case (Cons res rest)
  obtain task1 started where sm: "start_monitor ctx task res = (task1, started)"
    by (cases "start_monitor ctx task res") auto
  note s = start_monitor_calls [OF sm]
  show ?case
  proof (cases "signalled ctx t")
    case True
    then show ?thesis using Cons.prems sm s by auto
  next
    case False
    show ?thesis
    proof (cases "token_chunk_of n res")
      case (Inl e)
      then show ?thesis using Cons.prems sm s False by auto
    next
      case (Inr pr)
      obtain out n' where pr: "pr = (out, n')" by (cases pr)
      obtain events2 task2 err2 where
        rec: "token_stream_loop ctx (Suc t) n' task1 rest = (events2, task2, err2)"
        by (cases "token_stream_loop ctx (Suc t) n' task1 rest") auto
      from Cons.prems sm False Inr pr rec have
        ev: "events = started @ check_event ctx t @ YieldTokens out # events2"
        by simp
      from Cons.IH [OF rec] s show ?thesis unfolding ev by simp
    qed
  qed
qed

lemma text_stream_loop_calls:
  "text_stream_loop ext h ctx t k count task snaps = (events, task', err) \<Longrightarrow>
   engine_calls_of events = [] \<and> items_read events = []"
proof (induction snaps arbitrary: t k count task events task' err)
  case Nil
  then show ?case by simp
next
  case (Cons res rest)
  obtain task1 started where sm: "start_monitor ctx task res = (task1, started)"
    by (cases "start_monitor ctx task res") auto
  note s = start_monitor_calls [OF sm]
  show ?case
  proof (cases "signalled ctx t")
    case True
    then show ?thesis using Cons.prems sm s by auto
  next
    case False
    show ?thesis
    proof (cases "text_chunk_of ext h k count res")
      case (Inl e)
      then show ?thesis using Cons.prems sm s False by auto
    next
      case (Inr pr)
      obtain response next_count where pr: "pr = (response, next_count)" by (cases pr)
      obtain events2 task2 err2 where
        rec: "text_stream_loop ext h ctx (Suc t) (Suc k) next_count task1 rest = (events2, task2, err2)"
        by (cases "text_stream_loop ext h ctx (Suc t) (Suc k) next_count task1 rest") auto
      from Cons.prems sm False Inr pr rec have
        ev: "events = started @ check_event ctx t @ YieldText response # events2"
        by simp
      from Cons.IH [OF rec] s show ?thesis unfolding ev by simp
    qed
  qed
qed

lemma cleanup_monitor_calls:
  "engine_calls_of events = [] \<and> items_read events = [] \<Longrightarrow>
   engine_calls_of (trace (cleanup_monitor (events, task, err))) = [] \<and>
   items_read (trace (cleanup_monitor (events, task, err))) = []"
  by (auto simp: cleanup_monitor_def cancellation_monitor_exit_def split: option.splits)

lemma process_stream_calls:
  "engine_calls_of (trace (process_stream ext h ctx t snaps)) = [] \<and>
   items_read (trace (process_stream ext h ctx t snaps)) = []"
proof (cases "skip_tokenizer_init h")
  case True
  obtain events task err where l: "token_stream_loop ctx t 0 None snaps = (events, task, err)"
    by (cases "token_stream_loop ctx t 0 None snaps") auto
  from cleanup_monitor_calls [OF token_stream_loop_calls [OF l]] True show ?thesis
    by (simp add: process_stream_def process_token_stream_def l)
next
  case False
  obtain events task err where l: "text_stream_loop ext h ctx t 0 0 None snaps = (events, task, err)"
    by (cases "text_stream_loop ext h ctx t 0 0 None snaps") auto
  from cleanup_monitor_calls [OF text_stream_loop_calls [OF l]] False show ?thesis
    by (simp add: process_stream_def process_text_stream_def l)
qed

lemma after_events_trace [simp]: "trace (after_events events r) = events @ trace r"
  "sgl_raised (after_events events r) = sgl_raised r"
  by (simp_all add: after_events_def)

subsection \<open>Sampling parameters\<close>

lemma merge_sampling_options_lookup:
  "distinct (map fst opts) \<Longrightarrow>
   merge_sampling_options sp opts k =
     (case map_of opts k of
        Some v \<Rightarrow> if truthy v \<and> k \<in> dom sp then Some v else sp k
      | None \<Rightarrow> sp k)"
proof (induction opts arbitrary: sp)
  case Nil
  then show ?case by simp
next
  case (Cons kv rest)
  obtain key v where kv: "kv = (key, v)" by (cases kv)
  from Cons.prems kv have d: "distinct (map fst rest)" and nk: "map_of rest key = None"
    by (auto simp: map_of_eq_None_iff)
  note IH = Cons.IH [OF d]
  show ?case
  proof (cases "truthy v \<and> key \<in> dom sp")
    case True
    then have "merge_sampling_options sp (kv # rest) k =
               merge_sampling_options (sp(key \<mapsto> v)) rest k"
      using kv by simp
    also have "\<dots> =
        (case map_of rest k of
           Some w \<Rightarrow> if truthy w \<and> k \<in> dom (sp(key \<mapsto> v)) then Some w else (sp(key \<mapsto> v)) k
         | None \<Rightarrow> (sp(key \<mapsto> v)) k)"
      by (rule IH)
    finally show ?thesis using True nk kv by (auto split: option.splits)
  next
    case False
    then have "merge_sampling_options sp (kv # rest) k = merge_sampling_options sp rest k"
      using kv by auto
    also have "\<dots> =
        (case map_of rest k of
           Some w \<Rightarrow> if truthy w \<and> k \<in> dom sp then Some w else sp k
         | None \<Rightarrow> sp k)"
      by (rule IH)
    finally show ?thesis using False nk kv by (auto split: option.splits)
  qed
qed

lemma derive_sampling_params_lookup:
  assumes "distinct (map fst (sampling_options request))"
    and "stop_conditions request ''max_tokens'' = Some max_tokens"
  shows "\<exists>sp. derive_sampling_params defaults request = Inr sp \<and>
     (\<forall>k. sp k =
        (if k = ''min_tokens'' \<and> truthy (dict_get (stop_conditions request) ''min_tokens'')
           then Some (dict_get (stop_conditions request) ''min_tokens'')
         else if k = ''ignore_eos'' \<and> truthy (dict_get (stop_conditions request) ''ignore_eos'')
           then Some (dict_get (stop_conditions request) ''ignore_eos'')
         else if k = ''max_tokens'' \<and> truthy max_tokens then Some max_tokens
         else (case map_of (sampling_options request) k of
                 Some v \<Rightarrow> if truthy v \<and> k \<in> dom defaults then Some v else defaults k
               | None \<Rightarrow> defaults k)))"
  using assms
  by (simp add: derive_sampling_params_def set_if_truthy_def merge_sampling_options_lookup
        Let_def)

lemma build_sampling_params_token_format:
  "map_of (build_sampling_params True request) k =
     (let sampling_opts = get_dict (sgl_sampling_options request);
          stop_conds = get_dict (sgl_stop_conditions request);
          v = (if k = ''temperature'' then dict_get sampling_opts ''temperature''
               else if k = ''top_p'' then dict_get sampling_opts ''top_p''
               else if k = ''top_k'' then dict_get sampling_opts ''top_k''
               else if k = ''max_new_tokens'' then dict_get stop_conds ''max_tokens''
               else if k = ''ignore_eos'' then dict_get stop_conds ''ignore_eos''
               else PNone)
      in if v = PNone then None else Some v)"
  by (simp add: build_sampling_params_def Let_def)

lemma build_sampling_params_openai_format:
  "map_of (build_sampling_params False request) k =
     (let v = (if k = ''temperature'' then dict_get (sgl_top_level request) ''temperature''
               else if k = ''top_p'' then dict_get (sgl_top_level request) ''top_p''
               else if k = ''top_k'' then dict_get (sgl_top_level request) ''top_k''
               else if k = ''max_new_tokens'' then dict_get (sgl_top_level request) ''max_tokens''
               else PNone)
      in if v = PNone then None else Some v)"
  by (simp add: build_sampling_params_def Let_def)

lemma engine_call_sampling_params:
  "engine_calls (generate_locally ext h request) = [call] \<Longrightarrow>
   \<exists>sp. derive_sampling_params (default_sampling_params h)
          (request_after (generate_locally ext h request)) = Inr sp
      \<and> call_sampling_params call = attach_test_logits_processor ext sp"
  by (auto simp: generate_locally_def failed_run_def Let_def
           split: sum.splits option.splits prod.splits)

lemma stream_chunks_handler:
  "stream_chunks ext rid mn h n rs = (h', cs, err) \<Longrightarrow>
   default_sampling_params h' = default_sampling_params h \<and>
   disaggregation_mode h' = disaggregation_mode h"
proof (induction rs arbitrary: h n h' cs err)
  case Nil
  then show ?case by simp
next
  case (Cons res rest)
  let ?h1 = "start_publisher_once h"
  have h1: "default_sampling_params ?h1 = default_sampling_params h \<and>
            disaggregation_mode ?h1 = disaggregation_mode h"
    by (simp add: start_publisher_once_def split: option.splits)
  show ?case
  proof (cases "finished res \<and> disaggregation_mode ?h1 \<noteq> PREFILL")
    case True
    then show ?thesis using Cons.prems h1
      by (auto simp: Let_def final_chunk_def publish_kv_metrics_def
               split: sum.splits list.splits option.splits prod.splits if_splits)
  next
    case False
    show ?thesis
    proof (cases "outputs res")
      case Nil
      then show ?thesis using Cons.prems False h1 by (auto simp: Let_def)
    next
      case (Cons out1 os)
      obtain h2 cs2 e2 where
        r: "stream_chunks ext rid mn ?h1 (length (out_token_ids out1)) rest = (h2, cs2, e2)"
        by (cases "stream_chunks ext rid mn ?h1 (length (out_token_ids out1)) rest") auto
      from Cons.IH [OF r] h1 have
        "default_sampling_params h2 = default_sampling_params h \<and>
         disaggregation_mode h2 = disaggregation_mode h"
        by simp
      moreover have "h' = h2" using Cons.prems False Cons r by (auto simp: Let_def)
      ultimately show ?thesis by simp
    qed
  qed
qed

lemma generate_locally_keeps_defaults:
  "default_sampling_params (handler_after (generate_locally ext h request)) =
   default_sampling_params h"
  by (auto simp: generate_locally_def failed_run_def Let_def
           split: sum.splits option.splits prod.splits dest: stream_chunks_handler)

lemma generate_call_sampling_params:
  "\<forall>c \<in> set (engine_calls_of (trace (generate ext h request ctx))).
     sgl_call_sampling_params c = build_sampling_params (skip_tokenizer_init h) request"
proof (cases "get_input_param ext (skip_tokenizer_init h) request")
  case (Inl e)
  then show ?thesis by (simp add: generate_def Let_def)
next
  case (Inr ip)
  show ?thesis
  proof (cases "serving h = SGL_DECODE")
    case False
    then show ?thesis using Inr
      by (simp add: generate_def Let_def process_stream_calls)
  next
    case True
    let ?preq = "\<lparr>pr_request = request,
        pr_sampling_params = build_sampling_params (skip_tokenizer_init h) request\<rparr>"
    show ?thesis
    proof (cases "signalled ctx 0")
      case s: True
      then show ?thesis using Inr True
        by (cases "prefill_client_generate ext ?preq") (simp_all add: generate_def Let_def)
    next
      case ns: False
      show ?thesis
      proof (cases "prefill_client_generate ext ?preq")
        case Nil
        then show ?thesis using Inr True ns by (simp add: generate_def Let_def)
      next
        case (Cons info more)
        show ?thesis
        proof (cases "info = []")
          case e: True
          then show ?thesis using Inr True ns Cons by (simp add: generate_def Let_def)
        next
          case ne: False
          show ?thesis
          proof (cases "bootstrap_arguments info")
            case (Inl e)
            then show ?thesis using Inr True ns Cons ne by (simp add: generate_def Let_def)
          next
            case b: (Inr bootstrap)
            then show ?thesis using Inr True ns Cons ne
              by (simp add: generate_def Let_def process_stream_calls)
          qed
        qed
      qed
    qed
  qed
qed

lemma derive_sampling_params_missing_key:
  "stop_conditions request ''max_tokens'' = None \<Longrightarrow>
   derive_sampling_params defaults request = Inl (KeyError ''max_tokens'')"
  by (simp add: derive_sampling_params_def Let_def)

text \<open>
  C8, as the code has it. TensorRT-LLM: the sampling parameters of the engine call are a
  copy of the handler's defaults (which stay as they were) in which a sampling option
  overrides the field of its name exactly when its value is truthy and the parameter
  object has that field; a value that is \<open>None\<close>, \<open>False\<close>, \<open>0\<close>, \<open>0.0\<close> or empty keeps the
  default, as an absent one does. \<open>max_tokens\<close>, \<open>ignore_eos\<close> and \<open>min_tokens\<close> of the stop
  conditions, as they stand after the validation step, then override exactly when they are
  supplied and truthy; stop conditions with no \<open>max_tokens\<close> entry raise \<open>KeyError\<close>. SGLang:
  the handler holds no defaults; every engine call of \<open>generate\<close> carries exactly the values
  that are not \<open>None\<close> among \<open>temperature\<close>, \<open>top_p\<close>, \<open>top_k\<close>, \<open>max_tokens\<close> (as
  \<open>max_new_tokens\<close>) and, in the token format, \<open>ignore_eos\<close>. The sampling options are a
  dictionary: their keys are distinct.
\<close>

theorem sampling_params_derivation:
  "(distinct (map fst (sampling_options request)) \<and>
    stop_conditions request ''max_tokens'' = Some max_tokens \<longrightarrow>
      (\<exists>sp. derive_sampling_params defaults request = Inr sp \<and>
         (\<forall>k. sp k =
            (if k = ''min_tokens'' \<and> truthy (dict_get (stop_conditions request) ''min_tokens'')
               then Some (dict_get (stop_conditions request) ''min_tokens'')
             else if k = ''ignore_eos'' \<and>
                     truthy (dict_get (stop_conditions request) ''ignore_eos'')
               then Some (dict_get (stop_conditions request) ''ignore_eos'')
             else if k = ''max_tokens'' \<and> truthy max_tokens then Some max_tokens
             else (case map_of (sampling_options request) k of
                     Some v \<Rightarrow> if truthy v \<and> k \<in> dom defaults then Some v else defaults k
                   | None \<Rightarrow> defaults k)))))
   \<and> (stop_conditions request ''max_tokens'' = None \<longrightarrow>
        derive_sampling_params defaults request = Inl (KeyError ''max_tokens''))
   \<and> (engine_calls (generate_locally ext h req) = [call] \<longrightarrow>
        (\<exists>sp. derive_sampling_params (default_sampling_params h)
                (request_after (generate_locally ext h req)) = Inr sp
           \<and> call_sampling_params call = attach_test_logits_processor ext sp))
   \<and> default_sampling_params (handler_after (generate_locally ext h req)) =
       default_sampling_params h
   \<and> map_of (build_sampling_params True sgl_req) k' =
       (let sampling_opts = get_dict (sgl_sampling_options sgl_req);
            stop_conds = get_dict (sgl_stop_conditions sgl_req);
            v = (if k' = ''temperature'' then dict_get sampling_opts ''temperature''
                 else if k' = ''top_p'' then dict_get sampling_opts ''top_p''
                 else if k' = ''top_k'' then dict_get sampling_opts ''top_k''
                 else if k' = ''max_new_tokens'' then dict_get stop_conds ''max_tokens''
                 else if k' = ''ignore_eos'' then dict_get stop_conds ''ignore_eos''
                 else PNone)
        in if v = PNone then None else Some v)
   \<and> map_of (build_sampling_params False sgl_req) k' =
       (let v = (if k' = ''temperature'' then dict_get (sgl_top_level sgl_req) ''temperature''
                 else if k' = ''top_p'' then dict_get (sgl_top_level sgl_req) ''top_p''
                 else if k' = ''top_k'' then dict_get (sgl_top_level sgl_req) ''top_k''
                 else if k' = ''max_new_tokens''
                   then dict_get (sgl_top_level sgl_req) ''max_tokens''
                 else PNone)
        in if v = PNone then None else Some v)
   \<and> (\<forall>c \<in> set (engine_calls_of (trace (generate sgl_ext sgl_h sgl_req ctx))).
        sgl_call_sampling_params c = build_sampling_params (skip_tokenizer_init sgl_h) sgl_req)"
  using derive_sampling_params_lookup [of request max_tokens defaults]
    derive_sampling_params_missing_key [of request defaults]
    engine_call_sampling_params [of ext h req call]
    generate_locally_keeps_defaults [of ext h req]
    build_sampling_params_token_format [of sgl_req k']
    build_sampling_params_openai_format [of sgl_req k']
    generate_call_sampling_params [of sgl_ext sgl_h sgl_req ctx]
  by blast

lemma ex_run_calls:
  "engine_calls (generate_locally example_collaborators (example_handler AGGREGATED)
      (example_request [(''temperature'', PFloat (1 / 2)), (''top_k'', PInt 40)] None)) =
   [hd (engine_calls (generate_locally example_collaborators (example_handler AGGREGATED)
      (example_request [(''temperature'', PFloat (1 / 2)), (''top_k'', PInt 40)] None)))]"
  by (simp add: generate_locally_def example_defs process_input_def publishers_error_def
      decode_request_params_def derive_sampling_params_def Let_def split: prod.splits)

theorem sampling_params_derivation_witness:
  "distinct (map fst [(''temperature'', PFloat (1 / 2)), (''top_k'', PInt 40)])
   \<and> stop_conditions (example_request [(''temperature'', PFloat (1 / 2)), (''top_k'', PInt 40)] None)
        ''max_tokens'' = Some (PInt 5)
   \<and> (\<exists>sp. derive_sampling_params (default_sampling_params (example_handler AGGREGATED))
             (example_request [(''temperature'', PFloat (1 / 2)), (''top_k'', PInt 40)] None) = Inr sp
          \<and> sp ''temperature'' = Some (PFloat (1 / 2)) \<and> sp ''top_k'' = None
          \<and> sp ''max_tokens'' = Some (PInt 5))
   \<and> stop_conditions ((example_request [] None)\<lparr>stop_conditions := Map.empty\<rparr>) ''max_tokens'' = None
   \<and> derive_sampling_params (default_sampling_params (example_handler AGGREGATED))
        ((example_request [] None)\<lparr>stop_conditions := Map.empty\<rparr>) = Inl (KeyError ''max_tokens'')
   \<and> (\<exists>call. engine_calls (generate_locally example_collaborators (example_handler AGGREGATED)
          (example_request [(''temperature'', PFloat (1 / 2)), (''top_k'', PInt 40)] None)) = [call]
          \<and> call_sampling_params call ''temperature'' = Some (PFloat (1 / 2)))
   \<and> map_of (build_sampling_params True
         (example_sgl_request [''temperature'' \<mapsto> PFloat 0, ''top_p'' \<mapsto> PNone])) ''temperature''
       = Some (PFloat 0)
   \<and> map_of (build_sampling_params True
         (example_sgl_request [''temperature'' \<mapsto> PFloat 0, ''top_p'' \<mapsto> PNone])) ''top_p'' = None
   \<and> (\<exists>c. c \<in> set (engine_calls_of (trace (generate (example_sgl_collaborators [] [])
          (example_sgl_handler SGL_AGGREGATED True)
          (example_sgl_request [''temperature'' \<mapsto> PFloat 0, ''top_p'' \<mapsto> PNone]) None)))
        \<and> sgl_call_sampling_params c = [(''temperature'', PFloat 0), (''max_new_tokens'', PInt 5)])"
proof -
  let ?opts = "[(''temperature'', PFloat (1 / 2)), (''top_k'', PInt 40)]"
  let ?req = "example_request ?opts None"
  let ?bad = "(example_request [] None)\<lparr>stop_conditions := Map.empty\<rparr>"
  let ?defaults = "default_sampling_params (example_handler AGGREGATED)"
  let ?run = "generate_locally example_collaborators (example_handler AGGREGATED) ?req"
  let ?sreq = "example_sgl_request [''temperature'' \<mapsto> PFloat 0, ''top_p'' \<mapsto> PNone]"
  let ?sext = "example_sgl_collaborators [] []"
  let ?sh = "example_sgl_handler SGL_AGGREGATED True"
  let ?srun = "generate ?sext ?sh ?sreq None"
  have d: "distinct (map fst (sampling_options ?req))" by (simp add: example_request_def)
  have m: "stop_conditions ?req ''max_tokens'' = Some (PInt 5)" by (simp add: example_request_def)
  have n: "stop_conditions ?bad ''max_tokens'' = None" by simp
  have c: "engine_calls ?run = [hd (engine_calls ?run)]" by (rule ex_run_calls)
  have r: "request_after ?run = ?req"
    by (simp add: generate_locally_def example_defs process_input_def publishers_error_def
      decode_request_params_def derive_sampling_params_def Let_def split: prod.splits)
  note T = sampling_params_derivation [where request = ?req and max_tokens = "PInt 5"
      and defaults = ?defaults and ext = example_collaborators
      and h = "example_handler AGGREGATED" and req = ?req and call = "hd (engine_calls ?run)"
      and sgl_req = ?sreq and sgl_ext = ?sext and sgl_h = ?sh and ctx = None]
  note T' = sampling_params_derivation [where request = ?bad and defaults = ?defaults]
  from T d m obtain sp where sp: "derive_sampling_params ?defaults ?req = Inr sp"
    and spk: "\<And>k. sp k =
          (if k = ''min_tokens'' \<and> truthy (dict_get (stop_conditions ?req) ''min_tokens'')
             then Some (dict_get (stop_conditions ?req) ''min_tokens'')
           else if k = ''ignore_eos'' \<and> truthy (dict_get (stop_conditions ?req) ''ignore_eos'')
             then Some (dict_get (stop_conditions ?req) ''ignore_eos'')
           else if k = ''max_tokens'' \<and> truthy (PInt 5) then Some (PInt 5)
           else (case map_of (sampling_options ?req) k of
                   Some v \<Rightarrow> if truthy v \<and> k \<in> dom ?defaults then Some v else ?defaults k
                 | None \<Rightarrow> ?defaults k))"
    by blast
  have s1: "sp ''temperature'' = Some (PFloat (1 / 2))" "sp ''top_k'' = None"
    "sp ''max_tokens'' = Some (PInt 5)"
    by (simp_all add: spk example_request_def example_handler_def dict_get_def)
  have k: "derive_sampling_params ?defaults ?bad = Inl (KeyError ''max_tokens'')"
    using T' n by blast
  from T c r sp have
    "call_sampling_params (hd (engine_calls ?run)) = attach_test_logits_processor example_collaborators sp"
    by auto
  then have s2: "call_sampling_params (hd (engine_calls ?run)) ''temperature'' = Some (PFloat (1 / 2))"
    using s1 by (simp add: attach_test_logits_processor_def example_collaborators_def)
  have s3: "map_of (build_sampling_params True ?sreq) ''temperature'' = Some (PFloat 0)"
    using T [of "''temperature''"] by (simp add: example_sgl_request_def get_dict_def dict_get_def)
  have s4: "map_of (build_sampling_params True ?sreq) ''top_p'' = None"
    using T [of "''top_p''"] by (simp add: example_sgl_request_def get_dict_def dict_get_def)
  have ne: "engine_calls_of (trace ?srun) \<noteq> []"
    by (simp add: generate_def get_input_param_def Let_def example_defs)
  then obtain c0 where c0: "c0 \<in> set (engine_calls_of (trace ?srun))"
    by (cases "engine_calls_of (trace ?srun)") auto
  with T have "sgl_call_sampling_params c0 = build_sampling_params (skip_tokenizer_init ?sh) ?sreq"
    by blast
  also have "\<dots> = [(''temperature'', PFloat 0), (''max_new_tokens'', PInt 5)]"
    by (simp add: build_sampling_params_def get_dict_def dict_get_def example_defs Let_def)
  finally have s5: "\<exists>c. c \<in> set (engine_calls_of (trace ?srun))
        \<and> sgl_call_sampling_params c = [(''temperature'', PFloat 0), (''max_new_tokens'', PInt 5)]"
    using c0 by blast
  have d': "distinct (map fst ?opts)" by simp
  show ?thesis using d' m sp s1 n k c s2 s3 s4 s5 by blast
qed

text \<open>
  A sampling option supplied as \<open>0.0\<close>: the TensorRT-LLM handler keeps its default
  temperature \<open>1.0\<close>, the SGLang handler forwards the \<open>0.0\<close>. The two handlers
  treat the same supplied value in opposite ways.
\<close>

theorem sampling_params_zero_counterexample:
  "derive_sampling_params [''temperature'' \<mapsto> PFloat 1]
      (example_request [(''temperature'', PFloat 0)] None) =
     Inr ([''temperature'' \<mapsto> PFloat 1, ''max_tokens'' \<mapsto> PInt 5])
   \<and> build_sampling_params True (example_sgl_request [''temperature'' \<mapsto> PFloat 0]) =
     [(''temperature'', PFloat 0), (''max_new_tokens'', PInt 5)]"
  by (simp add: derive_sampling_params_def set_if_truthy_def example_request_def dict_get_def
      build_sampling_params_def example_sgl_request_def get_dict_def Let_def)


subsection \<open>Validation in PREFILL and DECODE mode\<close>

lemma attach_max_tokens:
  "attach_test_logits_processor ext sp ''max_tokens'' = sp ''max_tokens''"
  by (simp add: attach_test_logits_processor_def)

lemma early_failure:
  "(process_input ext request = Inl e \<longrightarrow>
      generate_locally ext h request = failed_run request h e)
   \<and> (process_input ext request = Inr inp \<and> publishers_error h = Some e \<longrightarrow>
      generate_locally ext h request = failed_run request h e)"
  by (simp add: generate_locally_def)

text \<open>
  A PREFILL handler whose publisher holds a queued error: a request that carries
  \<open>disaggregated_params\<close> is rejected with the publisher's error, raised at line 184, and
  not with the \<open>ValueError\<close> of the validation, which is never reached.
\<close>

theorem prefill_publisher_error_counterexample:
  "raised (generate_locally example_collaborators
      ((example_handler PREFILL)\<lparr>publisher := Some failing_publisher\<rparr>)
      (example_request [] (Some ()))) = Some (RuntimeError ''publisher failed'')"
  by (simp add: generate_locally_def failed_run_def process_input_def publishers_error_def
      example_defs)

text \<open>
  C4, as the code has it. In PREFILL mode a request that carries \<open>disaggregated_params\<close> is
  rejected before any engine call: no call is made and nothing is yielded. The error is
  the one of the first step that fails: the input processing (a multimodal processor that
  raises), then the publisher's error check, then the validation with its \<open>ValueError\<close>
  "Cannot provide disaggregated_params in prefill mode". Without \<open>disaggregated_params\<close>,
  once the two first steps have passed, the one engine call has \<open>max_tokens = 1\<close> in its
  sampling parameters, the synthesized parameters with \<open>request_type = "context_only"\<close>
  and streaming off; if one of the two first steps fails its error is raised and no engine
  call is made.
\<close>

theorem prefill_rejects_disaggregated_params:
  assumes "disaggregation_mode h = PREFILL"
  shows
    "(disaggregated_params request \<noteq> None \<longrightarrow>
        engine_calls (generate_locally ext h request) = [] \<and>
        yielded (generate_locally ext h request) = [] \<and>
        raised (generate_locally ext h request) =
          Some (case process_input ext request of
                  Inl e \<Rightarrow> e
                | Inr processed \<Rightarrow>
                    (case publishers_error h of
                       Some e \<Rightarrow> e
                     | None \<Rightarrow> ValueError ''Cannot provide disaggregated_params in prefill mode'')))
     \<and> (disaggregated_params request \<noteq> None \<and> process_input ext request = Inr inp \<and>
          publishers_error h = None \<longrightarrow>
        raised (generate_locally ext h request) =
          Some (ValueError ''Cannot provide disaggregated_params in prefill mode''))
     \<and> (disaggregated_params request = None \<and> process_input ext request = Inr inp \<and>
          publishers_error h = None \<longrightarrow>
        (\<exists>call. engine_calls (generate_locally ext h request) = [call] \<and>
           call_sampling_params call ''max_tokens'' = Some (PInt 1) \<and>
           call_disaggregated_params call = Some context_only_params \<and>
           request_type context_only_params = ''context_only'' \<and>
           call_inputs call = inp \<and> call_streaming call = False))
     \<and> (process_input ext request = Inl e \<longrightarrow>
          engine_calls (generate_locally ext h request) = [] \<and>
          raised (generate_locally ext h request) = Some e)
     \<and> (process_input ext request = Inr inp \<and> publishers_error h = Some e \<longrightarrow>
          engine_calls (generate_locally ext h request) = [] \<and>
          raised (generate_locally ext h request) = Some e)"
proof -
  have A: "disaggregated_params request \<noteq> None \<Longrightarrow>
        engine_calls (generate_locally ext h request) = [] \<and>
        yielded (generate_locally ext h request) = [] \<and>
        raised (generate_locally ext h request) =
          Some (case process_input ext request of
                  Inl e \<Rightarrow> e
                | Inr processed \<Rightarrow>
                    (case publishers_error h of
                       Some e \<Rightarrow> e
                     | None \<Rightarrow> ValueError ''Cannot provide disaggregated_params in prefill mode''))"
    using assms
    by (auto simp: generate_locally_def failed_run_def decode_request_params_def Let_def
             split: sum.splits option.splits)
  then have B: "disaggregated_params request \<noteq> None \<Longrightarrow> process_input ext request = Inr inp \<Longrightarrow>
          publishers_error h = None \<Longrightarrow>
        raised (generate_locally ext h request) =
          Some (ValueError ''Cannot provide disaggregated_params in prefill mode'')"
    by simp
  have C: "disaggregated_params request = None \<Longrightarrow> process_input ext request = Inr inp \<Longrightarrow>
          publishers_error h = None \<Longrightarrow>
        (\<exists>call. engine_calls (generate_locally ext h request) = [call] \<and>
           call_sampling_params call ''max_tokens'' = Some (PInt 1) \<and>
           call_disaggregated_params call = Some context_only_params \<and>
           request_type context_only_params = ''context_only'' \<and>
           call_inputs call = inp \<and> call_streaming call = False)"
    using assms
    by (auto simp: generate_locally_def failed_run_def decode_request_params_def Let_def
                   derive_sampling_params_def set_if_truthy_def attach_max_tokens
                   context_only_params_def
             split: sum.splits option.splits prod.splits)
  have D: "process_input ext request = Inl e \<Longrightarrow>
          engine_calls (generate_locally ext h request) = [] \<and>
          raised (generate_locally ext h request) = Some e"
    and E: "process_input ext request = Inr inp \<Longrightarrow> publishers_error h = Some e \<Longrightarrow>
          engine_calls (generate_locally ext h request) = [] \<and>
          raised (generate_locally ext h request) = Some e"
    using early_failure [of ext request e h inp] by (simp_all add: failed_run_def)
  from A B C D E show ?thesis by blast
qed

theorem prefill_rejects_disaggregated_params_witness:
  "disaggregation_mode (example_handler PREFILL) = PREFILL
   \<and> disaggregated_params (example_request [] (Some ())) \<noteq> None
   \<and> process_input example_collaborators (example_request [] (Some ())) = Inr (TokenIds (Some [1, 2, 3]))
   \<and> process_input example_collaborators (example_request [] None) = Inr (TokenIds (Some [1, 2, 3]))
   \<and> publishers_error (example_handler PREFILL) = None
   \<and> engine_calls (generate_locally example_collaborators (example_handler PREFILL)
        (example_request [] (Some ()))) = []
   \<and> raised (generate_locally example_collaborators (example_handler PREFILL)
        (example_request [] (Some ()))) =
       Some (ValueError ''Cannot provide disaggregated_params in prefill mode'')
   \<and> disaggregated_params (example_request [] None) = None
   \<and> (\<exists>call. engine_calls (generate_locally example_collaborators (example_handler PREFILL)
          (example_request [] None)) = [call]
        \<and> call_sampling_params call ''max_tokens'' = Some (PInt 1)
        \<and> call_disaggregated_params call = Some context_only_params)
   \<and> disaggregation_mode ((example_handler PREFILL)\<lparr>publisher := Some failing_publisher\<rparr>) = PREFILL
   \<and> publishers_error ((example_handler PREFILL)\<lparr>publisher := Some failing_publisher\<rparr>) =
       Some (RuntimeError ''publisher failed'')
   \<and> engine_calls (generate_locally example_collaborators
        ((example_handler PREFILL)\<lparr>publisher := Some failing_publisher\<rparr>)
        (example_request [] None)) = []
   \<and> raised (generate_locally example_collaborators
        ((example_handler PREFILL)\<lparr>publisher := Some failing_publisher\<rparr>)
        (example_request [] None)) = Some (RuntimeError ''publisher failed'')
   \<and> process_input (example_collaborators\<lparr>multimodal := Some rejecting_processor\<rparr>)
        (example_request [] None) = Inl (ValueError ''unsupported content'')
   \<and> raised (generate_locally (example_collaborators\<lparr>multimodal := Some rejecting_processor\<rparr>)
        (example_handler PREFILL) (example_request [] None)) =
       Some (ValueError ''unsupported content'')"
proof -
  let ?hp = "(example_handler PREFILL)\<lparr>publisher := Some failing_publisher\<rparr>"
  let ?xm = "example_collaborators\<lparr>multimodal := Some rejecting_processor\<rparr>"
  have m: "disaggregation_mode (example_handler PREFILL) = PREFILL"
    and mp: "disaggregation_mode ?hp = PREFILL"
    by (simp_all add: example_handler_def)
  have s: "disaggregated_params (example_request [] (Some ())) \<noteq> None"
    and n: "disaggregated_params (example_request [] None) = None"
    by (simp_all add: example_request_def)
  have i: "process_input example_collaborators (example_request [] (Some ())) =
             Inr (TokenIds (Some [1, 2, 3]))"
    and j: "process_input example_collaborators (example_request [] None) =
             Inr (TokenIds (Some [1, 2, 3]))"
    and x: "process_input ?xm (example_request [] None) = Inl (ValueError ''unsupported content'')"
    by (simp_all add: process_input_def example_collaborators_def example_request_def
        rejecting_processor_def)
  have e: "publishers_error (example_handler PREFILL) = None"
    and ep: "publishers_error ?hp = Some (RuntimeError ''publisher failed'')"
    by (simp_all add: publishers_error_def example_handler_def failing_publisher_def)
  note with_params =
    prefill_rejects_disaggregated_params [OF m, where request = "example_request [] (Some ())"
        and ext = example_collaborators and inp = "TokenIds (Some [1, 2, 3])"
        and e = "ValueError []"]
  note without_params =
    prefill_rejects_disaggregated_params [OF m, where request = "example_request [] None"
        and ext = example_collaborators and inp = "TokenIds (Some [1, 2, 3])"
        and e = "ValueError []"]
  note publisher_fails =
    prefill_rejects_disaggregated_params [OF mp, where request = "example_request [] None"
        and ext = example_collaborators and inp = "TokenIds (Some [1, 2, 3])"
        and e = "RuntimeError ''publisher failed''"]
  note processor_fails =
    prefill_rejects_disaggregated_params [OF m, where request = "example_request [] None"
        and ext = ?xm and inp = "TokenIds (Some [1, 2, 3])"
        and e = "ValueError ''unsupported content''"]
  have A: "engine_calls (generate_locally example_collaborators (example_handler PREFILL)
        (example_request [] (Some ()))) = []"
    using with_params s by blast
  have B: "raised (generate_locally example_collaborators (example_handler PREFILL)
        (example_request [] (Some ()))) =
       Some (ValueError ''Cannot provide disaggregated_params in prefill mode'')"
    using with_params s i e by blast
  have C: "\<exists>call. engine_calls (generate_locally example_collaborators (example_handler PREFILL)
          (example_request [] None)) = [call]
        \<and> call_sampling_params call ''max_tokens'' = Some (PInt 1)
        \<and> call_disaggregated_params call = Some context_only_params"
    using without_params n j e by blast
  have D: "engine_calls (generate_locally example_collaborators ?hp (example_request [] None)) = []
      \<and> raised (generate_locally example_collaborators ?hp (example_request [] None)) =
          Some (RuntimeError ''publisher failed'')"
    using publisher_fails j ep by blast
  have E: "raised (generate_locally ?xm (example_handler PREFILL) (example_request [] None)) =
       Some (ValueError ''unsupported content'')"
    using processor_fails x by blast
  show ?thesis using m s i j e A B n C mp ep D x E by blast
qed

text \<open>
  A DECODE handler whose publisher holds a queued error: a request without
  \<open>disaggregated_params\<close> fails with the publisher's error, not with the \<open>ValueError\<close> of the
  validation.
\<close>

theorem decode_publisher_error_counterexample:
  "raised (generate_locally example_collaborators
      ((example_handler DECODE)\<lparr>publisher := Some failing_publisher\<rparr>)
      (example_request [] None)) = Some (RuntimeError ''publisher failed'')"
  by (simp add: generate_locally_def failed_run_def process_input_def publishers_error_def
      example_defs)

text \<open>
  C5, as the code has it. In DECODE mode a request without \<open>disaggregated_params\<close> fails
  before any engine call: no call is made and nothing is yielded. The error is the one of
  the first step that fails: the input processing, then the publisher's error check, then
  the validation with its \<open>ValueError\<close> "Disaggregated params are required for decode
  mode". With \<open>disaggregated_params\<close>, once the two first steps have passed, the engine call
  carries them as the codec decodes them, with \<open>request_type\<close> overwritten to
  \<open>"generation_only"\<close>, provided the stop conditions have a \<open>max_tokens\<close> entry; without that
  entry the run raises \<open>KeyError\<close> and makes no call. No engine call of a DECODE handler
  carries anything but the decoded parameters of the request.
\<close>

theorem decode_requires_disaggregated_params:
  assumes "disaggregation_mode h = DECODE"
  shows
    "(disaggregated_params request = None \<longrightarrow>
        engine_calls (generate_locally ext h request) = [] \<and>
        yielded (generate_locally ext h request) = [] \<and>
        raised (generate_locally ext h request) =
          Some (case process_input ext request of
                  Inl e \<Rightarrow> e
                | Inr processed \<Rightarrow>
                    (case publishers_error h of
                       Some e \<Rightarrow> e
                     | None \<Rightarrow> ValueError ''Disaggregated params are required for decode mode'')))
     \<and> (disaggregated_params request = None \<and> process_input ext request = Inr inp \<and>
          publishers_error h = None \<longrightarrow>
        raised (generate_locally ext h request) =
          Some (ValueError ''Disaggregated params are required for decode mode''))
     \<and> (disaggregated_params request = Some w \<and> process_input ext request = Inr inp \<and>
          publishers_error h = None \<and> stop_conditions request ''max_tokens'' \<noteq> None \<longrightarrow>
        (\<exists>call. engine_calls (generate_locally ext h request) = [call] \<and>
           call_disaggregated_params call =
             Some ((codec_decode ext w)\<lparr>request_type := ''generation_only''\<rparr>)))
     \<and> (disaggregated_params request = Some w \<and> process_input ext request = Inr inp \<and>
          publishers_error h = None \<and> stop_conditions request ''max_tokens'' = None \<longrightarrow>
          engine_calls (generate_locally ext h request) = [] \<and>
          raised (generate_locally ext h request) = Some (KeyError ''max_tokens''))
     \<and> (process_input ext request = Inl e \<longrightarrow>
          engine_calls (generate_locally ext h request) = [] \<and>
          raised (generate_locally ext h request) = Some e)
     \<and> (process_input ext request = Inr inp \<and> publishers_error h = Some e \<longrightarrow>
          engine_calls (generate_locally ext h request) = [] \<and>
          raised (generate_locally ext h request) = Some e)
     \<and> (\<forall>call \<in> set (engine_calls (generate_locally ext h request)).
           \<exists>w'. disaggregated_params request = Some w' \<and>
             call_disaggregated_params call =
               Some ((codec_decode ext w')\<lparr>request_type := ''generation_only''\<rparr>))"
proof -
  have A: "disaggregated_params request = None \<Longrightarrow>
        engine_calls (generate_locally ext h request) = [] \<and>
        yielded (generate_locally ext h request) = [] \<and>
        raised (generate_locally ext h request) =
          Some (case process_input ext request of
                  Inl e \<Rightarrow> e
                | Inr processed \<Rightarrow>
                    (case publishers_error h of
                       Some e \<Rightarrow> e
                     | None \<Rightarrow> ValueError ''Disaggregated params are required for decode mode''))"
    using assms
    by (auto simp: generate_locally_def failed_run_def decode_request_params_def Let_def
             split: sum.splits option.splits)
  then have B: "disaggregated_params request = None \<Longrightarrow> process_input ext request = Inr inp \<Longrightarrow>
          publishers_error h = None \<Longrightarrow>
        raised (generate_locally ext h request) =
          Some (ValueError ''Disaggregated params are required for decode mode'')"
    by simp
  have C: "disaggregated_params request = Some w \<Longrightarrow> process_input ext request = Inr inp \<Longrightarrow>
          publishers_error h = None \<Longrightarrow> stop_conditions request ''max_tokens'' \<noteq> None \<Longrightarrow>
        (\<exists>call. engine_calls (generate_locally ext h request) = [call] \<and>
           call_disaggregated_params call =
             Some ((codec_decode ext w)\<lparr>request_type := ''generation_only''\<rparr>))"
    using assms
    by (auto simp: generate_locally_def failed_run_def decode_request_params_def Let_def
                   derive_sampling_params_def
             split: sum.splits option.splits prod.splits)
  have K: "disaggregated_params request = Some w \<Longrightarrow> process_input ext request = Inr inp \<Longrightarrow>
          publishers_error h = None \<Longrightarrow> stop_conditions request ''max_tokens'' = None \<Longrightarrow>
          engine_calls (generate_locally ext h request) = [] \<and>
          raised (generate_locally ext h request) = Some (KeyError ''max_tokens'')"
    using assms
    by (auto simp: generate_locally_def failed_run_def decode_request_params_def Let_def
                   derive_sampling_params_def
             split: sum.splits option.splits prod.splits)
  have D: "\<forall>call \<in> set (engine_calls (generate_locally ext h request)).
           \<exists>w'. disaggregated_params request = Some w' \<and>
             call_disaggregated_params call =
               Some ((codec_decode ext w')\<lparr>request_type := ''generation_only''\<rparr>)"
    using assms
    by (auto simp: generate_locally_def failed_run_def decode_request_params_def Let_def
             split: sum.splits option.splits prod.splits)
  have E: "process_input ext request = Inl e \<Longrightarrow>
          engine_calls (generate_locally ext h request) = [] \<and>
          raised (generate_locally ext h request) = Some e"
    and F: "process_input ext request = Inr inp \<Longrightarrow> publishers_error h = Some e \<Longrightarrow>
          engine_calls (generate_locally ext h request) = [] \<and>
          raised (generate_locally ext h request) = Some e"
    using early_failure [of ext request e h inp] by (simp_all add: failed_run_def)
  from A B C K D E F show ?thesis by blast
qed

theorem decode_requires_disaggregated_params_witness:
  "disaggregation_mode (example_handler DECODE) = DECODE
   \<and> disaggregated_params (example_request [] None) = None
   \<and> process_input example_collaborators (example_request [] None) = Inr (TokenIds (Some [1, 2, 3]))
   \<and> process_input example_collaborators (example_request [] (Some ())) = Inr (TokenIds (Some [1, 2, 3]))
   \<and> publishers_error (example_handler DECODE) = None
   \<and> engine_calls (generate_locally example_collaborators (example_handler DECODE)
        (example_request [] None)) = []
   \<and> raised (generate_locally example_collaborators (example_handler DECODE)
        (example_request [] None)) =
       Some (ValueError ''Disaggregated params are required for decode mode'')
   \<and> disaggregated_params (example_request [] (Some ())) = Some ()
   \<and> stop_conditions (example_request [] (Some ())) ''max_tokens'' \<noteq> None
   \<and> (\<exists>call. engine_calls (generate_locally example_collaborators (example_handler DECODE)
          (example_request [] (Some ()))) = [call]
        \<and> call \<in> set (engine_calls (generate_locally example_collaborators (example_handler DECODE)
          (example_request [] (Some ()))))
        \<and> call_disaggregated_params call =
            Some \<lparr>request_type = ''generation_only'', ctx_request_id = Some 7,
                  opaque_state = None\<rparr>)
   \<and> stop_conditions ((example_request [] (Some ()))\<lparr>stop_conditions := Map.empty\<rparr>) ''max_tokens'' = None
   \<and> raised (generate_locally example_collaborators (example_handler DECODE)
        ((example_request [] (Some ()))\<lparr>stop_conditions := Map.empty\<rparr>)) =
       Some (KeyError ''max_tokens'')
   \<and> publishers_error ((example_handler DECODE)\<lparr>publisher := Some failing_publisher\<rparr>) =
       Some (RuntimeError ''publisher failed'')
   \<and> raised (generate_locally example_collaborators
        ((example_handler DECODE)\<lparr>publisher := Some failing_publisher\<rparr>)
        (example_request [] (Some ()))) = Some (RuntimeError ''publisher failed'')
   \<and> process_input (example_collaborators\<lparr>multimodal := Some rejecting_processor\<rparr>)
        (example_request [] (Some ())) = Inl (ValueError ''unsupported content'')
   \<and> raised (generate_locally (example_collaborators\<lparr>multimodal := Some rejecting_processor\<rparr>)
        (example_handler DECODE) (example_request [] (Some ()))) =
       Some (ValueError ''unsupported content'')"
proof -
  let ?hp = "(example_handler DECODE)\<lparr>publisher := Some failing_publisher\<rparr>"
  let ?xm = "example_collaborators\<lparr>multimodal := Some rejecting_processor\<rparr>"
  let ?bad = "(example_request [] (Some ()))\<lparr>stop_conditions := Map.empty\<rparr>"
  have m: "disaggregation_mode (example_handler DECODE) = DECODE"
    and mp: "disaggregation_mode ?hp = DECODE"
    by (simp_all add: example_handler_def)
  have s: "disaggregated_params (example_request [] (Some ())) = Some ()"
    and sb: "disaggregated_params ?bad = Some ()"
    and n: "disaggregated_params (example_request [] None) = None"
    and k: "stop_conditions (example_request [] (Some ())) ''max_tokens'' \<noteq> None"
    and kb: "stop_conditions ?bad ''max_tokens'' = None"
    by (simp_all add: example_request_def)
  have i: "process_input example_collaborators (example_request [] (Some ())) =
             Inr (TokenIds (Some [1, 2, 3]))"
    and ib: "process_input example_collaborators ?bad = Inr (TokenIds (Some [1, 2, 3]))"
    and j: "process_input example_collaborators (example_request [] None) =
             Inr (TokenIds (Some [1, 2, 3]))"
    and x: "process_input ?xm (example_request [] (Some ())) = Inl (ValueError ''unsupported content'')"
    by (simp_all add: process_input_def example_collaborators_def example_request_def
        rejecting_processor_def)
  have e: "publishers_error (example_handler DECODE) = None"
    and ep: "publishers_error ?hp = Some (RuntimeError ''publisher failed'')"
    by (simp_all add: publishers_error_def example_handler_def failing_publisher_def)
  have c: "(codec_decode example_collaborators ())\<lparr>request_type := ''generation_only''\<rparr> =
           \<lparr>request_type = ''generation_only'', ctx_request_id = Some 7, opaque_state = None\<rparr>"
    by (simp add: example_collaborators_def)
  note with_params =
    decode_requires_disaggregated_params [OF m, where request = "example_request [] (Some ())"
        and ext = example_collaborators and w = "()" and inp = "TokenIds (Some [1, 2, 3])"
        and e = "ValueError []"]
  note without_params =
    decode_requires_disaggregated_params [OF m, where request = "example_request [] None"
        and ext = example_collaborators and w = "()" and inp = "TokenIds (Some [1, 2, 3])"
        and e = "ValueError []"]
  note no_max_tokens =
    decode_requires_disaggregated_params [OF m, where request = ?bad
        and ext = example_collaborators and w = "()" and inp = "TokenIds (Some [1, 2, 3])"
        and e = "ValueError []"]
  note publisher_fails =
    decode_requires_disaggregated_params [OF mp, where request = "example_request [] (Some ())"
        and ext = example_collaborators and w = "()" and inp = "TokenIds (Some [1, 2, 3])"
        and e = "RuntimeError ''publisher failed''"]
  note processor_fails =
    decode_requires_disaggregated_params [OF m, where request = "example_request [] (Some ())"
        and ext = ?xm and w = "()" and inp = "TokenIds (Some [1, 2, 3])"
        and e = "ValueError ''unsupported content''"]
  have A: "engine_calls (generate_locally example_collaborators (example_handler DECODE)
        (example_request [] None)) = []"
    using without_params n by blast
  have B: "raised (generate_locally example_collaborators (example_handler DECODE)
        (example_request [] None)) =
       Some (ValueError ''Disaggregated params are required for decode mode'')"
    using without_params n j e by blast
  have "\<exists>call. engine_calls (generate_locally example_collaborators (example_handler DECODE)
          (example_request [] (Some ()))) = [call]
        \<and> call_disaggregated_params call =
            Some ((codec_decode example_collaborators ())\<lparr>request_type := ''generation_only''\<rparr>)"
    using with_params s i e k by blast
  then obtain call where cl: "engine_calls (generate_locally example_collaborators (example_handler DECODE)
          (example_request [] (Some ()))) = [call]"
    and cd: "call_disaggregated_params call =
            Some \<lparr>request_type = ''generation_only'', ctx_request_id = Some 7,
                  opaque_state = None\<rparr>"
    unfolding c by blast
  from cl have cm: "call \<in> set (engine_calls (generate_locally example_collaborators (example_handler DECODE)
          (example_request [] (Some ()))))" by simp
  have C: "\<exists>call. engine_calls (generate_locally example_collaborators (example_handler DECODE)
          (example_request [] (Some ()))) = [call]
        \<and> call \<in> set (engine_calls (generate_locally example_collaborators (example_handler DECODE)
          (example_request [] (Some ()))))
        \<and> call_disaggregated_params call =
            Some \<lparr>request_type = ''generation_only'', ctx_request_id = Some 7,
                  opaque_state = None\<rparr>"
    using cl cm cd by blast
  have K: "raised (generate_locally example_collaborators (example_handler DECODE) ?bad) =
       Some (KeyError ''max_tokens'')"
    using no_max_tokens sb ib e kb by blast
  have D: "raised (generate_locally example_collaborators ?hp (example_request [] (Some ()))) =
          Some (RuntimeError ''publisher failed'')"
    using publisher_fails i ep by blast
  have E: "raised (generate_locally ?xm (example_handler DECODE) (example_request [] (Some ()))) =
       Some (ValueError ''unsupported content'')"
    using processor_fails x by blast
  show ?thesis using m s n k i j e A B C kb K ep D x E by blast
qed

subsection \<open>The request after the call\<close>

text \<open>
  In PREFILL mode the handler writes \<open>max_tokens = 1\<close> into the caller's request: the request
  \<open>{id: "r1", token_ids: [1, 2, 3], stop_conditions: {max_tokens: 5}}\<close> has
  \<open>max_tokens = 1\<close> after the call.
\<close>

theorem request_mutated_counterexample:
  "stop_conditions (request_after (generate_locally example_collaborators
       (example_handler PREFILL) (example_request [] None))) ''max_tokens'' = Some (PInt 1)
   \<and> stop_conditions (example_request [] None) ''max_tokens'' = Some (PInt 5)"
  by (simp add: generate_locally_def failed_run_def decode_request_params_def Let_def
        example_defs process_input_def publishers_error_def
      split: sum.splits option.splits prod.splits)

text \<open>
  C9, as the code has it. Outside PREFILL mode \<open>generate_locally\<close> leaves the request as it
  was. In PREFILL mode it sets \<open>stop_conditions["max_tokens"]\<close> to 1 (as soon as the input
  processing and the publisher's error check have passed) and changes nothing else: the
  input, the sampling options, the disaggregated parameters, the ids and every other stop
  condition are the same after the call as before.
\<close>

theorem request_frame:
  "(disaggregation_mode h \<noteq> PREFILL \<longrightarrow>
      request_after (generate_locally ext h request) = request)
   \<and> (request_after (generate_locally ext h request) = request
       \<or> request_after (generate_locally ext h request) =
            request\<lparr>stop_conditions := (stop_conditions request)(''max_tokens'' \<mapsto> PInt 1)\<rparr>)
   \<and> (disaggregation_mode h = PREFILL \<and> process_input ext request = Inr inp \<and>
        publishers_error h = None \<longrightarrow>
        request_after (generate_locally ext h request) =
            request\<lparr>stop_conditions := (stop_conditions request)(''max_tokens'' \<mapsto> PInt 1)\<rparr>)"
  by (auto simp: generate_locally_def failed_run_def decode_request_params_def Let_def
           split: sum.splits option.splits prod.splits)

theorem request_frame_witness:
  "disaggregation_mode (example_handler AGGREGATED) \<noteq> PREFILL
   \<and> request_after (generate_locally example_collaborators (example_handler AGGREGATED)
        (example_request [] None)) = example_request [] None
   \<and> disaggregation_mode (example_handler PREFILL) = PREFILL
   \<and> process_input example_collaborators (example_request [] None) = Inr (TokenIds (Some [1, 2, 3]))
   \<and> publishers_error (example_handler PREFILL) = None
   \<and> request_after (generate_locally example_collaborators (example_handler PREFILL)
        (example_request [] None)) =
       (example_request [] None)\<lparr>stop_conditions :=
          (stop_conditions (example_request [] None))(''max_tokens'' \<mapsto> PInt 1)\<rparr>"
proof -
  have a: "disaggregation_mode (example_handler AGGREGATED) \<noteq> PREFILL"
    and p: "disaggregation_mode (example_handler PREFILL) = PREFILL"
    by (simp_all add: example_handler_def)
  have j: "process_input example_collaborators (example_request [] None) =
             Inr (TokenIds (Some [1, 2, 3]))"
    by (simp add: process_input_def example_collaborators_def example_request_def)
  have e: "publishers_error (example_handler PREFILL) = None"
    by (simp add: publishers_error_def example_handler_def)
  show ?thesis
    using request_frame [where h = "example_handler AGGREGATED" and ext = example_collaborators
        and request = "example_request [] None" and inp = "TokenIds (Some [1, 2, 3])"]
      request_frame [where h = "example_handler PREFILL" and ext = example_collaborators
        and request = "example_request [] None" and inp = "TokenIds (Some [1, 2, 3])"]
      a p j e
    by blast
qed


subsection \<open>Stream deltas\<close>

lemma token_chunks_simps [simp]:
  "token_chunks [] = []"
  "token_chunks (YieldTokens c # es) = c # token_chunks es"
  "token_chunks (MonitorStarted r # es) = token_chunks es"
  "token_chunks (MonitorJoined r # es) = token_chunks es"
  "token_chunks (CancellationChecked b # es) = token_chunks es"
  "token_chunks (es @ es') = token_chunks es @ token_chunks es'"
  by (simp_all add: token_chunks_def List.map_filter_def)

lemma text_chunks_simps [simp]:
  "text_chunks [] = []"
  "text_chunks (YieldText c # es) = c # text_chunks es"
  "text_chunks (MonitorStarted r # es) = text_chunks es"
  "text_chunks (MonitorJoined r # es) = text_chunks es"
  "text_chunks (CancellationChecked b # es) = text_chunks es"
  "text_chunks (es @ es') = text_chunks es @ text_chunks es'"
  by (simp_all add: text_chunks_def List.map_filter_def)

lemma start_monitor_chunks [simp]:
  "token_chunks (snd (start_monitor ctx task res)) = []"
  "text_chunks (snd (start_monitor ctx task res)) = []"
  by (simp_all add: start_monitor_def cancellation_monitor_enter_def split: option.splits)

lemma check_event_chunks [simp]:
  "token_chunks (check_event ctx t) = []"
  "text_chunks (check_event ctx t) = []"
  by (simp_all add: check_event_def split: option.splits)

lemma unfinished_output_ids_Cons:
  "unfinished_output_ids (res # rest) =
     (if finish_reason_type res = Inr None
      then (case output_ids res of None \<Rightarrow> unfinished_output_ids rest
            | Some ids \<Rightarrow> ids # unfinished_output_ids rest)
      else unfinished_output_ids rest)"
  by (simp add: unfinished_output_ids_def List.map_filter_def split: option.splits)

lemma token_stream_loop_deltas:
  assumes "\<forall>t. \<not> signalled ctx t"
  shows "token_stream_loop ctx t n task snaps = (events, task', None) \<Longrightarrow>
     cumulative (p # unfinished_output_ids snaps) \<Longrightarrow> n = length p \<Longrightarrow>
     p @ emitted_token_ids events = last (p # unfinished_output_ids snaps)
     \<and> map (\<lambda>c. Inr (tc_finish_reason c)) (token_chunks events) = map finish_reason_type snaps"
proof (induction snaps arbitrary: t n task events task' p)
  case Nil
  then show ?case by (simp add: emitted_token_ids_def unfinished_output_ids_def List.map_filter_def)
next
  case (Cons res rest)
  obtain task1 started where sm: "start_monitor ctx task res = (task1, started)"
    by (cases "start_monitor ctx task res") auto
  have st: "token_chunks started = []"
    using start_monitor_chunks(1) [of ctx task res] sm by simp
  have ns: "\<not> signalled ctx t" using assms by simp
  show ?case
  proof (cases "token_chunk_of n res")
    case (Inl e)
    then show ?thesis using Cons.prems(1) sm ns by simp
  next
    case (Inr pr)
    obtain out n' where pr: "pr = (out, n')" by (cases pr)
    obtain events2 task2 err2 where
      rec: "token_stream_loop ctx (Suc t) n' task1 rest = (events2, task2, err2)"
      by (cases "token_stream_loop ctx (Suc t) n' task1 rest") auto
    from Cons.prems(1) sm ns Inr pr rec have
      ev: "events = started @ check_event ctx t @ YieldTokens out # events2" and e2: "err2 = None"
      by simp_all
    have em: "emitted_token_ids events = tc_token_ids out @ emitted_token_ids events2"
      and tc: "token_chunks events = out # token_chunks events2"
      using ev st by (simp_all add: emitted_token_ids_def)
    show ?thesis
    proof (cases "finish_reason_type res")
      case (Inl e)
      then show ?thesis using Inr by (simp add: token_chunk_of_def)
    next
      case fr: (Inr fro)
      show ?thesis
      proof (cases fro)
        case None
        have tco: "token_chunk_of n res =
            (case output_ids res of
               None \<Rightarrow> Inl (ValueError ''Missing output_ids in response'')
             | Some ids \<Rightarrow> Inr (\<lparr>tc_token_ids = drop n ids, tc_finish_reason = None\<rparr>, length ids))"
          unfolding token_chunk_of_def fr None by simp
        obtain ids where ids: "output_ids res = Some ids"
          using tco Inr by (cases "output_ids res") auto
        have out: "out = \<lparr>tc_token_ids = drop n ids, tc_finish_reason = None\<rparr>" and n': "n' = length ids"
          using tco Inr pr ids by simp_all
        have u: "unfinished_output_ids (res # rest) = ids # unfinished_output_ids rest"
          using fr None ids by (simp add: unfinished_output_ids_Cons)
        from Cons.prems(2) u have pp: "prefix p ids" and c: "cumulative (ids # unfinished_output_ids rest)"
          by simp_all
        from pp Cons.prems(3) have y: "p @ drop n ids = ids" by (auto simp: prefix_def)
        from Cons.IH [OF rec [unfolded e2] c n'] have
          IH: "ids @ emitted_token_ids events2 = last (ids # unfinished_output_ids rest)"
          and IH2: "map (\<lambda>c. Inr (tc_finish_reason c)) (token_chunks events2) = map finish_reason_type rest"
          by simp_all
        have "p @ emitted_token_ids events = (p @ drop n ids) @ emitted_token_ids events2"
          using em out by simp
        also have "\<dots> = last (p # unfinished_output_ids (res # rest))"
          using y IH u by simp
        finally show ?thesis using tc IH2 out fr None by simp
      next
        case (Some ty)
        have "token_chunk_of n res = Inr (\<lparr>tc_token_ids = [], tc_finish_reason = Some ty\<rparr>, n)"
          unfolding token_chunk_of_def fr Some by simp
        with Inr pr have out: "out = \<lparr>tc_token_ids = [], tc_finish_reason = Some ty\<rparr>" and n': "n' = n"
          by simp_all
        have u: "unfinished_output_ids (res # rest) = unfinished_output_ids rest"
          using fr Some by (simp add: unfinished_output_ids_Cons)
        from Cons.IH [OF rec [unfolded e2 n'] _ Cons.prems(3)] Cons.prems(2) u have
          IH: "p @ emitted_token_ids events2 = last (p # unfinished_output_ids rest)"
          and IH2: "map (\<lambda>c. Inr (tc_finish_reason c)) (token_chunks events2) = map finish_reason_type rest"
          by simp_all
        show ?thesis using em out IH IH2 u tc fr Some by simp
      qed
    qed
  qed
qed

lemma text_stream_loop_deltas:
  assumes "\<forall>t. \<not> signalled ctx t"
  shows "text_stream_loop ext h ctx t k count task snaps = (events, task', None) \<Longrightarrow>
     cumulative (p # snapshot_texts snaps) \<Longrightarrow> count = length p \<Longrightarrow>
     p @ emitted_content events = last (p # snapshot_texts snaps)
     \<and> map (\<lambda>c. Inr (tx_finish_reason c)) (text_chunks events) = map finish_reason_type snaps"
proof (induction snaps arbitrary: t k count task events task' p)
  case Nil
  then show ?case by (simp add: emitted_content_def snapshot_texts_def)
next
  case (Cons res rest)
  obtain task1 started where sm: "start_monitor ctx task res = (task1, started)"
    by (cases "start_monitor ctx task res") auto
  have st: "text_chunks started = []"
    using start_monitor_chunks(2) [of ctx task res] sm by simp
  have ns: "\<not> signalled ctx t" using assms by simp
  define body where "body = (case text_key res of None \<Rightarrow> [] | Some s \<Rightarrow> s)"
  have u: "snapshot_texts (res # rest) = body # snapshot_texts rest"
    by (simp add: snapshot_texts_def body_def)
  show ?case
  proof (cases "text_chunk_of ext h k count res")
    case (Inl e)
    then show ?thesis using Cons.prems(1) sm ns by simp
  next
    case (Inr pr)
    obtain response next_count where pr: "pr = (response, next_count)" by (cases pr)
    obtain events2 task2 err2 where
      rec: "text_stream_loop ext h ctx (Suc t) (Suc k) next_count task1 rest = (events2, task2, err2)"
      by (cases "text_stream_loop ext h ctx (Suc t) (Suc k) next_count task1 rest") auto
    from Cons.prems(1) sm ns Inr pr rec have
      ev: "events = started @ check_event ctx t @ YieldText response # events2" and e2: "err2 = None"
      by simp_all
    have em: "emitted_content events = tx_content response @ emitted_content events2"
      and tc: "text_chunks events = response # text_chunks events2"
      using ev st by (simp_all add: emitted_content_def)
    from Inr pr have resp: "tx_content response = drop count body" and nc: "next_count = length body"
      and fr: "finish_reason_type res = Inr (tx_finish_reason response)"
      by (auto simp: text_chunk_of_def body_def Let_def split: sum.splits option.splits)
    from Cons.prems(2) u have pp: "prefix p body" and c: "cumulative (body # snapshot_texts rest)"
      by simp_all
    from pp Cons.prems(3) have y: "p @ drop count body = body" by (auto simp: prefix_def)
    from Cons.IH [OF rec [unfolded e2] c nc] have
      IH: "body @ emitted_content events2 = last (body # snapshot_texts rest)"
      and IH2: "map (\<lambda>c. Inr (tx_finish_reason c)) (text_chunks events2) = map finish_reason_type rest"
      by simp_all
    have "p @ emitted_content events = (p @ drop count body) @ emitted_content events2"
      using em resp by simp
    also have "\<dots> = last (p # snapshot_texts (res # rest))"
      using y IH u by simp
    finally show ?thesis using tc IH2 fr by simp
  qed
qed

lemma start_publisher_once_mode [simp]:
  "disaggregation_mode (start_publisher_once h) = disaggregation_mode h"
  by (simp add: start_publisher_once_def split: option.splits)

lemma final_chunk_token_ids:
  "multimodal ext = None \<Longrightarrow> final_chunk ext rid mn h res = Inr (h2, c) \<Longrightarrow>
   chunk_token_ids c = Some [] \<and> chunk_finish_reason c = Some ''stop''"
  by (auto simp: final_chunk_def Let_def empty_chunk_def split: list.splits sum.splits)

lemma delta_chunk_token_ids:
  "multimodal ext = None \<Longrightarrow>
   chunk_token_ids (delta_chunk ext rid mn mode n out1) = Some (drop n (out_token_ids out1))"
  by (simp add: delta_chunk_def Let_def empty_chunk_def split: option.splits)

lemma stream_chunks_deltas:
  assumes "multimodal ext = None"
  shows "stream_chunks ext rid mn h n rs = (h', chunks, err) \<Longrightarrow>
     cumulative (p # streamed_token_ids (disaggregation_mode h) rs) \<Longrightarrow> n = length p \<Longrightarrow>
     p @ emitted_chunk_token_ids chunks = last (p # streamed_token_ids (disaggregation_mode h) rs)"
proof (induction rs arbitrary: h n h' chunks err p)
  case Nil
  then show ?case by (simp add: emitted_chunk_token_ids_def streamed_token_ids_def)
next
  case (Cons res rest)
  let ?h1 = "start_publisher_once h"
  let ?mode = "disaggregation_mode h"
  show ?case
  proof (cases "finished res \<and> ?mode \<noteq> PREFILL")
    case True
    then have s: "streamed_token_ids ?mode (res # rest) = []"
      by (simp add: streamed_token_ids_def)
    have "emitted_chunk_token_ids chunks = []"
    proof (cases "final_chunk ext rid mn ?h1 res")
      case (Inl e)
      then show ?thesis using Cons.prems(1) True by (simp add: emitted_chunk_token_ids_def)
    next
      case (Inr pr)
      obtain h2 c where pr: "pr = (h2, c)" by (cases pr)
      from final_chunk_token_ids [OF assms Inr [unfolded pr]] have "chunk_token_ids c = Some []" by simp
      moreover have "chunks = [c]" using Cons.prems(1) True Inr pr by simp
      ultimately show ?thesis by (simp add: emitted_chunk_token_ids_def)
    qed
    then show ?thesis using s by simp
  next
    case False
    show ?thesis
    proof (cases "outputs res")
      case Nil
      then have s: "streamed_token_ids ?mode (res # rest) = []"
        by (simp add: streamed_token_ids_def)
      have "chunks = [error_chunk]" using Cons.prems(1) False Nil by auto
      then show ?thesis using s
        by (simp add: emitted_chunk_token_ids_def error_chunk_def empty_chunk_def)
    next
      case (Cons out1 os)
      let ?ids = "out_token_ids out1"
      have s: "streamed_token_ids ?mode (res # rest) = ?ids # streamed_token_ids ?mode rest"
        using False Cons by (auto simp: streamed_token_ids_def)
      obtain h2 cs2 e2 where
        rec: "stream_chunks ext rid mn ?h1 (length ?ids) rest = (h2, cs2, e2)"
        by (cases "stream_chunks ext rid mn ?h1 (length ?ids) rest") auto
      have ch: "chunks = delta_chunk ext rid mn ?mode n out1 # cs2"
        using Cons.prems(1) False Cons rec by auto
      from Cons.prems(2) s have pp: "prefix p ?ids"
        and c: "cumulative (?ids # streamed_token_ids (disaggregation_mode ?h1) rest)"
        by simp_all
      from pp Cons.prems(3) have y: "p @ drop n ?ids = ?ids" by (auto simp: prefix_def)
      from Cons.IH [OF rec c refl] have
        IH: "?ids @ emitted_chunk_token_ids cs2 = last (?ids # streamed_token_ids ?mode rest)"
        by simp
      have "p @ emitted_chunk_token_ids chunks = (p @ drop n ?ids) @ emitted_chunk_token_ids cs2"
        using ch delta_chunk_token_ids [OF assms] by (simp add: emitted_chunk_token_ids_def)
      also have "\<dots> = last (p # streamed_token_ids ?mode (res # rest))"
        using y IH s by simp
      finally show ?thesis .
    qed
  qed
qed

lemma cumulative_from_empty: "cumulative ([] # xs) = cumulative xs"
  by (cases xs) simp_all

lemma cleanup_monitor_raised [simp]: "sgl_raised (cleanup_monitor (events, task, err)) = err"
  by (simp add: cleanup_monitor_def cancellation_monitor_exit_def split: option.splits)

lemma cleanup_monitor_chunks [simp]:
  "token_chunks (trace (cleanup_monitor (events, task, err))) = token_chunks events"
  "text_chunks (trace (cleanup_monitor (events, task, err))) = text_chunks events"
  by (simp_all add: cleanup_monitor_def cancellation_monitor_exit_def split: option.splits)

lemma process_token_stream_deltas:
  assumes "\<forall>t. \<not> signalled ctx t"
    and "sgl_raised (process_token_stream ctx t snaps) = None"
    and "cumulative (unfinished_output_ids snaps)"
  shows "emitted_token_ids (trace (process_token_stream ctx t snaps)) =
           final_value (unfinished_output_ids snaps)
       \<and> map (\<lambda>c. Inr (tc_finish_reason c)) (token_chunks (trace (process_token_stream ctx t snaps))) =
           map finish_reason_type snaps"
proof -
  obtain events task err where l: "token_stream_loop ctx t 0 None snaps = (events, task, err)"
    by (cases "token_stream_loop ctx t 0 None snaps") auto
  with assms(2) have e: "err = None" by (simp add: process_token_stream_def)
  from assms(3) have c: "cumulative ([] # unfinished_output_ids snaps)"
    by (simp add: cumulative_from_empty)
  from token_stream_loop_deltas [OF assms(1) l [unfolded e] c] show ?thesis
    by (simp add: process_token_stream_def l emitted_token_ids_def final_value_def)
qed

lemma process_text_stream_deltas:
  assumes "\<forall>t. \<not> signalled ctx t"
    and "sgl_raised (process_text_stream ext h ctx t snaps) = None"
    and "cumulative (snapshot_texts snaps)"
  shows "emitted_content (trace (process_text_stream ext h ctx t snaps)) =
           final_value (snapshot_texts snaps)
       \<and> map (\<lambda>c. Inr (tx_finish_reason c)) (text_chunks (trace (process_text_stream ext h ctx t snaps))) =
           map finish_reason_type snaps"
proof -
  obtain events task err where l: "text_stream_loop ext h ctx t 0 0 None snaps = (events, task, err)"
    by (cases "text_stream_loop ext h ctx t 0 0 None snaps") auto
  with assms(2) have e: "err = None" by (simp add: process_text_stream_def)
  from assms(3) have c: "cumulative ([] # snapshot_texts snaps)"
    by (simp add: cumulative_from_empty)
  from text_stream_loop_deltas [OF assms(1) l [unfolded e] c] show ?thesis
    by (simp add: process_text_stream_def l emitted_content_def final_value_def)
qed

lemma stream_chunks_final_value:
  assumes "multimodal ext = None"
    and "cumulative (streamed_token_ids (disaggregation_mode h) rs)"
  shows "emitted_chunk_token_ids (fst (snd (stream_chunks ext rid mn h 0 rs))) =
           final_value (streamed_token_ids (disaggregation_mode h) rs)"
proof -
  obtain h' chunks err where l: "stream_chunks ext rid mn h 0 rs = (h', chunks, err)"
    by (cases "stream_chunks ext rid mn h 0 rs") auto
  from assms(2) have c: "cumulative ([] # streamed_token_ids (disaggregation_mode h) rs)"
    by (simp add: cumulative_from_empty)
  from stream_chunks_deltas [OF assms(1) l c] show ?thesis
    by (simp add: l final_value_def)
qed

lemma delta_chunk_reasons:
  "chunk_finish_reason (delta_chunk ext rid mn mode n out1) =
     (case out_finish_reason out1 of
        None \<Rightarrow> None
      | Some r \<Rightarrow> if r \<noteq> [] then Some r else None)
   \<and> chunk_stop_reason (delta_chunk ext rid mn mode n out1) =
     (if truthy (out_stop_reason out1) then Some (out_stop_reason out1) else None)"
  by (simp add: delta_chunk_def Let_def empty_chunk_def split: option.splits)

lemma prefix_concat_take: "prefix (concat (map f (take k xs))) (concat (map f xs))"
proof -
  have "concat (map f xs) = concat (map f (take k xs)) @ concat (map f (drop k xs))"
    by (metis append_take_drop_id concat_append map_append)
  then show ?thesis by (simp add: prefix_def)
qed

lemma cumulative_prefix_last: "cumulative (p # xs) \<Longrightarrow> prefix p (last (p # xs))"
proof (induction xs arbitrary: p)
  case Nil
  then show ?case by simp
next
  case (Cons x xs)
  from Cons.prems have px: "prefix p x" and c: "cumulative (x # xs)" by simp_all
  from Cons.IH [OF c] px show ?case by (auto intro: prefix_order.trans)
qed

lemma emitted_no_chunks [simp]:
  "emitted_token_ids (snd (start_monitor ctx task res) @ check_event ctx t) = []"
  "emitted_content (snd (start_monitor ctx task res) @ check_event ctx t) = []"
  by (simp_all add: emitted_token_ids_def emitted_content_def)

lemma token_stream_loop_prefix:
  "token_stream_loop ctx t n task snaps = (events, task', err) \<Longrightarrow>
     cumulative (p # unfinished_output_ids snaps) \<Longrightarrow> n = length p \<Longrightarrow>
     prefix (p @ emitted_token_ids events) (last (p # unfinished_output_ids snaps))"
proof (induction snaps arbitrary: t n task events task' err p)
  case Nil
  then show ?case by (simp add: emitted_token_ids_def unfinished_output_ids_def List.map_filter_def)
next
  case (Cons res rest)
  obtain task1 started where sm: "start_monitor ctx task res = (task1, started)"
    by (cases "start_monitor ctx task res") auto
  have st: "token_chunks started = []"
    using start_monitor_chunks(1) [of ctx task res] sm by simp
  have stop: "prefix (p @ emitted_token_ids (started @ check_event ctx t))
      (last (p # unfinished_output_ids (res # rest)))"
    using cumulative_prefix_last [OF Cons.prems(2)] st by (simp add: emitted_token_ids_def)
  show ?case
  proof (cases "signalled ctx t")
    case True
    then have "events = started @ check_event ctx t" using Cons.prems(1) sm by simp
    then show ?thesis using stop by simp
  next
    case ns: False
    show ?thesis
    proof (cases "token_chunk_of n res")
      case (Inl e)
      then have "events = started @ check_event ctx t" using Cons.prems(1) sm ns by simp
      then show ?thesis using stop by simp
    next
      case (Inr pr)
      obtain out n' where pr: "pr = (out, n')" by (cases pr)
      obtain events2 task2 err2 where
        rec: "token_stream_loop ctx (Suc t) n' task1 rest = (events2, task2, err2)"
        by (cases "token_stream_loop ctx (Suc t) n' task1 rest") auto
      from Cons.prems(1) sm ns Inr pr rec have
        ev: "events = started @ check_event ctx t @ YieldTokens out # events2"
        by simp
      have em: "emitted_token_ids events = tc_token_ids out @ emitted_token_ids events2"
        using ev st by (simp add: emitted_token_ids_def)
      show ?thesis
      proof (cases "finish_reason_type res")
        case (Inl e)
        then show ?thesis using Inr by (simp add: token_chunk_of_def)
      next
        case fr: (Inr fro)
        show ?thesis
        proof (cases fro)
          case None
          have tco: "token_chunk_of n res =
              (case output_ids res of
                 None \<Rightarrow> Inl (ValueError ''Missing output_ids in response'')
               | Some ids \<Rightarrow> Inr (\<lparr>tc_token_ids = drop n ids, tc_finish_reason = None\<rparr>, length ids))"
            unfolding token_chunk_of_def fr None by simp
          obtain ids where ids: "output_ids res = Some ids"
            using tco Inr by (cases "output_ids res") auto
          have out: "out = \<lparr>tc_token_ids = drop n ids, tc_finish_reason = None\<rparr>" and n': "n' = length ids"
            using tco Inr pr ids by simp_all
          have u: "unfinished_output_ids (res # rest) = ids # unfinished_output_ids rest"
            using fr None ids by (simp add: unfinished_output_ids_Cons)
          from Cons.prems(2) u have pp: "prefix p ids" and c: "cumulative (ids # unfinished_output_ids rest)"
            by simp_all
          from pp Cons.prems(3) have y: "p @ drop n ids = ids" by (auto simp: prefix_def)
          from Cons.IH [OF rec c n'] have
            IH: "prefix (ids @ emitted_token_ids events2) (last (ids # unfinished_output_ids rest))" .
          have "p @ emitted_token_ids events = (p @ drop n ids) @ emitted_token_ids events2"
            using em out by simp
          then show ?thesis using y IH u by simp
        next
          case (Some ty)
          have "token_chunk_of n res = Inr (\<lparr>tc_token_ids = [], tc_finish_reason = Some ty\<rparr>, n)"
            unfolding token_chunk_of_def fr Some by simp
          with Inr pr have out: "out = \<lparr>tc_token_ids = [], tc_finish_reason = Some ty\<rparr>" and n': "n' = n"
            by simp_all
          have u: "unfinished_output_ids (res # rest) = unfinished_output_ids rest"
            using fr Some by (simp add: unfinished_output_ids_Cons)
          from Cons.IH [OF rec [unfolded n'] _ Cons.prems(3)] Cons.prems(2) u have
            IH: "prefix (p @ emitted_token_ids events2) (last (p # unfinished_output_ids rest))"
            by simp
          show ?thesis using em out IH u by simp
        qed
      qed
    qed
  qed
qed

lemma token_chunk_of_reason:
  "token_chunk_of n res = Inr (out, n') \<Longrightarrow> finish_reason_type res = Inr (tc_finish_reason out)"
proof (cases "finish_reason_type res")
  case (Inl e)
  assume "token_chunk_of n res = Inr (out, n')"
  then show ?thesis using Inl by (simp add: token_chunk_of_def)
next
  case fr: (Inr fro)
  assume a: "token_chunk_of n res = Inr (out, n')"
  show ?thesis
  proof (cases fro)
    case None
    have "token_chunk_of n res =
        (case output_ids res of
           None \<Rightarrow> Inl (ValueError ''Missing output_ids in response'')
         | Some ids \<Rightarrow> Inr (\<lparr>tc_token_ids = drop n ids, tc_finish_reason = None\<rparr>, length ids))"
      unfolding token_chunk_of_def fr None by simp
    with a show ?thesis using fr None by (cases "output_ids res") auto
  next
    case (Some ty)
    have "token_chunk_of n res = Inr (\<lparr>tc_token_ids = [], tc_finish_reason = Some ty\<rparr>, n)"
      unfolding token_chunk_of_def fr Some by simp
    with a show ?thesis using fr Some by auto
  qed
qed

lemma token_stream_loop_reasons:
  "token_stream_loop ctx t n task snaps = (events, task', err) \<Longrightarrow>
     map (\<lambda>c. Inr (tc_finish_reason c)) (token_chunks events) =
       take (length (token_chunks events)) (map finish_reason_type snaps)
     \<and> ((\<forall>t. \<not> signalled ctx t) \<and> err = None \<longrightarrow> length (token_chunks events) = length snaps)"
proof (induction snaps arbitrary: t n task events task' err)
  case Nil
  then show ?case by simp
next
  case (Cons res rest)
  obtain task1 started where sm: "start_monitor ctx task res = (task1, started)"
    by (cases "start_monitor ctx task res") auto
  have st: "token_chunks started = []"
    using start_monitor_chunks(1) [of ctx task res] sm by simp
  show ?case
  proof (cases "signalled ctx t")
    case True
    then have "events = started @ check_event ctx t" using Cons.prems(1) sm by simp
    then show ?thesis using st True by auto
  next
    case ns: False
    show ?thesis
    proof (cases "token_chunk_of n res")
      case (Inl e)
      then have "events = started @ check_event ctx t" and "err = Some e"
        using Cons.prems(1) sm ns by simp_all
      then show ?thesis using st by simp
    next
      case (Inr pr)
      obtain out n' where pr: "pr = (out, n')" by (cases pr)
      obtain events2 task2 err2 where
        rec: "token_stream_loop ctx (Suc t) n' task1 rest = (events2, task2, err2)"
        by (cases "token_stream_loop ctx (Suc t) n' task1 rest") auto
      from Cons.prems(1) sm ns Inr pr rec have
        ev: "events = started @ check_event ctx t @ YieldTokens out # events2" and e2: "err2 = err"
        by simp_all
      have tc: "token_chunks events = out # token_chunks events2"
        using ev st by simp
      from token_chunk_of_reason [OF Inr [unfolded pr]] have fr: "finish_reason_type res = Inr (tc_finish_reason out)" .
      from Cons.IH [OF rec] show ?thesis using tc fr e2 by simp
    qed
  qed
qed

lemma text_chunk_of_facts:
  "text_chunk_of ext h k count res = Inr (response, next_count) \<Longrightarrow>
     tx_content response = drop count (case text_key res of None \<Rightarrow> [] | Some s \<Rightarrow> s)
     \<and> next_count = length (case text_key res of None \<Rightarrow> [] | Some s \<Rightarrow> s)
     \<and> finish_reason_type res = Inr (tx_finish_reason response)"
  by (auto simp: text_chunk_of_def Let_def split: sum.splits option.splits)

lemma text_stream_loop_prefix:
  "text_stream_loop ext h ctx t k count task snaps = (events, task', err) \<Longrightarrow>
     cumulative (p # snapshot_texts snaps) \<Longrightarrow> count = length p \<Longrightarrow>
     prefix (p @ emitted_content events) (last (p # snapshot_texts snaps))"
proof (induction snaps arbitrary: t k count task events task' err p)
  case Nil
  then show ?case by (simp add: emitted_content_def snapshot_texts_def)
next
  case (Cons res rest)
  obtain task1 started where sm: "start_monitor ctx task res = (task1, started)"
    by (cases "start_monitor ctx task res") auto
  have st: "text_chunks started = []"
    using start_monitor_chunks(2) [of ctx task res] sm by simp
  define body where "body = (case text_key res of None \<Rightarrow> [] | Some s \<Rightarrow> s)"
  have u: "snapshot_texts (res # rest) = body # snapshot_texts rest"
    by (simp add: snapshot_texts_def body_def)
  have stop: "prefix (p @ emitted_content (started @ check_event ctx t))
      (last (p # snapshot_texts (res # rest)))"
    using cumulative_prefix_last [OF Cons.prems(2)] st by (simp add: emitted_content_def)
  show ?case
  proof (cases "signalled ctx t")
    case True
    then have "events = started @ check_event ctx t" using Cons.prems(1) sm by simp
    then show ?thesis using stop by simp
  next
    case ns: False
    show ?thesis
    proof (cases "text_chunk_of ext h k count res")
      case (Inl e)
      then have "events = started @ check_event ctx t" using Cons.prems(1) sm ns by simp
      then show ?thesis using stop by simp
    next
      case (Inr pr)
      obtain response next_count where pr: "pr = (response, next_count)" by (cases pr)
      obtain events2 task2 err2 where
        rec: "text_stream_loop ext h ctx (Suc t) (Suc k) next_count task1 rest = (events2, task2, err2)"
        by (cases "text_stream_loop ext h ctx (Suc t) (Suc k) next_count task1 rest") auto
      from Cons.prems(1) sm ns Inr pr rec have
        ev: "events = started @ check_event ctx t @ YieldText response # events2"
        by simp
      have em: "emitted_content events = tx_content response @ emitted_content events2"
        using ev st by (simp add: emitted_content_def)
      from text_chunk_of_facts [OF Inr [unfolded pr]] have
        resp: "tx_content response = drop count body" and nc: "next_count = length body"
        by (simp_all add: body_def)
      from Cons.prems(2) u have pp: "prefix p body" and c: "cumulative (body # snapshot_texts rest)"
        by simp_all
      from pp Cons.prems(3) have y: "p @ drop count body = body" by (auto simp: prefix_def)
      from Cons.IH [OF rec c nc] have
        IH: "prefix (body @ emitted_content events2) (last (body # snapshot_texts rest))" .
      have "p @ emitted_content events = (p @ drop count body) @ emitted_content events2"
        using em resp by simp
      then show ?thesis using y IH u by simp
    qed
  qed
qed

lemma text_stream_loop_reasons:
  "text_stream_loop ext h ctx t k count task snaps = (events, task', err) \<Longrightarrow>
     map (\<lambda>c. Inr (tx_finish_reason c)) (text_chunks events) =
       take (length (text_chunks events)) (map finish_reason_type snaps)
     \<and> ((\<forall>t. \<not> signalled ctx t) \<and> err = None \<longrightarrow> length (text_chunks events) = length snaps)"
proof (induction snaps arbitrary: t k count task events task' err)
  case Nil
  then show ?case by simp
next
  case (Cons res rest)
  obtain task1 started where sm: "start_monitor ctx task res = (task1, started)"
    by (cases "start_monitor ctx task res") auto
  have st: "text_chunks started = []"
    using start_monitor_chunks(2) [of ctx task res] sm by simp
  show ?case
  proof (cases "signalled ctx t")
    case True
    then have "events = started @ check_event ctx t" using Cons.prems(1) sm by simp
    then show ?thesis using st True by auto
  next
    case ns: False
    show ?thesis
    proof (cases "text_chunk_of ext h k count res")
      case (Inl e)
      then have "events = started @ check_event ctx t" and "err = Some e"
        using Cons.prems(1) sm ns by simp_all
      then show ?thesis using st by simp
    next
      case (Inr pr)
      obtain response next_count where pr: "pr = (response, next_count)" by (cases pr)
      obtain events2 task2 err2 where
        rec: "text_stream_loop ext h ctx (Suc t) (Suc k) next_count task1 rest = (events2, task2, err2)"
        by (cases "text_stream_loop ext h ctx (Suc t) (Suc k) next_count task1 rest") auto
      from Cons.prems(1) sm ns Inr pr rec have
        ev: "events = started @ check_event ctx t @ YieldText response # events2" and e2: "err2 = err"
        by simp_all
      have tc: "text_chunks events = response # text_chunks events2"
        using ev st by simp
      from text_chunk_of_facts [OF Inr [unfolded pr]] have
        fr: "finish_reason_type res = Inr (tx_finish_reason response)" by simp
      from Cons.IH [OF rec] show ?thesis using tc fr e2 by simp
    qed
  qed
qed

lemma final_chunk_fields:
  "multimodal ext = None \<Longrightarrow> final_chunk ext rid mn h res = Inr (h2, c) \<Longrightarrow>
   chunk_token_ids c = Some [] \<and> chunk_finish_reason c = Some ''stop'' \<and> chunk_stop_reason c = None"
  by (auto simp: final_chunk_def Let_def empty_chunk_def split: list.splits sum.splits)

lemma stream_chunks_shape:
  "stream_chunks ext rid mn h n rs = (h', chunks, err) \<Longrightarrow>
     map chunk_finish_reason (take (length (streamed_outputs (disaggregation_mode h) rs)) chunks) =
       map (\<lambda>out1. case out_finish_reason out1 of
                     None \<Rightarrow> None
                   | Some r \<Rightarrow> if r \<noteq> [] then Some r else None)
         (streamed_outputs (disaggregation_mode h) rs)
     \<and> map chunk_stop_reason (take (length (streamed_outputs (disaggregation_mode h) rs)) chunks) =
       map (\<lambda>out1. if truthy (out_stop_reason out1) then Some (out_stop_reason out1) else None)
         (streamed_outputs (disaggregation_mode h) rs)
     \<and> (ending_snapshot (disaggregation_mode h) rs = None \<longrightarrow>
          drop (length (streamed_outputs (disaggregation_mode h) rs)) chunks = [] \<and> err = None)
     \<and> (\<forall>res. ending_snapshot (disaggregation_mode h) rs = Some res \<longrightarrow>
          (if finished res \<and> disaggregation_mode h \<noteq> PREFILL
           then (err = None \<longrightarrow>
                   length (drop (length (streamed_outputs (disaggregation_mode h) rs)) chunks) = 1
                   \<and> (multimodal ext = None \<longrightarrow>
                        map chunk_token_ids
                          (drop (length (streamed_outputs (disaggregation_mode h) rs)) chunks) = [Some []]
                        \<and> map chunk_finish_reason
                          (drop (length (streamed_outputs (disaggregation_mode h) rs)) chunks) = [Some ''stop'']
                        \<and> map chunk_stop_reason
                          (drop (length (streamed_outputs (disaggregation_mode h) rs)) chunks) = [None]))
                \<and> (err \<noteq> None \<longrightarrow>
                     drop (length (streamed_outputs (disaggregation_mode h) rs)) chunks = [])
           else outputs res = []
                \<and> drop (length (streamed_outputs (disaggregation_mode h) rs)) chunks = [error_chunk]
                \<and> err = None))"
proof (induction rs arbitrary: h n h' chunks err)
  case Nil
  then show ?case by (simp add: streamed_outputs_def ending_snapshot_def)
next
  case (Cons res rest)
  let ?h1 = "start_publisher_once h"
  let ?mode = "disaggregation_mode h"
  show ?case
  proof (cases "finished res \<and> ?mode \<noteq> PREFILL")
    case True
    then have s: "streamed_outputs ?mode (res # rest) = []"
      and en: "ending_snapshot ?mode (res # rest) = Some res"
      by (simp_all add: streamed_outputs_def ending_snapshot_def)
    show ?thesis
    proof (cases "final_chunk ext rid mn ?h1 res")
      case (Inl e)
      then have "chunks = []" "err = Some e" using Cons.prems(1) True by simp_all
      then show ?thesis using s en True by simp
    next
      case (Inr pr)
      obtain h2 c where pr: "pr = (h2, c)" by (cases pr)
      have ch: "chunks = [c]" "err = None" using Cons.prems(1) True Inr pr by simp_all
      have "multimodal ext = None \<longrightarrow>
          chunk_token_ids c = Some [] \<and> chunk_finish_reason c = Some ''stop'' \<and> chunk_stop_reason c = None"
        using final_chunk_fields [OF _ Inr [unfolded pr]] by blast
      then show ?thesis using s en True ch by simp
    qed
  next
    case False
    show ?thesis
    proof (cases "outputs res")
      case Nil
      then have s: "streamed_outputs ?mode (res # rest) = []"
        and en: "ending_snapshot ?mode (res # rest) = Some res"
        by (simp_all add: streamed_outputs_def ending_snapshot_def)
      have "chunks = [error_chunk]" "err = None" using Cons.prems(1) False Nil by auto
      then show ?thesis using s en False Nil by auto
    next
      case (Cons out1 os)
      have s: "streamed_outputs ?mode (res # rest) = out1 # streamed_outputs ?mode rest"
        and en: "ending_snapshot ?mode (res # rest) = ending_snapshot ?mode rest"
        using False Cons by (auto simp: streamed_outputs_def ending_snapshot_def)
      obtain h2 cs2 e2 where
        rec: "stream_chunks ext rid mn ?h1 (length (out_token_ids out1)) rest = (h2, cs2, e2)"
        by (cases "stream_chunks ext rid mn ?h1 (length (out_token_ids out1)) rest") auto
      have ch: "chunks = delta_chunk ext rid mn ?mode n out1 # cs2" and e: "err = e2"
        using Cons.prems(1) False Cons rec by auto
      note IH = Cons.IH [OF rec, unfolded start_publisher_once_mode]
      show ?thesis unfolding s en ch e
        using IH delta_chunk_reasons [of ext rid mn ?mode n out1] by auto
    qed
  qed
qed

lemma streamed_token_ids_outputs:
  "streamed_token_ids mode rs = map out_token_ids (streamed_outputs mode rs)"
  by (simp add: streamed_token_ids_def streamed_outputs_def)

lemma generate_locally_yielded:
  "engine_calls (generate_locally ext h request) = [call] \<Longrightarrow>
     yielded (generate_locally ext h request) =
       fst (snd (stream_chunks ext (request_id_of (request_after (generate_locally ext h request)))
                   (model_name_of (request_after (generate_locally ext h request))) h 0
                   (generate_async ext call)))
     \<and> raised (generate_locally ext h request) =
       snd (snd (stream_chunks ext (request_id_of (request_after (generate_locally ext h request)))
                   (model_name_of (request_after (generate_locally ext h request))) h 0
                   (generate_async ext call)))"
  by (auto simp: generate_locally_def failed_run_def Let_def
      split: sum.splits option.splits prod.splits)

lemma generate_locally_no_call:
  "engine_calls (generate_locally ext h request) = [] \<Longrightarrow>
     yielded (generate_locally ext h request) = []"
  by (auto simp: generate_locally_def failed_run_def Let_def
      split: sum.splits option.splits prod.splits)

lemma process_token_stream_prefix:
  assumes "cumulative (unfinished_output_ids snaps)"
  shows "prefix (concat (map tc_token_ids (take k (token_chunks (trace (process_token_stream ctx t snaps))))))
           (final_value (unfinished_output_ids snaps))"
proof -
  obtain events task err where l: "token_stream_loop ctx t 0 None snaps = (events, task, err)"
    by (cases "token_stream_loop ctx t 0 None snaps") auto
  from assms have c: "cumulative ([] # unfinished_output_ids snaps)"
    by (simp add: cumulative_from_empty)
  from token_stream_loop_prefix [OF l c] have
    "prefix (emitted_token_ids events) (final_value (unfinished_output_ids snaps))"
    by (simp add: final_value_def)
  moreover have "prefix (concat (map tc_token_ids (take k (token_chunks events)))) (emitted_token_ids events)"
    unfolding emitted_token_ids_def by (rule prefix_concat_take)
  ultimately show ?thesis
    by (auto simp: process_token_stream_def l intro: prefix_order.trans)
qed

lemma process_token_stream_reasons:
  "map (\<lambda>c. Inr (tc_finish_reason c)) (token_chunks (trace (process_token_stream ctx t snaps))) =
     take (length (token_chunks (trace (process_token_stream ctx t snaps)))) (map finish_reason_type snaps)
   \<and> ((\<forall>t. \<not> signalled ctx t) \<and> sgl_raised (process_token_stream ctx t snaps) = None \<longrightarrow>
        map (\<lambda>c. Inr (tc_finish_reason c)) (token_chunks (trace (process_token_stream ctx t snaps))) =
          map finish_reason_type snaps)"
proof -
  obtain events task err where l: "token_stream_loop ctx t 0 None snaps = (events, task, err)"
    by (cases "token_stream_loop ctx t 0 None snaps") auto
  from token_stream_loop_reasons [OF l] show ?thesis
    by (auto simp: process_token_stream_def l)
qed

lemma process_text_stream_prefix:
  assumes "cumulative (snapshot_texts snaps)"
  shows "prefix (concat (map tx_content (take k (text_chunks (trace (process_text_stream ext h ctx t snaps))))))
           (final_value (snapshot_texts snaps))"
proof -
  obtain events task err where l: "text_stream_loop ext h ctx t 0 0 None snaps = (events, task, err)"
    by (cases "text_stream_loop ext h ctx t 0 0 None snaps") auto
  from assms have c: "cumulative ([] # snapshot_texts snaps)"
    by (simp add: cumulative_from_empty)
  from text_stream_loop_prefix [OF l c] have
    "prefix (emitted_content events) (final_value (snapshot_texts snaps))"
    by (simp add: final_value_def)
  moreover have "prefix (concat (map tx_content (take k (text_chunks events)))) (emitted_content events)"
    unfolding emitted_content_def by (rule prefix_concat_take)
  ultimately show ?thesis
    by (auto simp: process_text_stream_def l intro: prefix_order.trans)
qed

lemma process_text_stream_reasons:
  "map (\<lambda>c. Inr (tx_finish_reason c)) (text_chunks (trace (process_text_stream ext h ctx t snaps))) =
     take (length (text_chunks (trace (process_text_stream ext h ctx t snaps)))) (map finish_reason_type snaps)
   \<and> ((\<forall>t. \<not> signalled ctx t) \<and> sgl_raised (process_text_stream ext h ctx t snaps) = None \<longrightarrow>
        map (\<lambda>c. Inr (tx_finish_reason c)) (text_chunks (trace (process_text_stream ext h ctx t snaps))) =
          map finish_reason_type snaps)"
proof -
  obtain events task err where l: "text_stream_loop ext h ctx t 0 0 None snaps = (events, task, err)"
    by (cases "text_stream_loop ext h ctx t 0 0 None snaps") auto
  from text_stream_loop_reasons [OF l] show ?thesis
    by (auto simp: process_text_stream_def l)
qed

lemma generate_locally_deltas:
  assumes "engine_calls (generate_locally ext h request) = [call]"
    and "multimodal ext = None"
    and "cumulative (streamed_token_ids (disaggregation_mode h) (generate_async ext call))"
  shows "emitted_chunk_token_ids (yielded (generate_locally ext h request)) =
           final_value (streamed_token_ids (disaggregation_mode h) (generate_async ext call))
         \<and> (\<forall>k. prefix (emitted_chunk_token_ids (take k (yielded (generate_locally ext h request))))
                  (final_value (streamed_token_ids (disaggregation_mode h) (generate_async ext call))))"
proof -
  let ?chunks = "yielded (generate_locally ext h request)"
  have eq: "emitted_chunk_token_ids ?chunks =
           final_value (streamed_token_ids (disaggregation_mode h) (generate_async ext call))"
    using generate_locally_yielded [OF assms(1)] stream_chunks_final_value [OF assms(2) assms(3)]
    by simp
  have "prefix (emitted_chunk_token_ids (take k ?chunks)) (emitted_chunk_token_ids ?chunks)" for k
    unfolding emitted_chunk_token_ids_def by (rule prefix_concat_take)
  with eq show ?thesis by simp
qed

lemma generate_locally_shape:
  assumes "engine_calls (generate_locally ext h request) = [call]"
  shows "map chunk_finish_reason
           (take (length (streamed_outputs (disaggregation_mode h) (generate_async ext call)))
              (yielded (generate_locally ext h request))) =
         map (\<lambda>out1. case out_finish_reason out1 of
                       None \<Rightarrow> None
                     | Some r \<Rightarrow> if r \<noteq> [] then Some r else None)
           (streamed_outputs (disaggregation_mode h) (generate_async ext call))
     \<and> map chunk_stop_reason
           (take (length (streamed_outputs (disaggregation_mode h) (generate_async ext call)))
              (yielded (generate_locally ext h request))) =
         map (\<lambda>out1. if truthy (out_stop_reason out1) then Some (out_stop_reason out1) else None)
           (streamed_outputs (disaggregation_mode h) (generate_async ext call))
     \<and> (ending_snapshot (disaggregation_mode h) (generate_async ext call) = None \<longrightarrow>
          drop (length (streamed_outputs (disaggregation_mode h) (generate_async ext call)))
            (yielded (generate_locally ext h request)) = []
          \<and> raised (generate_locally ext h request) = None)
     \<and> (\<forall>res. ending_snapshot (disaggregation_mode h) (generate_async ext call) = Some res \<longrightarrow>
          (if finished res \<and> disaggregation_mode h \<noteq> PREFILL
           then (raised (generate_locally ext h request) = None \<longrightarrow>
                   length (drop (length (streamed_outputs (disaggregation_mode h) (generate_async ext call)))
                             (yielded (generate_locally ext h request))) = 1
                   \<and> (multimodal ext = None \<longrightarrow>
                        map chunk_token_ids
                          (drop (length (streamed_outputs (disaggregation_mode h) (generate_async ext call)))
                             (yielded (generate_locally ext h request))) = [Some []]
                        \<and> map chunk_finish_reason
                          (drop (length (streamed_outputs (disaggregation_mode h) (generate_async ext call)))
                             (yielded (generate_locally ext h request))) = [Some ''stop'']
                        \<and> map chunk_stop_reason
                          (drop (length (streamed_outputs (disaggregation_mode h) (generate_async ext call)))
                             (yielded (generate_locally ext h request))) = [None]))
                \<and> (raised (generate_locally ext h request) \<noteq> None \<longrightarrow>
                     drop (length (streamed_outputs (disaggregation_mode h) (generate_async ext call)))
                       (yielded (generate_locally ext h request)) = [])
           else outputs res = []
                \<and> drop (length (streamed_outputs (disaggregation_mode h) (generate_async ext call)))
                     (yielded (generate_locally ext h request)) = [error_chunk]
                \<and> raised (generate_locally ext h request) = None))"
proof -
  define rid where "rid = request_id_of (request_after (generate_locally ext h request))"
  define mn where "mn = model_name_of (request_after (generate_locally ext h request))"
  obtain h' chunks err where
    l: "stream_chunks ext rid mn h 0 (generate_async ext call) = (h', chunks, err)"
    by (cases "stream_chunks ext rid mn h 0 (generate_async ext call)") auto
  from generate_locally_yielded [OF assms] have
    y: "yielded (generate_locally ext h request) = chunks"
    and r: "raised (generate_locally ext h request) = err"
    by (simp_all add: l [unfolded rid_def mn_def])
  show ?thesis unfolding y r by (rule stream_chunks_shape [OF l])
qed


text \<open>
  C1, as the code has it. The stream is cumulative: each snapshot's sequence begins with the
  sequence of the snapshot before it.
  \<^item> SGLang token mode (\<open>_process_token_stream\<close>). In every run, cancelled, failed or
    complete, the deltas of the first \<open>k\<close> chunks add up to a prefix of the sequence of the
    last snapshot that carries no finish reason, for every \<open>k\<close>: nothing is emitted twice or
    out of place. In a run that is not cancelled and raises nothing they add up to that
    sequence itself; the chunk of a snapshot with a finish reason has empty \<open>token_ids\<close>, so
    this is the engine's final sequence when the finishing snapshot adds no token to the one
    before it. In every run the chunks answer the first snapshots of the stream one by one, and
    each carries the \<open>type\<close> of its snapshot's finish reason; a run that is not cancelled and
    raises nothing answers all of them.
  \<^item> SGLang text mode (\<open>_process_text_stream\<close>): the same, with \<open>content\<close> and the text of
    the last snapshot.
  \<^item> TensorRT-LLM (\<open>generate_locally\<close>). A run that made no engine call yielded nothing. In
    a run that called the engine, with no multimodal processor, the \<open>token_ids\<close> of the chunks
    yielded add up to the sequence of the last snapshot before the one that ends the loop (the
    first finished snapshot outside PREFILL mode, or one without outputs), and the first \<open>k\<close>
    chunks to a prefix of it. The chunks yielded for the snapshots before the ending one carry
    the engine's \<open>finish_reason\<close> and \<open>stop_reason\<close> as they are, when set, and none
    otherwise. After them: nothing, when no snapshot ends the loop; the chunk
    \<open>{finish_reason: error, token_ids: []}\<close> for a snapshot without outputs; for a finished
    snapshot one final chunk, which without a multimodal processor has empty \<open>token_ids\<close>,
    the finish reason \<open>stop\<close> and no stop reason, or nothing when building it raised.
\<close>

theorem stream_deltas:
  "(cumulative (unfinished_output_ids snaps) \<longrightarrow>
      (\<forall>k. prefix
              (concat (map tc_token_ids
                 (take k (token_chunks (trace (process_token_stream ctx t snaps))))))
              (final_value (unfinished_output_ids snaps)))
      \<and> ((\<forall>t. \<not> signalled ctx t) \<and> sgl_raised (process_token_stream ctx t snaps) = None \<longrightarrow>
           emitted_token_ids (trace (process_token_stream ctx t snaps)) =
             final_value (unfinished_output_ids snaps)))
   \<and> map (\<lambda>c. Inr (tc_finish_reason c)) (token_chunks (trace (process_token_stream ctx t snaps))) =
       take (length (token_chunks (trace (process_token_stream ctx t snaps))))
         (map finish_reason_type snaps)
   \<and> ((\<forall>t. \<not> signalled ctx t) \<and> sgl_raised (process_token_stream ctx t snaps) = None \<longrightarrow>
        map (\<lambda>c. Inr (tc_finish_reason c)) (token_chunks (trace (process_token_stream ctx t snaps))) =
          map finish_reason_type snaps)
   \<and> (cumulative (snapshot_texts snaps) \<longrightarrow>
      (\<forall>k. prefix
              (concat (map tx_content
                 (take k (text_chunks (trace (process_text_stream ext h ctx t snaps))))))
              (final_value (snapshot_texts snaps)))
      \<and> ((\<forall>t. \<not> signalled ctx t) \<and> sgl_raised (process_text_stream ext h ctx t snaps) = None \<longrightarrow>
           emitted_content (trace (process_text_stream ext h ctx t snaps)) =
             final_value (snapshot_texts snaps)))
   \<and> map (\<lambda>c. Inr (tx_finish_reason c)) (text_chunks (trace (process_text_stream ext h ctx t snaps))) =
       take (length (text_chunks (trace (process_text_stream ext h ctx t snaps))))
         (map finish_reason_type snaps)
   \<and> ((\<forall>t. \<not> signalled ctx t) \<and> sgl_raised (process_text_stream ext h ctx t snaps) = None \<longrightarrow>
        map (\<lambda>c. Inr (tx_finish_reason c)) (text_chunks (trace (process_text_stream ext h ctx t snaps))) =
          map finish_reason_type snaps)
   \<and> (engine_calls (generate_locally tx th request) = [] \<longrightarrow>
        yielded (generate_locally tx th request) = [])
   \<and> (engine_calls (generate_locally tx th request) = [call] \<longrightarrow>
        (multimodal tx = None \<and>
         cumulative (streamed_token_ids (disaggregation_mode th) (generate_async tx call)) \<longrightarrow>
           emitted_chunk_token_ids (yielded (generate_locally tx th request)) =
             final_value (streamed_token_ids (disaggregation_mode th) (generate_async tx call))
           \<and> (\<forall>k. prefix (emitted_chunk_token_ids (take k (yielded (generate_locally tx th request))))
                    (final_value (streamed_token_ids (disaggregation_mode th) (generate_async tx call)))))
        \<and> map chunk_finish_reason
            (take (length (streamed_outputs (disaggregation_mode th) (generate_async tx call)))
               (yielded (generate_locally tx th request))) =
          map (\<lambda>out1. case out_finish_reason out1 of
                        None \<Rightarrow> None
                      | Some r \<Rightarrow> if r \<noteq> [] then Some r else None)
            (streamed_outputs (disaggregation_mode th) (generate_async tx call))
        \<and> map chunk_stop_reason
            (take (length (streamed_outputs (disaggregation_mode th) (generate_async tx call)))
               (yielded (generate_locally tx th request))) =
          map (\<lambda>out1. if truthy (out_stop_reason out1) then Some (out_stop_reason out1) else None)
            (streamed_outputs (disaggregation_mode th) (generate_async tx call))
        \<and> (ending_snapshot (disaggregation_mode th) (generate_async tx call) = None \<longrightarrow>
             drop (length (streamed_outputs (disaggregation_mode th) (generate_async tx call)))
               (yielded (generate_locally tx th request)) = []
             \<and> raised (generate_locally tx th request) = None)
        \<and> (\<forall>res. ending_snapshot (disaggregation_mode th) (generate_async tx call) = Some res \<longrightarrow>
             (if finished res \<and> disaggregation_mode th \<noteq> PREFILL
              then (raised (generate_locally tx th request) = None \<longrightarrow>
                      length (drop (length (streamed_outputs (disaggregation_mode th) (generate_async tx call)))
                                (yielded (generate_locally tx th request))) = 1
                      \<and> (multimodal tx = None \<longrightarrow>
                           map chunk_token_ids
                             (drop (length (streamed_outputs (disaggregation_mode th) (generate_async tx call)))
                                (yielded (generate_locally tx th request))) = [Some []]
                           \<and> map chunk_finish_reason
                             (drop (length (streamed_outputs (disaggregation_mode th) (generate_async tx call)))
                                (yielded (generate_locally tx th request))) = [Some ''stop'']
                           \<and> map chunk_stop_reason
                             (drop (length (streamed_outputs (disaggregation_mode th) (generate_async tx call)))
                                (yielded (generate_locally tx th request))) = [None]))
                   \<and> (raised (generate_locally tx th request) \<noteq> None \<longrightarrow>
                        drop (length (streamed_outputs (disaggregation_mode th) (generate_async tx call)))
                          (yielded (generate_locally tx th request)) = [])
              else outputs res = []
                   \<and> drop (length (streamed_outputs (disaggregation_mode th) (generate_async tx call)))
                        (yielded (generate_locally tx th request)) = [error_chunk]
                   \<and> raised (generate_locally tx th request) = None)))"
proof -
  have A: "cumulative (unfinished_output_ids snaps) \<longrightarrow>
      (\<forall>k. prefix
              (concat (map tc_token_ids
                 (take k (token_chunks (trace (process_token_stream ctx t snaps))))))
              (final_value (unfinished_output_ids snaps)))
      \<and> ((\<forall>t. \<not> signalled ctx t) \<and> sgl_raised (process_token_stream ctx t snaps) = None \<longrightarrow>
           emitted_token_ids (trace (process_token_stream ctx t snaps)) =
             final_value (unfinished_output_ids snaps))"
    using process_token_stream_prefix [of snaps _ ctx t]
      process_token_stream_deltas [of ctx t snaps] by blast
  have B: "cumulative (snapshot_texts snaps) \<longrightarrow>
      (\<forall>k. prefix
              (concat (map tx_content
                 (take k (text_chunks (trace (process_text_stream ext h ctx t snaps))))))
              (final_value (snapshot_texts snaps)))
      \<and> ((\<forall>t. \<not> signalled ctx t) \<and> sgl_raised (process_text_stream ext h ctx t snaps) = None \<longrightarrow>
           emitted_content (trace (process_text_stream ext h ctx t snaps)) =
             final_value (snapshot_texts snaps))"
    using process_text_stream_prefix [of snaps _ ext h ctx t]
      process_text_stream_deltas [of ctx ext h t snaps] by blast
  note C = process_token_stream_reasons [of ctx t snaps]
  note D = process_text_stream_reasons [of ext h ctx t snaps]
  have E: "engine_calls (generate_locally tx th request) = [] \<longrightarrow>
        yielded (generate_locally tx th request) = []"
    using generate_locally_no_call [of tx th request] by blast
  have F: "engine_calls (generate_locally tx th request) = [call] \<longrightarrow>
        (multimodal tx = None \<and>
         cumulative (streamed_token_ids (disaggregation_mode th) (generate_async tx call)) \<longrightarrow>
           emitted_chunk_token_ids (yielded (generate_locally tx th request)) =
             final_value (streamed_token_ids (disaggregation_mode th) (generate_async tx call))
           \<and> (\<forall>k. prefix (emitted_chunk_token_ids (take k (yielded (generate_locally tx th request))))
                    (final_value (streamed_token_ids (disaggregation_mode th) (generate_async tx call)))))"
    using generate_locally_deltas [of tx th request call] by blast
  show ?thesis
  proof (cases "engine_calls (generate_locally tx th request) = [call]")
    case True
    from generate_locally_shape [OF True] F True have
      "(multimodal tx = None \<and>
         cumulative (streamed_token_ids (disaggregation_mode th) (generate_async tx call)) \<longrightarrow>
           emitted_chunk_token_ids (yielded (generate_locally tx th request)) =
             final_value (streamed_token_ids (disaggregation_mode th) (generate_async tx call))
           \<and> (\<forall>k. prefix (emitted_chunk_token_ids (take k (yielded (generate_locally tx th request))))
                    (final_value (streamed_token_ids (disaggregation_mode th) (generate_async tx call)))))
        \<and> map chunk_finish_reason
            (take (length (streamed_outputs (disaggregation_mode th) (generate_async tx call)))
               (yielded (generate_locally tx th request))) =
          map (\<lambda>out1. case out_finish_reason out1 of
                        None \<Rightarrow> None
                      | Some r \<Rightarrow> if r \<noteq> [] then Some r else None)
            (streamed_outputs (disaggregation_mode th) (generate_async tx call))
        \<and> map chunk_stop_reason
            (take (length (streamed_outputs (disaggregation_mode th) (generate_async tx call)))
               (yielded (generate_locally tx th request))) =
          map (\<lambda>out1. if truthy (out_stop_reason out1) then Some (out_stop_reason out1) else None)
            (streamed_outputs (disaggregation_mode th) (generate_async tx call))
        \<and> (ending_snapshot (disaggregation_mode th) (generate_async tx call) = None \<longrightarrow>
             drop (length (streamed_outputs (disaggregation_mode th) (generate_async tx call)))
               (yielded (generate_locally tx th request)) = []
             \<and> raised (generate_locally tx th request) = None)
        \<and> (\<forall>res. ending_snapshot (disaggregation_mode th) (generate_async tx call) = Some res \<longrightarrow>
             (if finished res \<and> disaggregation_mode th \<noteq> PREFILL
              then (raised (generate_locally tx th request) = None \<longrightarrow>
                      length (drop (length (streamed_outputs (disaggregation_mode th) (generate_async tx call)))
                                (yielded (generate_locally tx th request))) = 1
                      \<and> (multimodal tx = None \<longrightarrow>
                           map chunk_token_ids
                             (drop (length (streamed_outputs (disaggregation_mode th) (generate_async tx call)))
                                (yielded (generate_locally tx th request))) = [Some []]
                           \<and> map chunk_finish_reason
                             (drop (length (streamed_outputs (disaggregation_mode th) (generate_async tx call)))
                                (yielded (generate_locally tx th request))) = [Some ''stop'']
                           \<and> map chunk_stop_reason
                             (drop (length (streamed_outputs (disaggregation_mode th) (generate_async tx call)))
                                (yielded (generate_locally tx th request))) = [None]))
                   \<and> (raised (generate_locally tx th request) \<noteq> None \<longrightarrow>
                        drop (length (streamed_outputs (disaggregation_mode th) (generate_async tx call)))
                          (yielded (generate_locally tx th request)) = [])
              else outputs res = []
                   \<and> drop (length (streamed_outputs (disaggregation_mode th) (generate_async tx call)))
                        (yielded (generate_locally tx th request)) = [error_chunk]
                   \<and> raised (generate_locally tx th request) = None))"
      (is ?H)
      by blast
    then have "engine_calls (generate_locally tx th request) = [call] \<longrightarrow> ?H" by blast
    with A B C D E show ?thesis by blast
  next
    case False
    with A B C D E show ?thesis by blast
  qed
qed

lemmas run_defs = generate_locally_def failed_run_def process_input_def publishers_error_def
  decode_request_params_def derive_sampling_params_def request_id_of_def model_name_of_def
  attach_test_logits_processor_def start_publisher_once_def final_chunk_def
  publish_kv_metrics_def delta_chunk_def error_chunk_def empty_chunk_def set_if_truthy_def Let_def

text \<open>
  A finishing snapshot that brings a new token: the SGLang token stream \<open>[4]\<close>, then
  \<open>[4, 5]\<close> with finish reason \<open>length\<close>, emits \<open>[4]\<close> and an empty chunk, so the deltas add
  up to \<open>[4]\<close> and not to the final \<open>[4, 5]\<close>. The TensorRT-LLM stream \<open>[4]\<close>, then
  \<open>[4, 5]\<close> finished with the engine's finish reason \<open>length\<close>, emits \<open>[4]\<close> and a final
  chunk with no tokens and the finish reason \<open>stop\<close>; so does \<open>generate_locally\<close> when the
  engine answers its call with that stream.
\<close>

theorem stream_deltas_counterexample:
  "emitted_token_ids (trace (process_token_stream None 0
      [sgl_snapshot [4] ''a'' FrNone,
       sgl_snapshot [4, 5] ''ab'' (FrDict [(''type'', PStr ''length'')])])) = [4]
   \<and> sgl_raised (process_token_stream None 0
      [sgl_snapshot [4] ''a'' FrNone,
       sgl_snapshot [4, 5] ''ab'' (FrDict [(''type'', PStr ''length'')])]) = None
   \<and> output_ids (sgl_snapshot [4, 5] ''ab'' (FrDict [(''type'', PStr ''length'')])) = Some [4, 5]
   \<and> map chunk_token_ids (fst (snd (stream_chunks example_collaborators ''r1'' ''m''
        (example_handler AGGREGATED) 0
        [token_snapshot False [4], finished_snapshot ''length'' [4, 5]]))) = [Some [4], Some []]
   \<and> map chunk_finish_reason (fst (snd (stream_chunks example_collaborators ''r1'' ''m''
        (example_handler AGGREGATED) 0
        [token_snapshot False [4], finished_snapshot ''length'' [4, 5]]))) = [None, Some ''stop'']
   \<and> map chunk_token_ids (yielded (generate_locally
        (example_collaborators\<lparr>generate_async :=
           (\<lambda>call. [token_snapshot False [4], finished_snapshot ''length'' [4, 5]])\<rparr>)
        (example_handler AGGREGATED) (example_request [] None))) = [Some [4], Some []]
   \<and> map chunk_finish_reason (yielded (generate_locally
        (example_collaborators\<lparr>generate_async :=
           (\<lambda>call. [token_snapshot False [4], finished_snapshot ''length'' [4, 5]])\<rparr>)
        (example_handler AGGREGATED) (example_request [] None))) = [None, Some ''stop'']
   \<and> raised (generate_locally
        (example_collaborators\<lparr>generate_async :=
           (\<lambda>call. [token_snapshot False [4], finished_snapshot ''length'' [4, 5]])\<rparr>)
        (example_handler AGGREGATED) (example_request [] None)) = None"
  by (simp add: process_token_stream_def cleanup_monitor_def cancellation_monitor_exit_def token_chunk_of_def
      finish_reason_type_def start_monitor_def cancellation_monitor_enter_def signalled_def check_event_def
      emitted_token_ids_def example_defs run_defs)

theorem stream_deltas_witness:
  "cumulative (unfinished_output_ids
        [sgl_snapshot [4] ''a'' FrNone, sgl_snapshot [4, 5] ''ab'' FrNone,
         sgl_snapshot [4, 5] ''ab'' (FrDict [(''type'', PStr ''stop'')])])
   \<and> (\<forall>t. \<not> signalled None t)
   \<and> sgl_raised (process_token_stream None 0
        [sgl_snapshot [4] ''a'' FrNone, sgl_snapshot [4, 5] ''ab'' FrNone,
         sgl_snapshot [4, 5] ''ab'' (FrDict [(''type'', PStr ''stop'')])]) = None
   \<and> emitted_token_ids (trace (process_token_stream None 0
        [sgl_snapshot [4] ''a'' FrNone, sgl_snapshot [4, 5] ''ab'' FrNone,
         sgl_snapshot [4, 5] ''ab'' (FrDict [(''type'', PStr ''stop'')])])) = [4, 5]
   \<and> map tc_finish_reason (token_chunks (trace (process_token_stream None 0
        [sgl_snapshot [4] ''a'' FrNone, sgl_snapshot [4, 5] ''ab'' FrNone,
         sgl_snapshot [4, 5] ''ab'' (FrDict [(''type'', PStr ''stop'')])]))) =
       [None, None, Some (PStr ''stop'')]
   \<and> signalled (Some (example_context (Some 1))) 1
   \<and> emitted_token_ids (trace (process_token_stream (Some (example_context (Some 1))) 0
        [sgl_snapshot [4] ''a'' FrNone, sgl_snapshot [4, 5] ''ab'' FrNone,
         sgl_snapshot [4, 5] ''ab'' (FrDict [(''type'', PStr ''stop'')])])) = [4]
   \<and> prefix (concat (map tc_token_ids (take 3 (token_chunks (trace (process_token_stream
        (Some (example_context (Some 1))) 0
        [sgl_snapshot [4] ''a'' FrNone, sgl_snapshot [4, 5] ''ab'' FrNone,
         sgl_snapshot [4, 5] ''ab'' (FrDict [(''type'', PStr ''stop'')])])))))) [4, 5]
   \<and> cumulative (snapshot_texts
        [sgl_snapshot [4] ''a'' FrNone, sgl_snapshot [4, 5] ''ab'' FrNone,
         sgl_snapshot [4, 5] ''ab'' (FrDict [(''type'', PStr ''stop'')])])
   \<and> sgl_raised (process_text_stream (example_sgl_collaborators [] [])
        (example_sgl_handler SGL_AGGREGATED False) None 0
        [sgl_snapshot [4] ''a'' FrNone, sgl_snapshot [4, 5] ''ab'' FrNone,
         sgl_snapshot [4, 5] ''ab'' (FrDict [(''type'', PStr ''stop'')])]) = None
   \<and> emitted_content (trace (process_text_stream (example_sgl_collaborators [] [])
        (example_sgl_handler SGL_AGGREGATED False) None 0
        [sgl_snapshot [4] ''a'' FrNone, sgl_snapshot [4, 5] ''ab'' FrNone,
         sgl_snapshot [4, 5] ''ab'' (FrDict [(''type'', PStr ''stop'')])])) = ''ab''
   \<and> map tx_finish_reason (text_chunks (trace (process_text_stream (example_sgl_collaborators [] [])
        (example_sgl_handler SGL_AGGREGATED False) None 0
        [sgl_snapshot [4] ''a'' FrNone, sgl_snapshot [4, 5] ''ab'' FrNone,
         sgl_snapshot [4, 5] ''ab'' (FrDict [(''type'', PStr ''stop'')])]))) =
       [None, None, Some (PStr ''stop'')]
   \<and> multimodal example_collaborators = None
   \<and> length (engine_calls (generate_locally example_collaborators (example_handler AGGREGATED)
        (example_request [] None))) = 1
   \<and> raised (generate_locally example_collaborators (example_handler AGGREGATED)
        (example_request [] None)) = None
   \<and> emitted_chunk_token_ids (yielded (generate_locally example_collaborators
        (example_handler AGGREGATED) (example_request [] None))) = [4, 5]
   \<and> map chunk_finish_reason (take 2 (yielded (generate_locally example_collaborators
        (example_handler AGGREGATED) (example_request [] None)))) = [None, None]
   \<and> map chunk_stop_reason (take 2 (yielded (generate_locally example_collaborators
        (example_handler AGGREGATED) (example_request [] None)))) = [None, None]
   \<and> map chunk_token_ids (drop 2 (yielded (generate_locally example_collaborators
        (example_handler AGGREGATED) (example_request [] None)))) = [Some []]
   \<and> map chunk_finish_reason (drop 2 (yielded (generate_locally example_collaborators
        (example_handler AGGREGATED) (example_request [] None)))) = [Some ''stop'']
   \<and> engine_calls (generate_locally example_collaborators (example_handler DECODE)
        (example_request [] None)) = []
   \<and> yielded (generate_locally example_collaborators (example_handler DECODE)
        (example_request [] None)) = []
   \<and> length (engine_calls (generate_locally example_collaborators (example_handler PREFILL)
        (example_request [] None))) = 1
   \<and> emitted_chunk_token_ids (yielded (generate_locally example_collaborators
        (example_handler PREFILL) (example_request [] None))) = [4, 5]
   \<and> drop 3 (yielded (generate_locally example_collaborators (example_handler PREFILL)
        (example_request [] None))) = []
   \<and> raised (generate_locally example_collaborators (example_handler PREFILL)
        (example_request [] None)) = None
   \<and> drop 1 (yielded (generate_locally
        (example_collaborators\<lparr>generate_async :=
           (\<lambda>call. [token_snapshot False [4], \<lparr>finished = False, outputs = []\<rparr>])\<rparr>)
        (example_handler AGGREGATED) (example_request [] None))) = [error_chunk]
   \<and> raised (generate_locally
        (example_collaborators\<lparr>generate_async := (\<lambda>call. [\<lparr>finished = True, outputs = []\<rparr>])\<rparr>)
        (example_handler AGGREGATED) (example_request [] None)) = Some IndexError
   \<and> drop 0 (yielded (generate_locally
        (example_collaborators\<lparr>generate_async := (\<lambda>call. [\<lparr>finished = True, outputs = []\<rparr>])\<rparr>)
        (example_handler AGGREGATED) (example_request [] None))) = []"
proof -
  let ?S = "[sgl_snapshot [4] ''a'' FrNone, sgl_snapshot [4, 5] ''ab'' FrNone,
         sgl_snapshot [4, 5] ''ab'' (FrDict [(''type'', PStr ''stop'')])]"
  let ?R = "[token_snapshot False [4], token_snapshot False [4, 5], token_snapshot True [4, 5]]"
  let ?ext = "example_sgl_collaborators [] []"
  let ?h = "example_sgl_handler SGL_AGGREGATED False"
  let ?ctx = "Some (example_context (Some 1))"

  txt \<open>SGLang, a run that is not cancelled\<close>
  have ns: "\<forall>t. \<not> signalled None t" by (simp add: signalled_def)
  have r1: "sgl_raised (process_token_stream None 0 ?S) = None"
    by (simp add: process_token_stream_def token_chunk_of_def
      finish_reason_type_def start_monitor_def cancellation_monitor_enter_def signalled_def check_event_def example_defs)
  have u: "unfinished_output_ids ?S = [[4], [4, 5]]"
    by (simp add: unfinished_output_ids_def List.map_filter_def finish_reason_type_def example_defs)
  have frs: "map finish_reason_type ?S = [Inr None, Inr None, Inr (Some (PStr ''stop''))]"
    by (simp add: finish_reason_type_def example_defs)
  have r2: "sgl_raised (process_text_stream ?ext ?h None 0 ?S) = None"
    by (simp add: process_text_stream_def text_chunk_of_def
      finish_reason_type_def start_monitor_def cancellation_monitor_enter_def signalled_def check_event_def example_defs Let_def)
  have v: "snapshot_texts ?S = [''a'', ''ab'', ''ab'']"
    by (simp add: snapshot_texts_def example_defs)
  have cu: "cumulative (unfinished_output_ids ?S)" unfolding u by simp
  have cv: "cumulative (snapshot_texts ?S)" unfolding v by simp
  note A = stream_deltas [where ctx = None and t = 0 and snaps = ?S and ext = ?ext and h = ?h]
  note A1 = A [THEN conjunct1, THEN mp, OF cu, THEN conjunct2, THEN mp, OF conjI [OF ns r1]]
  note A3 = A [THEN conjunct2, THEN conjunct2, THEN conjunct1, THEN mp, OF conjI [OF ns r1]]
  note A4 = A [THEN conjunct2, THEN conjunct2, THEN conjunct2, THEN conjunct1,
      THEN mp, OF cv, THEN conjunct2, THEN mp, OF conjI [OF ns r2]]
  note A6 = A [THEN conjunct2, THEN conjunct2, THEN conjunct2, THEN conjunct2, THEN conjunct2,
      THEN conjunct1, THEN mp, OF conjI [OF ns r2]]
  have a: "emitted_token_ids (trace (process_token_stream None 0 ?S)) = [4, 5]"
    using A1 u by (simp add: final_value_def)
  have a': "map tc_finish_reason (token_chunks (trace (process_token_stream None 0 ?S))) =
       [None, None, Some (PStr ''stop'')]"
  proof -
    have "map (\<lambda>c. Inr (tc_finish_reason c)) (token_chunks (trace (process_token_stream None 0 ?S))) =
        map (Inr :: pyval option \<Rightarrow> error + pyval option) [None, None, Some (PStr ''stop'')]"
      using A3 frs by simp
    then have "map (Inr :: pyval option \<Rightarrow> error + pyval option)
          (map tc_finish_reason (token_chunks (trace (process_token_stream None 0 ?S)))) =
        map Inr [None, None, Some (PStr ''stop'')]"
      by (simp add: comp_def)
    then show ?thesis by (simp only: inj_map_eq_map [OF inj_Inr])
  qed
  have b: "emitted_content (trace (process_text_stream ?ext ?h None 0 ?S)) = ''ab''"
    using A4 v by (simp add: final_value_def)
  have b': "map tx_finish_reason (text_chunks (trace (process_text_stream ?ext ?h None 0 ?S))) =
       [None, None, Some (PStr ''stop'')]"
  proof -
    have "map (\<lambda>c. Inr (tx_finish_reason c)) (text_chunks (trace (process_text_stream ?ext ?h None 0 ?S))) =
        map (Inr :: pyval option \<Rightarrow> error + pyval option) [None, None, Some (PStr ''stop'')]"
      using A6 frs by simp
    then have "map (Inr :: pyval option \<Rightarrow> error + pyval option)
          (map tx_finish_reason (text_chunks (trace (process_text_stream ?ext ?h None 0 ?S)))) =
        map Inr [None, None, Some (PStr ''stop'')]"
      by (simp add: comp_def)
    then show ?thesis by (simp only: inj_map_eq_map [OF inj_Inr])
  qed

  txt \<open>SGLang, a run cancelled at its second check\<close>
  have sg: "signalled ?ctx 1" by (simp add: signalled_def example_defs)
  have cut: "emitted_token_ids (trace (process_token_stream ?ctx 0 ?S)) = [4]"
    by (simp add: process_token_stream_def cleanup_monitor_def cancellation_monitor_exit_def
      token_chunk_of_def finish_reason_type_def start_monitor_def sglang_request_id_def
      cancellation_monitor_enter_def signalled_def check_event_def emitted_token_ids_def example_defs)
  note B = stream_deltas [where ctx = ?ctx and t = 0 and snaps = ?S]
  note B1 = B [THEN conjunct1, THEN mp, OF cu, THEN conjunct1, THEN spec, of 3]
  have c: "prefix (concat (map tc_token_ids (take 3 (token_chunks (trace (process_token_stream ?ctx 0 ?S))))))
      [4, 5]"
    using B1 u by (simp add: final_value_def)

  txt \<open>TensorRT-LLM, AGGREGATED mode\<close>
  let ?run = "generate_locally example_collaborators (example_handler AGGREGATED) (example_request [] None)"
  have m: "multimodal example_collaborators = None" by (simp add: example_collaborators_def)
  have ga: "generate_async example_collaborators call = ?R" for call
    by (simp add: example_collaborators_def)
  have md: "disaggregation_mode (example_handler mode) = mode" for mode
    by (simp add: example_handler_def)
  have ec: "engine_calls ?run = [hd (engine_calls ?run)]"
    by (simp add: generate_locally_def example_defs process_input_def publishers_error_def
      decode_request_params_def derive_sampling_params_def Let_def split: prod.splits)
  have rz: "raised ?run = None"
    by (simp add: run_defs example_defs)
  have w: "streamed_token_ids AGGREGATED ?R = [[4], [4, 5]]"
    by (simp add: streamed_token_ids_def example_defs)
  have so: "length (streamed_outputs AGGREGATED ?R) = 2"
    by (simp add: streamed_outputs_def example_defs)
  have sov: "map out_finish_reason (streamed_outputs AGGREGATED ?R) = [None, None]"
    "map out_stop_reason (streamed_outputs AGGREGATED ?R) = [PNone, PNone]"
    by (simp_all add: streamed_outputs_def example_defs)
  have en: "ending_snapshot AGGREGATED ?R = Some (token_snapshot True [4, 5])"
    by (simp add: ending_snapshot_def example_defs)
  have fin: "finished (token_snapshot True [4, 5]) \<and> AGGREGATED \<noteq> PREFILL"
    by (simp add: example_defs)
  have cw: "cumulative (streamed_token_ids AGGREGATED ?R)" unfolding w by simp
  note C = stream_deltas [where tx = example_collaborators and th = "example_handler AGGREGATED"
      and request = "example_request [] None" and call = "hd (engine_calls ?run)"]
  note C8 = C [THEN conjunct2, THEN conjunct2, THEN conjunct2, THEN conjunct2, THEN conjunct2,
      THEN conjunct2, THEN conjunct2, THEN mp, OF ec, unfolded ga md]
  have d: "emitted_chunk_token_ids (yielded ?run) = [4, 5]"
    using C8 [THEN conjunct1] m cw w by (simp add: final_value_def)
  have d1: "map chunk_finish_reason (take 2 (yielded ?run)) = [None, None]"
  proof -
    have "map (\<lambda>out1. case out_finish_reason out1 of None \<Rightarrow> None
                 | Some r \<Rightarrow> if r \<noteq> [] then Some r else None) (streamed_outputs AGGREGATED ?R) =
          map (\<lambda>r. case r of None \<Rightarrow> None | Some r \<Rightarrow> if r \<noteq> [] then Some r else None)
            (map out_finish_reason (streamed_outputs AGGREGATED ?R))"
      by (simp add: comp_def)
    then show ?thesis using C8 [THEN conjunct2, THEN conjunct1] so sov(1) by simp
  qed
  have d2: "map chunk_stop_reason (take 2 (yielded ?run)) = [None, None]"
  proof -
    have "map (\<lambda>out1. if truthy (out_stop_reason out1) then Some (out_stop_reason out1) else None)
            (streamed_outputs AGGREGATED ?R) =
          map (\<lambda>r. if truthy r then Some r else None)
            (map out_stop_reason (streamed_outputs AGGREGATED ?R))"
      by (simp add: comp_def)
    then show ?thesis using C8 [THEN conjunct2, THEN conjunct2, THEN conjunct1] so sov(2) by simp
  qed
  note C5 = C8 [THEN conjunct2, THEN conjunct2, THEN conjunct2, THEN conjunct2, THEN spec,
      of "token_snapshot True [4, 5]", THEN mp, OF en]
  have d3: "map chunk_token_ids (drop 2 (yielded ?run)) = [Some []]"
    and d4: "map chunk_finish_reason (drop 2 (yielded ?run)) = [Some ''stop'']"
    using C5 fin rz m so by simp_all

  txt \<open>TensorRT-LLM, DECODE mode without disaggregated parameters: no engine call\<close>
  let ?drun = "generate_locally example_collaborators (example_handler DECODE) (example_request [] None)"
  have nc: "engine_calls ?drun = []"
    by (simp add: run_defs example_defs)
  note D = stream_deltas [where tx = example_collaborators and th = "example_handler DECODE"
      and request = "example_request [] None"]
  note D7 = D [THEN conjunct2, THEN conjunct2, THEN conjunct2, THEN conjunct2, THEN conjunct2,
      THEN conjunct2, THEN conjunct1, THEN mp, OF nc]

  txt \<open>TensorRT-LLM, PREFILL mode: no snapshot ends the loop\<close>
  let ?prun = "generate_locally example_collaborators (example_handler PREFILL) (example_request [] None)"
  have pec: "engine_calls ?prun = [hd (engine_calls ?prun)]"
    by (simp add: generate_locally_def example_defs process_input_def publishers_error_def
      decode_request_params_def derive_sampling_params_def Let_def split: prod.splits)
  have pw: "streamed_token_ids PREFILL ?R = [[4], [4, 5], [4, 5]]"
    by (simp add: streamed_token_ids_def example_defs)
  have pso: "length (streamed_outputs PREFILL ?R) = 3"
    by (simp add: streamed_outputs_def example_defs)
  have pen: "ending_snapshot PREFILL ?R = None"
    by (simp add: ending_snapshot_def example_defs)
  have pcw: "cumulative (streamed_token_ids PREFILL ?R)" unfolding pw by simp
  note E = stream_deltas [where tx = example_collaborators and th = "example_handler PREFILL"
      and request = "example_request [] None" and call = "hd (engine_calls ?prun)"]
  note E8 = E [THEN conjunct2, THEN conjunct2, THEN conjunct2, THEN conjunct2, THEN conjunct2,
      THEN conjunct2, THEN conjunct2, THEN mp, OF pec, unfolded ga md]
  have e1: "emitted_chunk_token_ids (yielded ?prun) = [4, 5]"
    using E8 [THEN conjunct1] m pcw pw by (simp add: final_value_def)
  have e2: "drop 3 (yielded ?prun) = [] \<and> raised ?prun = None"
    using E8 [THEN conjunct2, THEN conjunct2, THEN conjunct2, THEN conjunct1] pen pso by simp

  txt \<open>TensorRT-LLM: a snapshot with no outputs ends the loop\<close>
  let ?fx = "example_collaborators\<lparr>generate_async :=
           (\<lambda>call. [token_snapshot False [4], \<lparr>finished = False, outputs = []\<rparr>])\<rparr>"
  let ?F = "[token_snapshot False [4], \<lparr>finished = False, outputs = []\<rparr>]"
  let ?frun = "generate_locally ?fx (example_handler AGGREGATED) (example_request [] None)"
  have fga: "generate_async ?fx call = ?F" for call by simp
  have fec: "engine_calls ?frun = [hd (engine_calls ?frun)]"
    by (simp add: generate_locally_def example_defs process_input_def publishers_error_def
      decode_request_params_def derive_sampling_params_def Let_def split: prod.splits)
  have fso: "length (streamed_outputs AGGREGATED ?F) = 1"
    by (simp add: streamed_outputs_def example_defs)
  have fen: "ending_snapshot AGGREGATED ?F = Some \<lparr>finished = False, outputs = []\<rparr>"
    by (simp add: ending_snapshot_def example_defs)
  note F = stream_deltas [where tx = ?fx and th = "example_handler AGGREGATED"
      and request = "example_request [] None" and call = "hd (engine_calls ?frun)"]
  note F8 = F [THEN conjunct2, THEN conjunct2, THEN conjunct2, THEN conjunct2, THEN conjunct2,
      THEN conjunct2, THEN conjunct2, THEN mp, OF fec, unfolded fga md]
  note F5 = F8 [THEN conjunct2, THEN conjunct2, THEN conjunct2, THEN conjunct2, THEN spec,
      of "\<lparr>finished = False, outputs = []\<rparr>", THEN mp, OF fen]
  have f1: "drop 1 (yielded ?frun) = [error_chunk]"
    using F5 fso by simp

  txt \<open>TensorRT-LLM: a finished snapshot with no outputs raises\<close>
  let ?gx = "example_collaborators\<lparr>generate_async := (\<lambda>call. [\<lparr>finished = True, outputs = []\<rparr>])\<rparr>"
  let ?G = "[\<lparr>finished = True, outputs = []\<rparr>]"
  let ?grun = "generate_locally ?gx (example_handler AGGREGATED) (example_request [] None)"
  have gga: "generate_async ?gx call = ?G" for call by simp
  have gec: "engine_calls ?grun = [hd (engine_calls ?grun)]"
    by (simp add: generate_locally_def example_defs process_input_def publishers_error_def
      decode_request_params_def derive_sampling_params_def Let_def split: prod.splits)
  have gr: "raised ?grun = Some IndexError"
    by (simp add: run_defs example_defs)
  have gso: "length (streamed_outputs AGGREGATED ?G) = 0"
    by (simp add: streamed_outputs_def example_defs)
  have gen: "ending_snapshot AGGREGATED ?G = Some \<lparr>finished = True, outputs = []\<rparr>"
    by (simp add: ending_snapshot_def example_defs)
  note G = stream_deltas [where tx = ?gx and th = "example_handler AGGREGATED"
      and request = "example_request [] None" and call = "hd (engine_calls ?grun)"]
  note G8 = G [THEN conjunct2, THEN conjunct2, THEN conjunct2, THEN conjunct2, THEN conjunct2,
      THEN conjunct2, THEN conjunct2, THEN mp, OF gec, unfolded gga md]
  note G5 = G8 [THEN conjunct2, THEN conjunct2, THEN conjunct2, THEN conjunct2, THEN spec,
      of "\<lparr>finished = True, outputs = []\<rparr>", THEN mp, OF gen]
  have g1: "drop 0 (yielded ?grun) = []"
    using G5 gr gso by simp

  have l1: "length (engine_calls ?run) = 1" using ec by (metis length_Cons list.size(3) One_nat_def)
  have l2: "length (engine_calls ?prun) = 1" using pec by (metis length_Cons list.size(3) One_nat_def)
  show ?thesis
    using cu ns r1 a a' sg cut c cv r2 b b' m l1 rz d d1 d2 d3 d4 nc D7 l2 e1 e2 f1 gr g1
    by blast
qed


subsection \<open>The cancellation monitor\<close>

lemma monitors_simps [simp]:
  "monitors_started [] = []"
  "monitors_started (MonitorStarted r # es) = r # monitors_started es"
  "monitors_started (MonitorJoined r # es) = monitors_started es"
  "monitors_started (CancellationChecked b # es) = monitors_started es"
  "monitors_started (YieldTokens c # es) = monitors_started es"
  "monitors_started (YieldText x # es) = monitors_started es"
  "monitors_started (es @ es') = monitors_started es @ monitors_started es'"
  "monitors_joined [] = []"
  "monitors_joined (MonitorStarted r # es) = monitors_joined es"
  "monitors_joined (MonitorJoined r # es) = r # monitors_joined es"
  "monitors_joined (CancellationChecked b # es) = monitors_joined es"
  "monitors_joined (YieldTokens c # es) = monitors_joined es"
  "monitors_joined (YieldText x # es) = monitors_joined es"
  "monitors_joined (es @ es') = monitors_joined es @ monitors_joined es'"
  by (simp_all add: monitors_started_def monitors_joined_def List.map_filter_def)

lemma check_event_monitors [simp]:
  "monitors_started (check_event ctx t) = []" "monitors_joined (check_event ctx t) = []"
  by (simp_all add: check_event_def split: option.splits)

lemma start_monitor_monitors:
  "start_monitor ctx task res = (task1, started) \<Longrightarrow>
   monitors_joined started = [] \<and> task_list task @ monitors_started started = task_list task1"
  by (auto simp: start_monitor_def cancellation_monitor_enter_def task_list_def split: option.splits if_splits)

lemma token_stream_loop_monitors:
  "token_stream_loop ctx t n task snaps = (events, task', err) \<Longrightarrow>
   monitors_joined events = [] \<and> task_list task @ monitors_started events = task_list task'"
proof (induction snaps arbitrary: t n task events task' err)
  case Nil
  then show ?case by simp
next
  case (Cons res rest)
  obtain task1 started where sm: "start_monitor ctx task res = (task1, started)"
    by (cases "start_monitor ctx task res") auto
  note s = start_monitor_monitors [OF sm]
  show ?case
  proof (cases "signalled ctx t")
    case True
    then show ?thesis using Cons.prems sm s by auto
  next
    case False
    show ?thesis
    proof (cases "token_chunk_of n res")
      case (Inl e)
      then show ?thesis using Cons.prems sm s False by auto
    next
      case (Inr pr)
      obtain out n' where pr: "pr = (out, n')" by (cases pr)
      obtain events2 task2 err2 where
        rec: "token_stream_loop ctx (Suc t) n' task1 rest = (events2, task2, err2)"
        by (cases "token_stream_loop ctx (Suc t) n' task1 rest") auto
      from Cons.prems sm False Inr pr rec have
        ev: "events = started @ check_event ctx t @ YieldTokens out # events2" and t2: "task' = task2"
        by simp_all
      from Cons.IH [OF rec] s show ?thesis unfolding ev t2 by (simp add: append_assoc [symmetric] del: append_assoc)
    qed
  qed
qed

lemma cleanup_monitor_joins:
  assumes "monitors_joined events = []" and "monitors_started events = task_list task"
  shows "(sgl_raised (cleanup_monitor (events, task, err)) = None \<longrightarrow>
           monitors_joined (trace (cleanup_monitor (events, task, err))) =
           monitors_started (trace (cleanup_monitor (events, task, err))))
       \<and> (sgl_raised (cleanup_monitor (events, task, err)) \<noteq> None \<longrightarrow>
           monitors_joined (trace (cleanup_monitor (events, task, err))) = [])"
  using assms by (auto simp: cleanup_monitor_def cancellation_monitor_exit_def task_list_def split: option.splits)

lemma process_token_stream_monitor:
  "(sgl_raised (process_token_stream ctx t snaps) = None \<longrightarrow>
      monitors_joined (trace (process_token_stream ctx t snaps)) =
      monitors_started (trace (process_token_stream ctx t snaps)))
   \<and> (sgl_raised (process_token_stream ctx t snaps) \<noteq> None \<longrightarrow>
      monitors_joined (trace (process_token_stream ctx t snaps)) = [])"
proof -
  obtain events task err where l: "token_stream_loop ctx t 0 None snaps = (events, task, err)"
    by (cases "token_stream_loop ctx t 0 None snaps") auto
  from token_stream_loop_monitors [OF l] have "monitors_joined events = []"
    and "monitors_started events = task_list task" by (simp_all add: task_list_def)
  from cleanup_monitor_joins [OF this] show ?thesis by (simp add: process_token_stream_def l)
qed

text \<open>
  C7. A started monitor is to be stopped and awaited on every way out of the loop, an
  exception included. The code reaches its clean-up when the loop ends or breaks
  (\<open>process_token_stream_monitor\<close>: a run that raises nothing has joined every monitor it
  started) but not when the loop raises: with a context that is never signalled, a first
  snapshot with \<open>meta_info = {"id": "rid-1", "finish_reason": None}\<close> and no \<open>output_ids\<close>
  starts the monitor for \<open>rid-1\<close> and raises \<open>ValueError\<close>, and the run ends with the monitor
  neither cancelled nor awaited.
\<close>

theorem monitor_leaked_on_exception:
  "process_token_stream (Some (example_context None)) 0
     [\<lparr>meta = Some \<lparr>mi_id = Some ''rid-1'', mi_finish_reason = FrNone\<rparr>,
       output_ids = None, text_key = None, index_key = None\<rparr>] =
   \<lparr>trace = [MonitorStarted ''rid-1'', CancellationChecked False],
    sgl_raised = Some (ValueError ''Missing output_ids in response'')\<rparr>"
  by (simp add: process_token_stream_def cleanup_monitor_def cancellation_monitor_exit_def token_chunk_of_def
      finish_reason_type_def start_monitor_def cancellation_monitor_enter_def sglang_request_id_def signalled_def
      check_event_def example_context_def)


subsection \<open>The DECODE handshake\<close>

lemma decode_handshake:
  assumes "serving h = SGL_DECODE"
    and "get_input_param ext (skip_tokenizer_init h) request = Inr input_param"
    and "prefill_req =
           \<lparr>pr_request = request,
            pr_sampling_params = build_sampling_params (skip_tokenizer_init h) request\<rparr>"
  shows
    "(\<exists>rest. trace (generate ext h request ctx) = PrefillRequested prefill_req # rest)
     \<and> items_read (trace (generate ext h request ctx)) =
         take 1 (prefill_client_generate ext prefill_req)
     \<and> (signalled ctx 0 \<longrightarrow>
          generate ext h request ctx =
            \<lparr>trace = PrefillRequested prefill_req #
                 map PrefillItemRead (take 1 (prefill_client_generate ext prefill_req)) @
                 check_event ctx 0,
             sgl_raised = None\<rparr>)
     \<and> (\<not> signalled ctx 0 \<and> prefill_client_generate ext prefill_req = [] \<longrightarrow>
          generate ext h request ctx =
            \<lparr>trace = PrefillRequested prefill_req # check_event ctx 0,
             sgl_raised = Some (RuntimeError ''No bootstrap info received from prefill worker'')\<rparr>)
     \<and> (\<forall>call \<in> set (engine_calls_of (trace (generate ext h request ctx))).
          \<not> signalled ctx 0 \<and>
          (\<exists>info more bootstrap later.
             prefill_client_generate ext prefill_req = info # more \<and>
             bootstrap_arguments info = Inr bootstrap \<and>
             sgl_call_bootstrap call = Some bootstrap \<and>
             trace (generate ext h request ctx) =
               PrefillRequested prefill_req # PrefillItemRead info # check_event ctx 0 @
               EngineCalled call # later \<and>
             engine_calls_of later = []))"
proof -
  let ?items = "prefill_client_generate ext prefill_req"
  let ?run = "generate ext h request ctx"
  note defs = generate_def Let_def assms(1) assms(2) assms(3) [symmetric]
  show ?thesis
  proof (cases "signalled ctx 0")
    case True
    have "?run = \<lparr>trace = PrefillRequested prefill_req # map PrefillItemRead (take 1 ?items) @ check_event ctx 0,
             sgl_raised = None\<rparr>"
      using True by (cases ?items) (simp_all add: defs)
    then show ?thesis using True by (cases ?items) simp_all
  next
    case False
    show ?thesis
    proof (cases ?items)
      case Nil
      have "?run = \<lparr>trace = PrefillRequested prefill_req # check_event ctx 0,
             sgl_raised = Some (RuntimeError ''No bootstrap info received from prefill worker'')\<rparr>"
        using False Nil by (simp add: defs)
      then show ?thesis using False Nil by simp
    next
      case (Cons info more)
      show ?thesis
      proof (cases "info = []")
        case True
        have "?run = \<lparr>trace = PrefillRequested prefill_req # PrefillItemRead info # check_event ctx 0,
             sgl_raised = Some (RuntimeError ''No bootstrap info received from prefill worker'')\<rparr>"
          using False Cons True by (simp add: defs)
        then show ?thesis using False Cons by simp
      next
        case ne: False
        show ?thesis
        proof (cases "bootstrap_arguments info")
          case (Inl e)
          have "?run = \<lparr>trace = PrefillRequested prefill_req # PrefillItemRead info # check_event ctx 0,
             sgl_raised = Some e\<rparr>"
            using False Cons ne Inl by (simp add: defs)
          then show ?thesis using False Cons by simp
        next
          case (Inr bootstrap)
          define call where "call =
             \<lparr>sgl_input_param = input_param,
              sgl_call_sampling_params = build_sampling_params (skip_tokenizer_init h) request,
              sgl_call_stream = True, sgl_call_bootstrap = Some bootstrap\<rparr>"
          define later where "later = trace (process_stream ext h ctx 1 (async_generate ext call))"
          have tr: "trace ?run = PrefillRequested prefill_req # PrefillItemRead info # check_event ctx 0 @
               EngineCalled call # later"
            using False Cons ne Inr by (simp add: defs call_def later_def)
          have l: "engine_calls_of later = []" "items_read later = []"
            using process_stream_calls [of ext h ctx 1 "async_generate ext call"]
            by (simp_all add: later_def)
          have cb: "sgl_call_bootstrap call = Some bootstrap" by (simp add: call_def)
          have ec: "engine_calls_of (trace ?run) = [call]" and ir: "items_read (trace ?run) = [info]"
            using tr l by simp_all
          have a: "\<exists>rest. trace ?run = PrefillRequested prefill_req # rest" using tr by blast
          have b: "items_read (trace ?run) = take 1 ?items" using ir Cons by simp
          have e: "\<forall>c \<in> set (engine_calls_of (trace ?run)).
              \<not> signalled ctx 0 \<and>
              (\<exists>info more bootstrap later.
                 ?items = info # more \<and>
                 bootstrap_arguments info = Inr bootstrap \<and>
                 sgl_call_bootstrap c = Some bootstrap \<and>
                 trace ?run =
                   PrefillRequested prefill_req # PrefillItemRead info # check_event ctx 0 @
                   EngineCalled c # later \<and>
                 engine_calls_of later = [])"
          proof
            fix c assume "c \<in> set (engine_calls_of (trace ?run))"
            then have "c = call" using ec by simp
            then show "\<not> signalled ctx 0 \<and>
              (\<exists>info more bootstrap later.
                 ?items = info # more \<and>
                 bootstrap_arguments info = Inr bootstrap \<and>
                 sgl_call_bootstrap c = Some bootstrap \<and>
                 trace ?run =
                   PrefillRequested prefill_req # PrefillItemRead info # check_event ctx 0 @
                   EngineCalled c # later \<and>
                 engine_calls_of later = [])"
              using False Cons Inr tr l(1) cb by blast
          qed
          from False Cons have "?items \<noteq> []" by simp
          with a b e False show ?thesis by blast
        qed
      qed
    qed
  qed
qed

lemma decode_bootstrap_failures:
  assumes "serving h = SGL_DECODE"
    and "get_input_param ext (skip_tokenizer_init h) request = Inr input_param"
    and "prefill_req =
           \<lparr>pr_request = request,
            pr_sampling_params = build_sampling_params (skip_tokenizer_init h) request\<rparr>"
    and "\<not> signalled ctx 0"
    and "prefill_client_generate ext prefill_req = info # others"
  shows
    "(info = [] \<longrightarrow>
        generate ext h request ctx =
          \<lparr>trace = PrefillRequested prefill_req # PrefillItemRead info # check_event ctx 0,
           sgl_raised = Some (RuntimeError ''No bootstrap info received from prefill worker'')\<rparr>)
     \<and> (info \<noteq> [] \<and> bootstrap_arguments info = Inl e \<longrightarrow>
        generate ext h request ctx =
          \<lparr>trace = PrefillRequested prefill_req # PrefillItemRead info # check_event ctx 0,
           sgl_raised = Some e\<rparr>)
     \<and> (info \<noteq> [] \<and> bootstrap_arguments info = Inr bootstrap \<longrightarrow>
        engine_calls_of (trace (generate ext h request ctx)) =
          [\<lparr>sgl_input_param = input_param,
            sgl_call_sampling_params = build_sampling_params (skip_tokenizer_init h) request,
            sgl_call_stream = True, sgl_call_bootstrap = Some bootstrap\<rparr>])"
  using assms(1,2,4,5) unfolding assms(3)
  by (simp add: generate_def Let_def process_stream_calls)

text \<open>
  C3, as the code has it. A DECODE handler whose input is well formed first calls the
  prefill handler with the request and the sampling parameters, and reads at most one item
  of that stream: the first, if there is one. It then checks the context. If the context is
  signalled the stream ends there, with no engine call and no error, whether or not an
  item was read. Otherwise, a prefill stream with no item, or one whose first item is
  empty, fails the request with the \<open>RuntimeError\<close> "No bootstrap info received from
  prefill worker"; an item that lacks the host, the port or the room fails it with
  \<open>KeyError\<close>; and an item that has all three is followed by exactly one engine call,
  which carries them. Every engine call of the run comes after the item was read and
  after the check found no signal.
\<close>

theorem decode_waits_for_bootstrap:
  assumes "serving h = SGL_DECODE"
    and "get_input_param ext (skip_tokenizer_init h) request = Inr input_param"
    and "prefill_req =
           \<lparr>pr_request = request,
            pr_sampling_params = build_sampling_params (skip_tokenizer_init h) request\<rparr>"
  shows
    "(\<exists>rest. trace (generate ext h request ctx) = PrefillRequested prefill_req # rest)
     \<and> items_read (trace (generate ext h request ctx)) =
         take 1 (prefill_client_generate ext prefill_req)
     \<and> (signalled ctx 0 \<longrightarrow>
          generate ext h request ctx =
            \<lparr>trace = PrefillRequested prefill_req #
                 map PrefillItemRead (take 1 (prefill_client_generate ext prefill_req)) @
                 check_event ctx 0,
             sgl_raised = None\<rparr>)
     \<and> (\<not> signalled ctx 0 \<and> prefill_client_generate ext prefill_req = [] \<longrightarrow>
          generate ext h request ctx =
            \<lparr>trace = PrefillRequested prefill_req # check_event ctx 0,
             sgl_raised = Some (RuntimeError ''No bootstrap info received from prefill worker'')\<rparr>)
     \<and> (\<forall>call \<in> set (engine_calls_of (trace (generate ext h request ctx))).
          \<not> signalled ctx 0 \<and>
          (\<exists>info more bootstrap later.
             prefill_client_generate ext prefill_req = info # more \<and>
             bootstrap_arguments info = Inr bootstrap \<and>
             sgl_call_bootstrap call = Some bootstrap \<and>
             trace (generate ext h request ctx) =
               PrefillRequested prefill_req # PrefillItemRead info # check_event ctx 0 @
               EngineCalled call # later \<and>
             engine_calls_of later = []))
     \<and> (\<not> signalled ctx 0 \<and> prefill_client_generate ext prefill_req = info # others \<and>
          info = [] \<longrightarrow>
          generate ext h request ctx =
            \<lparr>trace = PrefillRequested prefill_req # PrefillItemRead info # check_event ctx 0,
             sgl_raised = Some (RuntimeError ''No bootstrap info received from prefill worker'')\<rparr>)
     \<and> (\<not> signalled ctx 0 \<and> prefill_client_generate ext prefill_req = info # others \<and>
          info \<noteq> [] \<and> bootstrap_arguments info = Inl e \<longrightarrow>
          generate ext h request ctx =
            \<lparr>trace = PrefillRequested prefill_req # PrefillItemRead info # check_event ctx 0,
             sgl_raised = Some e\<rparr>)
     \<and> (\<not> signalled ctx 0 \<and> prefill_client_generate ext prefill_req = info # others \<and>
          info \<noteq> [] \<and> bootstrap_arguments info = Inr bootstrap \<longrightarrow>
          engine_calls_of (trace (generate ext h request ctx)) =
            [\<lparr>sgl_input_param = input_param,
              sgl_call_sampling_params = build_sampling_params (skip_tokenizer_init h) request,
              sgl_call_stream = True, sgl_call_bootstrap = Some bootstrap\<rparr>])"
  using decode_handshake [OF assms, of ctx]
    decode_bootstrap_failures [OF assms, of ctx info others e bootstrap]
  by blast

text \<open>
  The prefill stream ends without an item and the context is already stopped: the handler
  returns at the cancellation check, which stands before the test for the missing
  bootstrap info, and raises nothing.
\<close>

theorem decode_cancelled_without_bootstrap_counterexample:
  "sgl_raised (generate (example_sgl_collaborators [] []) (example_sgl_handler SGL_DECODE True)
      (example_sgl_request Map.empty) (Some (example_context (Some 0)))) = None
   \<and> trace (generate (example_sgl_collaborators [] []) (example_sgl_handler SGL_DECODE True)
      (example_sgl_request Map.empty) (Some (example_context (Some 0)))) =
     [PrefillRequested \<lparr>pr_request = example_sgl_request Map.empty,
                        pr_sampling_params = [(''max_new_tokens'', PInt 5)]\<rparr>,
      CancellationChecked True]
   \<and> prefill_client_generate (example_sgl_collaborators [] [])
       \<lparr>pr_request = example_sgl_request Map.empty,
        pr_sampling_params = [(''max_new_tokens'', PInt 5)]\<rparr> = []"
  by (simp add: generate_def get_input_param_def build_sampling_params_def get_dict_def
      dict_get_def signalled_def check_event_def example_defs Let_def)


theorem decode_waits_for_bootstrap_witness:
  "serving (example_sgl_handler SGL_DECODE True) = SGL_DECODE
   \<and> get_input_param (example_sgl_collaborators [] [])
        (skip_tokenizer_init (example_sgl_handler SGL_DECODE True)) (example_sgl_request Map.empty) =
       Inr (InputIds [1, 2, 3])
   \<and> signalled (Some (example_context (Some 0))) 0
   \<and> sgl_raised (generate
        (example_sgl_collaborators []
           [[(''bootstrap_host'', PStr ''10.0.0.1''), (''bootstrap_port'', PInt 8998),
             (''bootstrap_room'', PInt 42)]])
        (example_sgl_handler SGL_DECODE True) (example_sgl_request Map.empty)
        (Some (example_context (Some 0)))) = None
   \<and> \<not> signalled (Some (example_context None)) 0
   \<and> sgl_raised (generate (example_sgl_collaborators [] [])
        (example_sgl_handler SGL_DECODE True) (example_sgl_request Map.empty)
        (Some (example_context None))) =
       Some (RuntimeError ''No bootstrap info received from prefill worker'')
   \<and> (\<exists>call. call \<in> set (engine_calls_of (trace (generate
          (example_sgl_collaborators [sgl_snapshot [4] ''a'' FrNone]
             [[(''bootstrap_host'', PStr ''10.0.0.1''), (''bootstrap_port'', PInt 8998),
               (''bootstrap_room'', PInt 42)]])
          (example_sgl_handler SGL_DECODE True) (example_sgl_request Map.empty)
          (Some (example_context None)))))
        \<and> sgl_call_bootstrap call = Some (PStr ''10.0.0.1'', PInt 8998, PInt 42))
   \<and> sgl_raised (generate (example_sgl_collaborators [] [[]])
        (example_sgl_handler SGL_DECODE True) (example_sgl_request Map.empty)
        (Some (example_context None))) =
       Some (RuntimeError ''No bootstrap info received from prefill worker'')
   \<and> bootstrap_arguments [(''bootstrap_host'', PStr ''10.0.0.1'')] = Inl (KeyError ''bootstrap_port'')
   \<and> sgl_raised (generate (example_sgl_collaborators [] [[(''bootstrap_host'', PStr ''10.0.0.1'')]])
        (example_sgl_handler SGL_DECODE True) (example_sgl_request Map.empty)
        (Some (example_context None))) = Some (KeyError ''bootstrap_port'')
   \<and> bootstrap_arguments
        [(''bootstrap_host'', PStr ''10.0.0.1''), (''bootstrap_port'', PInt 8998),
         (''bootstrap_room'', PInt 42)] = Inr (PStr ''10.0.0.1'', PInt 8998, PInt 42)
   \<and> engine_calls_of (trace (generate
        (example_sgl_collaborators [sgl_snapshot [4] ''a'' FrNone]
           [[(''bootstrap_host'', PStr ''10.0.0.1''), (''bootstrap_port'', PInt 8998),
             (''bootstrap_room'', PInt 42)]])
        (example_sgl_handler SGL_DECODE True) (example_sgl_request Map.empty)
        (Some (example_context None)))) =
       [\<lparr>sgl_input_param = InputIds [1, 2, 3],
         sgl_call_sampling_params =
           build_sampling_params True (example_sgl_request Map.empty),
         sgl_call_stream = True,
         sgl_call_bootstrap = Some (PStr ''10.0.0.1'', PInt 8998, PInt 42)\<rparr>]"
proof -
  let ?item = "[(''bootstrap_host'', PStr ''10.0.0.1''), (''bootstrap_port'', PInt 8998),
             (''bootstrap_room'', PInt 42)]"
  let ?h = "example_sgl_handler SGL_DECODE True"
  let ?req = "example_sgl_request Map.empty"
  have m: "serving ?h = SGL_DECODE" by (simp add: example_sgl_handler_def)
  have ip: "get_input_param ext (skip_tokenizer_init ?h) ?req = Inr (InputIds [1, 2, 3])" for ext
    by (simp add: get_input_param_def example_defs)
  have s1: "signalled (Some (example_context (Some 0))) 0"
    and s2: "\<not> signalled (Some (example_context None)) 0"
    by (simp_all add: signalled_def example_context_def)
  note A = decode_waits_for_bootstrap [OF m ip refl, where ext = "example_sgl_collaborators [] [?item]" and ctx = "Some (example_context (Some 0))"]
  note B = decode_waits_for_bootstrap [OF m ip refl, where ext = "example_sgl_collaborators [] []" and ctx = "Some (example_context None)"]
  note C = decode_waits_for_bootstrap [OF m ip refl,
      where ext = "example_sgl_collaborators [sgl_snapshot [4] ''a'' FrNone] [?item]"
      and ctx = "Some (example_context None)"]
  have a: "sgl_raised (generate (example_sgl_collaborators [] [?item]) ?h ?req
        (Some (example_context (Some 0)))) = None"
    using A s1 by simp
  have e: "prefill_client_generate (example_sgl_collaborators [] []) q = []" for q
    by (simp add: example_sgl_collaborators_def)
  have b: "sgl_raised (generate (example_sgl_collaborators [] []) ?h ?req
        (Some (example_context None))) =
       Some (RuntimeError ''No bootstrap info received from prefill worker'')"
    using B s2 e by simp
  let ?run = "generate (example_sgl_collaborators [sgl_snapshot [4] ''a'' FrNone] [?item]) ?h ?req
          (Some (example_context None))"
  have ne: "engine_calls_of (trace ?run) \<noteq> []"
    by (simp add: generate_def get_input_param_def build_sampling_params_def get_dict_def
      dict_get_def signalled_def check_event_def example_defs Let_def bootstrap_arguments_def
      after_events_def engine_calls_of_def List.map_filter_def)
  then obtain call where c: "call \<in> set (engine_calls_of (trace ?run))"
    by (cases "engine_calls_of (trace ?run)") auto
  with C obtain info more bootstrap where
    i: "prefill_client_generate (example_sgl_collaborators [sgl_snapshot [4] ''a'' FrNone] [?item])
          \<lparr>pr_request = ?req, pr_sampling_params = build_sampling_params (skip_tokenizer_init ?h) ?req\<rparr>
        = info # more"
    and ba: "bootstrap_arguments info = Inr bootstrap"
    and cb: "sgl_call_bootstrap call = Some bootstrap"
    by blast
  from i have "info = ?item" by (simp add: example_sgl_collaborators_def)
  with ba have "bootstrap = (PStr ''10.0.0.1'', PInt 8998, PInt 42)"
    by (simp add: bootstrap_arguments_def)
  with cb c have "\<exists>call. call \<in> set (engine_calls_of (trace ?run))
        \<and> sgl_call_bootstrap call = Some (PStr ''10.0.0.1'', PInt 8998, PInt 42)"
    by blast
  then have c: "\<exists>call. call \<in> set (engine_calls_of (trace ?run))
        \<and> sgl_call_bootstrap call = Some (PStr ''10.0.0.1'', PInt 8998, PInt 42)" .
  note D = decode_waits_for_bootstrap [OF m ip refl,
      where ext = "example_sgl_collaborators [] [[]]" and ctx = "Some (example_context None)"
      and info = "[]" and others = "[]"]
  have d: "sgl_raised (generate (example_sgl_collaborators [] [[]]) ?h ?req
        (Some (example_context None))) =
       Some (RuntimeError ''No bootstrap info received from prefill worker'')"
    using D s2 by (simp add: example_sgl_collaborators_def)
  let ?partial = "[(''bootstrap_host'', PStr ''10.0.0.1'')]"
  have bk: "bootstrap_arguments ?partial = Inl (KeyError ''bootstrap_port'')"
    and bi: "bootstrap_arguments ?item = Inr (PStr ''10.0.0.1'', PInt 8998, PInt 42)"
    by (simp_all add: bootstrap_arguments_def)
  note F = decode_waits_for_bootstrap [OF m ip refl,
      where ext = "example_sgl_collaborators [] [?partial]" and ctx = "Some (example_context None)"
      and info = ?partial and others = "[]" and e = "KeyError ''bootstrap_port''"]
  have f: "sgl_raised (generate (example_sgl_collaborators [] [?partial]) ?h ?req
        (Some (example_context None))) = Some (KeyError ''bootstrap_port'')"
    using F s2 bk by (simp add: example_sgl_collaborators_def)
  note G = decode_waits_for_bootstrap [OF m ip refl,
      where ext = "example_sgl_collaborators [sgl_snapshot [4] ''a'' FrNone] [?item]"
      and ctx = "Some (example_context None)"
      and info = ?item and others = "[]" and bootstrap = "(PStr ''10.0.0.1'', PInt 8998, PInt 42)"]
  have g: "engine_calls_of (trace ?run) =
       [\<lparr>sgl_input_param = InputIds [1, 2, 3],
         sgl_call_sampling_params = build_sampling_params True ?req,
         sgl_call_stream = True,
         sgl_call_bootstrap = Some (PStr ''10.0.0.1'', PInt 8998, PInt 42)\<rparr>]"
    using G s2 bi by (simp add: example_sgl_collaborators_def example_sgl_handler_def)
  from m ip s1 s2 a b c d bk f bi g show ?thesis by blast
qed

subsection \<open>The prefill handler\<close>

lemma yielded_items_simps [simp]:
  "yielded_items [] = []"
  "yielded_items (e # es) = (if is_yield e then e # yielded_items es else yielded_items es)"
  "yielded_items (es @ es') = yielded_items es @ yielded_items es'"
  by (simp_all add: yielded_items_def)

lemma start_monitor_yields:
  "start_monitor ctx task res = (task1, started) \<Longrightarrow> yielded_items started = []"
  by (auto simp: start_monitor_def cancellation_monitor_enter_def split: option.splits if_splits)

lemma check_event_yields [simp]: "yielded_items (check_event ctx t) = []"
  by (simp add: check_event_def split: option.splits)

lemma consume_loop_yields:
  "consume_loop ctx t task snaps = (events, task', err) \<Longrightarrow> yielded_items events = []"
proof (induction snaps arbitrary: t task events task' err)
  case Nil
  then show ?case by simp
next
  case (Cons res rest)
  obtain task1 started where sm: "start_monitor ctx task res = (task1, started)"
    by (cases "start_monitor ctx task res") auto
  note s = start_monitor_yields [OF sm]
  show ?case
  proof (cases "signalled ctx t")
    case True
    then show ?thesis using Cons.prems sm s by auto
  next
    case False
    obtain events2 task2 err2 where
      rec: "consume_loop ctx (Suc t) task1 rest = (events2, task2, err2)"
      by (cases "consume_loop ctx (Suc t) task1 rest") auto
    from Cons.prems sm False rec have ev: "events = started @ check_event ctx t @ events2"
      by simp
    from Cons.IH [OF rec] s show ?thesis unfolding ev by simp
  qed
qed

lemma consume_results_yields: "yielded_items (trace (consume_results ctx results)) = []"
proof -
  obtain events task err where l: "consume_loop ctx 0 None results = (events, task, err)"
    by (cases "consume_loop ctx 0 None results") auto
  from consume_loop_yields [OF l] show ?thesis
    by (simp add: consume_results_def l cleanup_monitor_def cancellation_monitor_exit_def split: option.splits)
qed

lemma generate_bootstrap_room_range:
  "0 \<le> generate_bootstrap_room entropy \<and> generate_bootstrap_room entropy \<le> 2 ^ 63 - 1"
proof -
  have "0 \<le> int entropy mod 2 ^ 63" by simp
  moreover have "int entropy mod 2 ^ 63 < 2 ^ 63" by simp
  ultimately show ?thesis by (simp add: generate_bootstrap_room_def randint_def)
qed

lemma cancellation_checks_simps [simp]:
  "cancellation_checks [] = []"
  "cancellation_checks (CancellationChecked b # es) = b # cancellation_checks es"
  "cancellation_checks (MonitorStarted r # es) = cancellation_checks es"
  "cancellation_checks (MonitorJoined r # es) = cancellation_checks es"
  "cancellation_checks (es @ es') = cancellation_checks es @ cancellation_checks es'"
  by (simp_all add: cancellation_checks_def List.map_filter_def)

lemma take_one_option:
  "take (Suc 0) (case x of None \<Rightarrow> [] | Some r \<Rightarrow> [r]) = (case x of None \<Rightarrow> [] | Some r \<Rightarrow> [r])"
  by (cases x) simp_all

lemma start_monitor_trace:
  "start_monitor ctx task res = (task1, started) \<Longrightarrow>
   cancellation_checks started = [] \<and> monitors_joined started = [] \<and>
   task_list task @ monitors_started started = task_list task1 \<and>
   task_list task1 =
     take 1 (task_list task @ (if ctx = None then [] else task_list (sglang_request_id res)))"
  by (cases ctx; cases task; cases "sglang_request_id res")
    (auto simp: start_monitor_def cancellation_monitor_enter_def task_list_def
        monitors_started_def monitors_joined_def cancellation_checks_def List.map_filter_def
        take_one_option)

lemma consume_loop_trace:
  "consume_loop ctx t task snaps = (events, task', err) \<Longrightarrow>
   err = None \<and> monitors_joined events = [] \<and>
   task_list task @ monitors_started events = task_list task'"
proof (induction snaps arbitrary: t task events task' err)
  case Nil
  then show ?case by (simp add: monitors_started_def monitors_joined_def List.map_filter_def)
next
  case (Cons res rest)
  obtain task1 started where sm: "start_monitor ctx task res = (task1, started)"
    by (cases "start_monitor ctx task res") auto
  note s = start_monitor_trace [OF sm]
  have ce: "monitors_joined (check_event ctx t) = []" "monitors_started (check_event ctx t) = []"
    by (simp_all add: check_event_def monitors_started_def monitors_joined_def
        List.map_filter_def split: option.splits)
  have app: "monitors_joined (a @ b) = monitors_joined a @ monitors_joined b"
    "monitors_started (a @ b) = monitors_started a @ monitors_started b" for a b
    by (simp_all add: monitors_started_def monitors_joined_def List.map_filter_def)
  show ?case
  proof (cases "signalled ctx t")
    case True
    then show ?thesis using Cons.prems sm s ce by (auto simp: app)
  next
    case False
    obtain events2 task2 err2 where
      rec: "consume_loop ctx (Suc t) task1 rest = (events2, task2, err2)"
      by (cases "consume_loop ctx (Suc t) task1 rest") auto
    from Cons.prems sm False rec have ev: "events = started @ check_event ctx t @ events2"
      and t2: "task' = task2" and e2: "err = err2"
      by simp_all
    from Cons.IH [OF rec] s ce show ?thesis unfolding ev t2 e2
      by (simp add: app append_assoc [symmetric] del: append_assoc)
  qed
qed

lemma consume_loop_reads_all:
  assumes "\<forall>t. \<not> signalled ctx t" and "ctx = Some c"
  shows "consume_loop ctx t task snaps = (events, task', err) \<Longrightarrow>
     cancellation_checks events = replicate (length snaps) False \<and>
     task_list task' = take 1 (task_list task @ List.map_filter sglang_request_id snaps)"
proof (induction snaps arbitrary: t task events task' err)
  case Nil
  then show ?case by (cases task) (auto simp: task_list_def List.map_filter_def)
next
  case (Cons res rest)
  obtain task1 started where sm: "start_monitor ctx task res = (task1, started)"
    by (cases "start_monitor ctx task res") auto
  note s = start_monitor_trace [OF sm]
  have ns: "\<not> signalled ctx t" using assms(1) by simp
  have ce: "cancellation_checks (check_event ctx t) = [False]"
    using ns assms(2) by (simp add: check_event_def)
  obtain events2 task2 err2 where
    rec: "consume_loop ctx (Suc t) task1 rest = (events2, task2, err2)"
    by (cases "consume_loop ctx (Suc t) task1 rest") auto
  from Cons.prems sm ns rec have ev: "events = started @ check_event ctx t @ events2"
    and t2: "task' = task2"
    by simp_all
  from Cons.IH [OF rec] have IH1: "cancellation_checks events2 = replicate (length rest) False"
    and IH2: "task_list task2 = take 1 (task_list task1 @ List.map_filter sglang_request_id rest)"
    by simp_all
  have t1: "task_list task1 = take 1 (task_list task @ task_list (sglang_request_id res))"
    using s assms(2) by simp
  have mf: "List.map_filter sglang_request_id (res # rest) =
        task_list (sglang_request_id res) @ List.map_filter sglang_request_id rest"
    by (simp add: List.map_filter_def task_list_def split: option.splits)
  have "task_list task2 = take 1 (task_list task @ List.map_filter sglang_request_id (res # rest))"
    unfolding IH2 t1 mf
    by (cases task; cases "sglang_request_id res") (simp_all add: task_list_def)
  then show ?case using IH1 s ce unfolding ev t2 by simp
qed

lemma consume_loop_cancelled_at_once:
  "signalled ctx 0 \<Longrightarrow> snaps \<noteq> [] \<Longrightarrow>
   cancellation_checks (fst (consume_loop ctx 0 None snaps)) = [True]"
proof (cases snaps)
  case Nil
  then show "snaps \<noteq> [] \<Longrightarrow> ?thesis" by simp
next
  case (Cons res rest)
  assume sg: "signalled ctx 0"
  obtain task1 started where sm: "start_monitor ctx None res = (task1, started)"
    by (cases "start_monitor ctx None res") auto
  note s = start_monitor_trace [OF sm]
  from sg have "ctx \<noteq> None" by (cases ctx) (simp_all add: signalled_def)
  then have "cancellation_checks (check_event ctx 0) = [True]"
    using sg by (auto simp: check_event_def)
  then show ?thesis using Cons sm sg s by simp
qed

lemma consume_results_trace:
  "sgl_raised (consume_results ctx results) = None
   \<and> monitors_joined (trace (consume_results ctx results)) =
       monitors_started (trace (consume_results ctx results))
   \<and> (ctx \<noteq> None \<and> (\<forall>t. \<not> signalled ctx t) \<longrightarrow>
        cancellation_checks (trace (consume_results ctx results)) =
          replicate (length results) False
        \<and> monitors_started (trace (consume_results ctx results)) =
          take 1 (List.map_filter sglang_request_id results))
   \<and> (signalled ctx 0 \<and> results \<noteq> [] \<longrightarrow>
        cancellation_checks (trace (consume_results ctx results)) = [True])"
proof -
  obtain events task err where l: "consume_loop ctx 0 None results = (events, task, err)"
    by (cases "consume_loop ctx 0 None results") auto
  from consume_loop_trace [OF l] have e: "err = None" and j: "monitors_joined events = []"
    and st: "monitors_started events = task_list task" by (simp_all add: task_list_def)
  have cj: "cancellation_checks (cancellation_monitor_exit r) = []"
    "monitors_joined (cancellation_monitor_exit r) = [r]"
    "monitors_started (cancellation_monitor_exit r) = []" for r
    by (simp_all add: cancellation_monitor_exit_def monitors_started_def monitors_joined_def
        List.map_filter_def)
  have app: "monitors_joined (a @ b) = monitors_joined a @ monitors_joined b"
    "monitors_started (a @ b) = monitors_started a @ monitors_started b" for a b
    by (simp_all add: monitors_started_def monitors_joined_def List.map_filter_def)
  have tr: "trace (consume_results ctx results) =
      events @ (case task of None \<Rightarrow> [] | Some r \<Rightarrow> cancellation_monitor_exit r)"
    and r: "sgl_raised (consume_results ctx results) = None"
    using e by (simp_all add: consume_results_def l cleanup_monitor_def split: option.splits)
  have A: "monitors_joined (trace (consume_results ctx results)) =
       monitors_started (trace (consume_results ctx results))"
    unfolding tr using j st cj by (cases task) (simp_all add: app task_list_def)
  have ms: "monitors_started (trace (consume_results ctx results)) = task_list task"
    unfolding tr using st cj by (cases task) (simp_all add: app task_list_def)
  have cc: "cancellation_checks (trace (consume_results ctx results)) = cancellation_checks events"
    unfolding tr using cj by (cases task) simp_all
  have B: "cancellation_checks (trace (consume_results ctx results)) =
          replicate (length results) False
        \<and> monitors_started (trace (consume_results ctx results)) =
          take 1 (List.map_filter sglang_request_id results)"
    if "ctx \<noteq> None" "\<forall>t. \<not> signalled ctx t"
  proof -
    from that(1) obtain c where c: "ctx = Some c" by auto
    from consume_loop_reads_all [OF that(2) c l] show ?thesis
      unfolding cc ms by (simp add: task_list_def)
  qed
  have C: "cancellation_checks (trace (consume_results ctx results)) = [True]"
    if "signalled ctx 0" "results \<noteq> []"
    using consume_loop_cancelled_at_once [OF that] unfolding cc l by simp
  from r A B C show ?thesis by blast
qed

lemma generate_bootstrap_room_draw:
  "(entropy < 2 ^ 63 \<longrightarrow> generate_bootstrap_room entropy = int entropy)
   \<and> (0 \<le> r \<and> r \<le> 2 ^ 63 - 1 \<longrightarrow> generate_bootstrap_room (nat r) = r)"
proof -
  have a: "int entropy mod 2 ^ 63 = int entropy" if "entropy < 2 ^ 63"
  proof -
    from that have "int entropy < 2 ^ 63"
      by (metis of_nat_less_iff of_nat_numeral of_nat_power)
    then show ?thesis by simp
  qed
  have b: "int (nat r) mod 2 ^ 63 = r" if "0 \<le> r" "r \<le> 2 ^ 63 - 1"
    using that by simp
  show ?thesis using a b by (simp add: generate_bootstrap_room_def randint_def)
qed

text \<open>
  A prefill handler that reads \<open>token_ids\<close> receives a request that has chat messages and no
  \<open>token_ids\<close>: it yields the bootstrap info, then \<open>_get_input_param\<close> raises \<open>KeyError\<close>; no
  engine call is made and no task is detached.
\<close>

theorem prefill_without_input_counterexample:
  "generator (prefill_generate (example_sgl_collaborators [] []) example_prefill_handler 42
      \<lparr>pr_request =
         \<lparr>sgl_sampling_options = None, sgl_stop_conditions = None, sgl_top_level = Map.empty,
          sgl_token_ids = None, sgl_messages = Some (PList [PStr ''hello''])\<rparr>,
       pr_sampling_params = []\<rparr> None) =
     \<lparr>trace = [YieldBootstrap [(''bootstrap_host'', PStr ''10.0.0.1''),
                                 (''bootstrap_port'', PInt 8998), (''bootstrap_room'', PInt 42)]],
      sgl_raised = Some (KeyError ''token_ids'')\<rparr>
   \<and> detached (prefill_generate (example_sgl_collaborators [] []) example_prefill_handler 42
      \<lparr>pr_request =
         \<lparr>sgl_sampling_options = None, sgl_stop_conditions = None, sgl_top_level = Map.empty,
          sgl_token_ids = None, sgl_messages = Some (PList [PStr ''hello''])\<rparr>,
       pr_sampling_params = []\<rparr> None) = None"
  by (simp add: prefill_generate_def get_input_param_def generate_bootstrap_room_def randint_def
      example_defs Let_def)

text \<open>
  C6, as the code has it. \<open>PrefillWorkerHandler.generate\<close> yields the bootstrap info
  \<open>{bootstrap_host, bootstrap_port, bootstrap_room}\<close> first, and yields nothing else.
  \<open>bootstrap_room\<close> is the integer \<open>random.randint(0, 2**63 - 1)\<close> draws: it lies in
  \<open>[0, 2^63 - 1]\<close>, it is the generator's draw itself when that is below \<open>2^63\<close>, and every
  integer of the range is the room of some draw. When the request has the input the
  handler reads, one engine call follows the yield, with the same host, port and room, and
  its stream goes to the detached task. That task yields nothing and raises nothing; it
  joins every monitor it started; under a context that is never signalled it reads the
  whole stream, one cancellation check per snapshot, and starts the monitor for the first
  snapshot that has a request id; under a context already signalled it stops at its first
  check. When the input is missing the generator raises the \<open>KeyError\<close> after the yield,
  with no engine call and no task. What the generator does is the same whatever the engine
  returns.
\<close>

theorem prefill_yields_bootstrap_info:
  assumes "room = generate_bootstrap_room entropy"
    and "info = [(''bootstrap_host'', PStr (bootstrap_host h)),
                 (''bootstrap_port'', PInt (bootstrap_port h)),
                 (''bootstrap_room'', PInt room)]"
    and "run = prefill_generate ext h entropy request ctx"
    and "call =
           \<lparr>sgl_input_param = input_param,
            sgl_call_sampling_params = pr_sampling_params request,
            sgl_call_stream = True,
            sgl_call_bootstrap =
              Some (PStr (bootstrap_host h), PInt (bootstrap_port h), PInt room)\<rparr>"
    and "task = consume_results ctx (async_generate ext call)"
  shows
    "0 \<le> room \<and> room \<le> 2 ^ 63 - 1
     \<and> (entropy < 2 ^ 63 \<longrightarrow> room = int entropy)
     \<and> (0 \<le> r \<and> r \<le> 2 ^ 63 - 1 \<longrightarrow> generate_bootstrap_room (nat r) = r)
     \<and> (\<exists>rest. trace (generator run) = YieldBootstrap info # rest)
     \<and> yielded_items (trace (generator run)) = [YieldBootstrap info]
     \<and> (get_input_param ext (prefill_skip_tokenizer_init h) (pr_request request) = Inr input_param \<longrightarrow>
          generator run =
            \<lparr>trace = [YieldBootstrap info, EngineCalled call, TaskSpawned], sgl_raised = None\<rparr>
          \<and> detached run = Some task)
     \<and> (get_input_param ext (prefill_skip_tokenizer_init h) (pr_request request) = Inl e \<longrightarrow>
          generator run = \<lparr>trace = [YieldBootstrap info], sgl_raised = Some e\<rparr>
          \<and> detached run = None)
     \<and> yielded_items (trace task) = []
     \<and> sgl_raised task = None
     \<and> monitors_joined (trace task) = monitors_started (trace task)
     \<and> (ctx \<noteq> None \<and> (\<forall>t. \<not> signalled ctx t) \<longrightarrow>
          cancellation_checks (trace task) = replicate (length (async_generate ext call)) False
          \<and> monitors_started (trace task) =
              take 1 (List.map_filter sglang_request_id (async_generate ext call)))
     \<and> (signalled ctx 0 \<and> async_generate ext call \<noteq> [] \<longrightarrow>
          cancellation_checks (trace task) = [True])
     \<and> (\<forall>d. detached run = Some d \<longrightarrow> yielded_items (trace d) = [])
     \<and> generator (prefill_generate (ext\<lparr>async_generate := other_engine\<rparr>) h entropy request ctx) =
         generator run"
proof -
  have r: "0 \<le> room \<and> room \<le> 2 ^ 63 - 1"
    using generate_bootstrap_room_range [of entropy] assms(1) by simp
  have dr: "(entropy < 2 ^ 63 \<longrightarrow> room = int entropy)
     \<and> (0 \<le> r \<and> r \<le> 2 ^ 63 - 1 \<longrightarrow> generate_bootstrap_room (nat r) = r)"
    using generate_bootstrap_room_draw [of entropy r] assms(1) by simp
  have d: "\<forall>d. detached run = Some d \<longrightarrow> yielded_items (trace d) = []"
    unfolding assms(3)
    by (auto simp: prefill_generate_def Let_def consume_results_yields split: sum.splits)
  have g: "generator (prefill_generate (ext\<lparr>async_generate := other_engine\<rparr>) h entropy request ctx) =
         generator run"
    unfolding assms(3)
    by (simp add: prefill_generate_def Let_def get_input_param_def split: sum.splits option.splits)
  have t: "yielded_items (trace task) = []
     \<and> sgl_raised task = None
     \<and> monitors_joined (trace task) = monitors_started (trace task)
     \<and> (ctx \<noteq> None \<and> (\<forall>t. \<not> signalled ctx t) \<longrightarrow>
          cancellation_checks (trace task) = replicate (length (async_generate ext call)) False
          \<and> monitors_started (trace task) =
              take 1 (List.map_filter sglang_request_id (async_generate ext call)))
     \<and> (signalled ctx 0 \<and> async_generate ext call \<noteq> [] \<longrightarrow>
          cancellation_checks (trace task) = [True])"
    unfolding assms(5)
    using consume_results_yields [of ctx "async_generate ext call"]
      consume_results_trace [of ctx "async_generate ext call"]
    by blast
  have i: "get_input_param ext (prefill_skip_tokenizer_init h) (pr_request request) = Inr input_param \<longrightarrow>
          generator run =
            \<lparr>trace = [YieldBootstrap info, EngineCalled call, TaskSpawned], sgl_raised = None\<rparr>
          \<and> detached run = Some task"
    unfolding assms by (simp add: prefill_generate_def Let_def)
  have f: "get_input_param ext (prefill_skip_tokenizer_init h) (pr_request request) = Inl e \<longrightarrow>
          generator run = \<lparr>trace = [YieldBootstrap info], sgl_raised = Some e\<rparr>
          \<and> detached run = None"
    unfolding assms by (simp add: prefill_generate_def Let_def)
  have y: "(\<exists>rest. trace (generator run) = YieldBootstrap info # rest)
     \<and> yielded_items (trace (generator run)) = [YieldBootstrap info]"
    unfolding assms(1,2,3)
    by (cases "get_input_param ext (prefill_skip_tokenizer_init h) (pr_request request)")
      (simp_all add: prefill_generate_def Let_def)
  from r dr y i f t d g show ?thesis by blast
qed

theorem prefill_yields_bootstrap_info_witness:
  "generate_bootstrap_room 9223372036854775850 = 42
   \<and> (7::nat) < 2 ^ 63 \<and> generate_bootstrap_room 7 = 7
   \<and> (0::int) \<le> 42 \<and> (42::int) \<le> 2 ^ 63 - 1 \<and> generate_bootstrap_room (nat 42) = 42
   \<and> get_input_param
        (example_sgl_collaborators [sgl_snapshot [4] ''a'' FrNone, sgl_snapshot [4, 5] ''ab'' FrNone] [])
        (prefill_skip_tokenizer_init example_prefill_handler)
        (pr_request \<lparr>pr_request = example_sgl_request Map.empty, pr_sampling_params = []\<rparr>) =
       Inr (InputIds [1, 2, 3])
   \<and> yielded_items (trace (generator (prefill_generate
        (example_sgl_collaborators [sgl_snapshot [4] ''a'' FrNone, sgl_snapshot [4, 5] ''ab'' FrNone] [])
        example_prefill_handler 9223372036854775850
        \<lparr>pr_request = example_sgl_request Map.empty, pr_sampling_params = []\<rparr>
        (Some (example_context None))))) =
       [YieldBootstrap [(''bootstrap_host'', PStr ''10.0.0.1''), (''bootstrap_port'', PInt 8998),
                        (''bootstrap_room'', PInt 42)]]
   \<and> Some (example_context None) \<noteq> None
   \<and> (\<forall>t. \<not> signalled (Some (example_context None)) t)
   \<and> (\<exists>task. detached (prefill_generate
          (example_sgl_collaborators [sgl_snapshot [4] ''a'' FrNone, sgl_snapshot [4, 5] ''ab'' FrNone] [])
          example_prefill_handler 9223372036854775850
          \<lparr>pr_request = example_sgl_request Map.empty, pr_sampling_params = []\<rparr>
          (Some (example_context None))) = Some task
        \<and> yielded_items (trace task) = []
        \<and> cancellation_checks (trace task) = [False, False]
        \<and> monitors_started (trace task) = [''rid-1'']
        \<and> monitors_joined (trace task) = [''rid-1''])
   \<and> signalled (Some (example_context (Some 0))) 0
   \<and> (\<exists>task. detached (prefill_generate
          (example_sgl_collaborators [sgl_snapshot [4] ''a'' FrNone, sgl_snapshot [4, 5] ''ab'' FrNone] [])
          example_prefill_handler 9223372036854775850
          \<lparr>pr_request = example_sgl_request Map.empty, pr_sampling_params = []\<rparr>
          (Some (example_context (Some 0)))) = Some task
        \<and> cancellation_checks (trace task) = [True])
   \<and> get_input_param (example_sgl_collaborators [] [])
        (prefill_skip_tokenizer_init example_prefill_handler)
        (pr_request \<lparr>pr_request = (example_sgl_request Map.empty)\<lparr>sgl_token_ids := None\<rparr>,
                     pr_sampling_params = []\<rparr>) = Inl (KeyError ''token_ids'')
   \<and> sgl_raised (generator (prefill_generate (example_sgl_collaborators [] [])
        example_prefill_handler 9223372036854775850
        \<lparr>pr_request = (example_sgl_request Map.empty)\<lparr>sgl_token_ids := None\<rparr>,
         pr_sampling_params = []\<rparr> None)) = Some (KeyError ''token_ids'')"
proof -
  let ?S = "[sgl_snapshot [4] ''a'' FrNone, sgl_snapshot [4, 5] ''ab'' FrNone]"
  let ?ext = "example_sgl_collaborators ?S []"
  let ?req = "\<lparr>pr_request = example_sgl_request Map.empty, pr_sampling_params = []\<rparr>"
  let ?bad = "\<lparr>pr_request = (example_sgl_request Map.empty)\<lparr>sgl_token_ids := None\<rparr>,
         pr_sampling_params = []\<rparr>"
  let ?live = "Some (example_context None)"
  let ?stopped = "Some (example_context (Some 0))"
  let ?E = "9223372036854775850 :: nat"
  have room: "generate_bootstrap_room ?E = 42"
    by (simp add: generate_bootstrap_room_def randint_def)
  have ip: "get_input_param ?ext (prefill_skip_tokenizer_init example_prefill_handler)
        (pr_request ?req) = Inr (InputIds [1, 2, 3])"
    by (simp add: get_input_param_def example_defs)
  have ib: "get_input_param (example_sgl_collaborators [] [])
        (prefill_skip_tokenizer_init example_prefill_handler) (pr_request ?bad) =
        Inl (KeyError ''token_ids'')"
    by (simp add: get_input_param_def example_defs)
  have ns: "\<forall>t. \<not> signalled ?live t" and sg: "signalled ?stopped 0"
    by (simp_all add: signalled_def example_context_def)
  have st: "async_generate ?ext c = ?S" for c by (simp add: example_sgl_collaborators_def)
  have ids: "List.map_filter sglang_request_id ?S = [''rid-1'', ''rid-1'']"
    by (simp add: List.map_filter_def sglang_request_id_def sgl_snapshot_def)
  note A = prefill_yields_bootstrap_info [OF refl refl refl refl refl, where entropy = ?E
      and h = example_prefill_handler and ext = ?ext and request = ?req and ctx = ?live
      and input_param = "InputIds [1, 2, 3]" and r = 42 and e = "KeyError []"]
  note B = prefill_yields_bootstrap_info [OF refl refl refl refl refl, where entropy = ?E
      and h = example_prefill_handler and ext = ?ext and request = ?req and ctx = ?stopped
      and input_param = "InputIds [1, 2, 3]" and r = 42 and e = "KeyError []"]
  note C = prefill_yields_bootstrap_info [OF refl refl refl refl refl, where entropy = ?E
      and h = example_prefill_handler and ext = "example_sgl_collaborators [] []"
      and request = ?bad and ctx = None
      and input_param = "InputIds [1, 2, 3]" and r = 42 and e = "KeyError ''token_ids''"]
  note D = prefill_yields_bootstrap_info [OF refl refl refl refl refl, where entropy = 7
      and h = example_prefill_handler and ext = ?ext and request = ?req and ctx = ?live
      and input_param = "InputIds [1, 2, 3]" and r = 42 and e = "KeyError []"]
  have d7: "(7::nat) < 2 ^ 63" by simp
  have r7: "generate_bootstrap_room 7 = 7" using D d7 by simp
  have r42: "generate_bootstrap_room (nat 42) = 42" using A by simp
  have y: "yielded_items (trace (generator (prefill_generate ?ext example_prefill_handler ?E
        ?req ?live))) =
       [YieldBootstrap [(''bootstrap_host'', PStr ''10.0.0.1''), (''bootstrap_port'', PInt 8998),
                        (''bootstrap_room'', PInt 42)]]"
    using A by (simp add: room example_prefill_handler_def)
  from A ip have d: "detached (prefill_generate ?ext example_prefill_handler ?E ?req ?live) =
      Some (consume_results ?live ?S)"
    by (simp add: st)
  note A' = A [unfolded st]
  have lv: "?live \<noteq> None" by simp
  from A' have t1: "yielded_items (trace (consume_results ?live ?S)) = []"
    and j: "monitors_joined (trace (consume_results ?live ?S)) =
            monitors_started (trace (consume_results ?live ?S))"
    by blast+
  from A' ns lv have
    "cancellation_checks (trace (consume_results ?live ?S)) = replicate (length ?S) False
     \<and> monitors_started (trace (consume_results ?live ?S)) =
         take 1 (List.map_filter sglang_request_id ?S)"
    by blast
  then have t2: "cancellation_checks (trace (consume_results ?live ?S)) = [False, False]"
    and t3: "monitors_started (trace (consume_results ?live ?S)) = [''rid-1'']"
    unfolding ids by simp_all
  from j t3 have t4: "monitors_joined (trace (consume_results ?live ?S)) = [''rid-1'']"
    by simp
  have live: "\<exists>task. detached (prefill_generate ?ext example_prefill_handler ?E ?req ?live) = Some task
        \<and> yielded_items (trace task) = []
        \<and> cancellation_checks (trace task) = [False, False]
        \<and> monitors_started (trace task) = [''rid-1'']
        \<and> monitors_joined (trace task) = [''rid-1'']"
    using d t1 t2 t3 t4 by blast
  from B ip have d2: "detached (prefill_generate ?ext example_prefill_handler ?E ?req ?stopped) =
      Some (consume_results ?stopped ?S)"
    by (simp add: st)
  have ne: "?S \<noteq> []" by simp
  from B [unfolded st] sg ne have
    "cancellation_checks (trace (consume_results ?stopped ?S)) = [True]"
    by blast
  with d2 have stopped: "\<exists>task. detached (prefill_generate ?ext example_prefill_handler ?E ?req
        ?stopped) = Some task \<and> cancellation_checks (trace task) = [True]"
    by blast
  have bad: "sgl_raised (generator (prefill_generate (example_sgl_collaborators [] [])
        example_prefill_handler ?E ?bad None)) = Some (KeyError ''token_ids'')"
    using C ib by simp
  have le: "(0::int) \<le> 42" "(42::int) \<le> 2 ^ 63 - 1" by simp_all
  from room d7 r7 le r42 ip y lv ns live sg stopped ib bad show ?thesis by blast
qed

end
